(* ===== verification/Prelude.thy ===== *)
theory Prelude
  imports Main
begin

text \<open>
  Shared vocabulary of the development: the proof collections the component
  theories fill, and the generic facts on lists and association lists that
  the handlers' proofs share.  The edge functions keep every table as a list
  of rows and count rows with \<open>filter\<close> and \<open>length\<close>, so most of what is
  here is about filtered lists.
\<close>

named_theorems handler_simps
  "unfolding rules of the request handlers"
named_theorems store_simps
  "equations of the store primitives on a store without injected faults"

section \<open>Filtered lists\<close>

lemma length_filter_le_1_other:
  assumes "length (filter P xs) \<le> 1" and "x \<in> set xs" and "P x"
    and "y \<in> set xs" and "P y"
  shows "x = y"
proof (rule ccontr)
  assume "x \<noteq> y"
  then have "{x, y} \<subseteq> set (filter P xs)" using assms(2-5) by auto
  then have "card {x, y} \<le> card (set (filter P xs))" by (rule card_mono [OF finite_set])
  also have "\<dots> \<le> length (filter P xs)" by (rule card_length)
  finally show False using \<open>x \<noteq> y\<close> assms(1) by simp
qed

lemma two_le_length_filter_distinct:
  assumes "distinct xs" and "2 \<le> length (filter P xs)"
  obtains y where "y \<in> set xs" and "P y" and "y \<noteq> x"
proof -
  obtain a b rest where ab: "filter P xs = a # b # rest"
    using assms(2) by (cases "filter P xs" rule: remdups_adj.cases) auto
  have "distinct (filter P xs)" using assms(1) by simp
  with ab have "a \<noteq> b" by simp
  moreover have "a \<in> set (filter P xs)" "b \<in> set (filter P xs)"
    using ab by simp_all
  ultimately show ?thesis using that by (cases "a = x") auto
qed

text \<open>Filtering a list whose key is unique on one key value.\<close>

lemma length_filter_key_le_1:
  "distinct (map f xs) \<Longrightarrow> length (filter (\<lambda>x. f x = k) xs) \<le> 1"
proof (induction xs)
  case (Cons a xs)
  then show ?case
    by (cases "f a = k") (auto simp: filter_empty_conv image_iff)
qed simp

lemma map_filter_key:
  "distinct (map f xs) \<Longrightarrow>
   map g (filter (\<lambda>x. f x = k) xs) = (case find (\<lambda>x. f x = k) xs of None \<Rightarrow> [] | Some a \<Rightarrow> [g a])"
proof (induction xs)
  case (Cons a xs)
  show ?case
  proof (cases "f a = k")
    case True
    with Cons.prems have "k \<notin> f ` set xs" by simp
    then have "find (\<lambda>x. f x = k) xs = None" by (auto simp: find_None_iff)
    with Cons True show ?thesis by simp
  next
    case False
    with Cons show ?thesis by simp
  qed
qed simp

lemma find_key_Some:
  assumes "distinct (map f xs)"
  shows "find (\<lambda>x. f x = k) xs = Some a \<longleftrightarrow> a \<in> set xs \<and> f a = k"
  using assms by (induction xs) (auto simp: image_iff)

lemma filter_filter_commute:
  "filter P (filter Q xs) = filter Q (filter P xs)"
  by (simp add: conj_commute)

lemma distinct_map_filter [intro]:
  "distinct (map f xs) \<Longrightarrow> distinct (map f (filter P xs))"
  by (induction xs) auto

lemma set_map_filter_subset:
  "set (map f (filter P xs)) \<subseteq> set (map f xs)"
  by auto

end
