(* ===== verification/Http.thy ===== *)
theory Http
  imports Prelude
begin

text \<open>
  The request/response boundary shared by every edge function: parsed JSON
  bodies, JavaScript truthiness (\<open>!x\<close>), the string conversion
  \<open>String(v)\<close> that supabase-js applies to a filter value, the bearer token
  taken from the \<open>Authorization\<close> header, and the HTTP responses the
  handlers return (status and JSON body; the CORS headers are constant and
  left out).
\<close>

section \<open>JSON values\<close>

datatype jval =
    JNull
  | JBool bool
  | JNum int
  | JStr string
  | JArr "jval list"
  | JObj "(string \<times> jval) list"

type_synonym body = "(string \<times> jval) list"

text \<open>\<open>body.k\<close>: JSON.parse keeps the last of duplicate keys; a missing key
  is \<open>undefined\<close>, i.e. \<open>None\<close>.\<close>

definition jfield :: "(string \<times> jval) list \<Rightarrow> string \<Rightarrow> jval option" where
  "jfield kvs k = map_of (rev kvs) k"

text \<open>JavaScript truthiness of a possibly undefined value.\<close>

fun truthy :: "jval option \<Rightarrow> bool" where
  "truthy None = False"
| "truthy (Some JNull) = False"
| "truthy (Some (JBool b)) = b"
| "truthy (Some (JNum n)) = (n \<noteq> 0)"
| "truthy (Some (JStr s)) = (s \<noteq> [])"
| "truthy (Some (JArr xs)) = True"
| "truthy (Some (JObj kvs)) = True"

text \<open>Decimal rendering of integers, as \<open>String(n)\<close> prints them.\<close>

fun show_nat :: "nat \<Rightarrow> string" where
  "show_nat n = (if n < 10 then [char_of (48 + n)]
                 else show_nat (n div 10) @ [char_of (48 + n mod 10)])"

definition show_int :: "int \<Rightarrow> string" where
  "show_int i = (if i < 0 then CHR ''-'' # show_nat (nat (- i)) else show_nat (nat i))"

text \<open>\<open>xs.join(sep)\<close>.\<close>

fun join_with :: "string \<Rightarrow> string list \<Rightarrow> string" where
  "join_with sep [] = []"
| "join_with sep [x] = x"
| "join_with sep (x # xs) = x @ sep @ join_with sep xs"

text \<open>\<open>String(v)\<close>: the text a filter such as \<open>.eq('id', v)\<close> sends to
  the store.  Array elements that are \<open>null\<close> print as the empty string.\<close>

fun js_string :: "jval \<Rightarrow> string" where
  "js_string JNull = ''null''"
| "js_string (JBool b) = (if b then ''true'' else ''false'')"
| "js_string (JNum n) = show_int n"
| "js_string (JStr s) = s"
| "js_string (JArr xs) =
     join_with '','' (map (\<lambda>x. if x = JNull then [] else js_string x) xs)"
| "js_string (JObj kvs) = ''[object Object]''"

text \<open>\<open>typeof v === 'string'\<close> and \<open>typeof v === 'boolean'\<close>.\<close>

fun is_jstr :: "jval \<Rightarrow> bool" where
  "is_jstr (JStr s) = True"
| "is_jstr v = False"

fun is_jbool :: "jval option \<Rightarrow> bool" where
  "is_jbool (Some (JBool b)) = True"
| "is_jbool v = False"

section \<open>Authorization header\<close>

text \<open>\<open>authHeader.startsWith('Bearer ') ? authHeader.substring(7) : authHeader\<close>
  (src/src/supabase/functions/manage-roles/index.ts, lines 48--49).\<close>

definition bearer_token :: "string \<Rightarrow> string" where
  "bearer_token h = (if take 7 h = ''Bearer '' then drop 7 h else h)"

lemma truthy_Some_JStr [simp]: "truthy (Some (JStr s)) \<longleftrightarrow> s \<noteq> []"
  by simp

lemma js_string_singleton [simp]: "js_string (JArr [JStr u]) = u"
  by simp

lemma show_nat_nonempty: "show_nat n \<noteq> []"
  by (subst show_nat.simps) simp

declare show_nat.simps [simp del]

end
