(* ===== verification/Store.thy ===== *)
theory Store
  imports Http
begin

text \<open>
  The hosted relational store and identity provider, as the edge functions
  see them through supabase-js.  The store is not code of this repository:
  its tables and the semantics of \<open>select\<close>, \<open>insert\<close>, \<open>upsert\<close>,
  \<open>update\<close> and \<open>delete\<close> are modelled from the data model of the spec
  (unique role and permission names, join tables keyed on their pair, a
  profile keyed on the user id).  Every call can fail: the store carries the
  list \<open>faults\<close> of calls that answer with an error, so that each
  \<open>if (err) throw err\<close> of the handlers is a reachable branch of the model.
  A failing call changes nothing; the calls before it keep their effect,
  since no handler runs in a transaction.
\<close>

section \<open>Rows and the store\<close>

type_synonym uuid = string

record role_row =
  role_id :: uuid
  role_name :: string
  role_desc :: "jval option"
  role_disabled :: bool

record perm_row =
  perm_id :: uuid
  perm_name :: string

record rp_row =
  rp_role :: uuid
  rp_perm :: uuid

record ur_row =
  ur_user :: uuid
  ur_role :: uuid

record profile_row =
  prof_id :: uuid
  prof_active :: bool

record auth_user =
  au_id :: uuid
  au_email :: string
  au_meta_role :: "jval option"
  au_disabled :: bool

datatype table = Roles | Permissions | RolePermissions | UserRoles | Profiles | RefreshTokens

datatype dbop = Select | Insert | Upsert | Update | Delete

datatype auth_op = GetUser | ListUsers | UpdateUser | DeleteUser

datatype call = DB table dbop | Auth auth_op

datatype db_error =
    Failed call
  | UniqueViolation table
  | MultipleRows table
  | ConflictTwice table

record store =
  roles :: "role_row list"
  permissions :: "perm_row list"
  role_permissions :: "rp_row list"
  user_roles :: "ur_row list"
  profiles :: "profile_row list"
  refresh_tokens :: "uuid list"
  auth_users :: "auth_user list"
  sessions :: "(string \<times> uuid) list"
  next_id :: nat
  faults :: "call list"

definition fails :: "store \<Rightarrow> call \<Rightarrow> bool" where
  "fails s c \<longleftrightarrow> c \<in> set (faults s)"

definition no_faults :: "store \<Rightarrow> bool" where
  "no_faults s \<longleftrightarrow> faults s = []"

text \<open>A call that reads: the error if the call is injected to fail.\<close>

definition read_call :: "store \<Rightarrow> call \<Rightarrow> 'a \<Rightarrow> db_error + 'a" where
  "read_call s c x = (if fails s c then Inl (Failed c) else Inr x)"

text \<open>A call that writes: the new store, or the error and no change.\<close>

definition write_call :: "store \<Rightarrow> call \<Rightarrow> (db_error + store) \<Rightarrow> db_error + store" where
  "write_call s c r = (if fails s c then Inl (Failed c) else r)"

text \<open>\<open>.maybeSingle()\<close>: no row is \<open>null\<close>, one row is the row, more rows
  are an error.\<close>

fun maybe_single :: "table \<Rightarrow> 'a list \<Rightarrow> db_error + 'a option" where
  "maybe_single t [] = Inr None"
| "maybe_single t [x] = Inr (Some x)"
| "maybe_single t xs = Inl (MultipleRows t)"

section \<open>Handler responses\<close>

text \<open>A user of the listings (lines 83--90 and 301--307): id, e-mail (absent
  for users taken from the role rows), the \<open>role\<close> field of the
  metadata, the assigned roles, the \<open>role\<close> shown and, in the newer listing
  only, \<open>is_active\<close>.\<close>

record user_entry =
  ue_id :: uuid
  ue_email :: "string option"
  ue_meta_role :: "jval option"
  ue_roles :: "role_row list"
  ue_role :: jval
  ue_active :: "bool option"

datatype resp_body =
    OkText
  | Success
  | ErrMsg string
  | DbErr db_error
  | RoleCreated role_row
  | RolesList "(role_row \<times> perm_row list) list"
  | UsersList "user_entry list"

record response =
  status :: nat
  resp :: resp_body

definition reply :: "nat \<Rightarrow> resp_body \<Rightarrow> response" where
  "reply n b = \<lparr>status = n, resp = b\<rparr>"

text \<open>The \<open>catch\<close> of every handler: an upstream error is answered 500.\<close>

definition fail500 :: "db_error \<Rightarrow> response" where
  "fail500 e = reply 500 (DbErr e)"

section \<open>Store primitives\<close>

subsection \<open>roles\<close>

definition sel_role_by_name :: "store \<Rightarrow> string \<Rightarrow> db_error + role_row option" where
  "sel_role_by_name s n =
     (if fails s (DB Roles Select) then Inl (Failed (DB Roles Select))
      else maybe_single Roles (filter (\<lambda>r. role_name r = n) (roles s)))"

definition sel_role_by_id :: "store \<Rightarrow> uuid \<Rightarrow> db_error + role_row option" where
  "sel_role_by_id s rid =
     (if fails s (DB Roles Select) then Inl (Failed (DB Roles Select))
      else maybe_single Roles (filter (\<lambda>r. role_id r = rid) (roles s)))"

definition sel_roles_in :: "store \<Rightarrow> uuid list \<Rightarrow> db_error + role_row list" where
  "sel_roles_in s ids = read_call s (DB Roles Select) (filter (\<lambda>r. role_id r \<in> set ids) (roles s))"

text \<open>\<open>insert({ name, description }).select('*').maybeSingle()\<close>: the new
  row, with a fresh id and \<open>disabled\<close> false; the name and the id are
  unique.\<close>

definition ins_role :: "store \<Rightarrow> string \<Rightarrow> jval option \<Rightarrow> db_error + (role_row \<times> store)" where
  "ins_role s n d =
     (let r = \<lparr>role_id = ''r'' @ show_nat (next_id s), role_name = n, role_desc = d, role_disabled = False\<rparr> in
      if fails s (DB Roles Insert) then Inl (Failed (DB Roles Insert))
      else if n \<in> set (map role_name (roles s)) \<or> role_id r \<in> set (map role_id (roles s))
      then Inl (UniqueViolation Roles)
      else Inr (r, s\<lparr>roles := roles s @ [r], next_id := Suc (next_id s)\<rparr>))"

text \<open>\<open>update({ name, description }).eq('id', id)\<close>: JSON.stringify drops an
  undefined field, so only the fields present in the body are written.\<close>

definition upd_role :: "store \<Rightarrow> uuid \<Rightarrow> jval option \<Rightarrow> jval option \<Rightarrow> db_error + store" where
  "upd_role s rid nv dv = write_call s (DB Roles Update)
     (if rid \<in> set (map role_id (roles s)) \<and>
         (case nv of None \<Rightarrow> False
          | Some v \<Rightarrow> js_string v \<in> set (map role_name (filter (\<lambda>r. role_id r \<noteq> rid) (roles s))))
      then Inl (UniqueViolation Roles)
      else Inr (s\<lparr>roles := map (\<lambda>r. if role_id r = rid
                   then r\<lparr>role_name := (case nv of None \<Rightarrow> role_name r | Some v \<Rightarrow> js_string v),
                          role_desc := (case dv of None \<Rightarrow> role_desc r | Some d \<Rightarrow> Some d)\<rparr>
                   else r) (roles s)\<rparr>))"

definition disable_role :: "store \<Rightarrow> uuid \<Rightarrow> db_error + store" where
  "disable_role s rid = write_call s (DB Roles Update)
     (Inr (s\<lparr>roles := map (\<lambda>r. if role_id r = rid then r\<lparr>role_disabled := True\<rparr> else r) (roles s)\<rparr>))"

definition del_role :: "store \<Rightarrow> uuid \<Rightarrow> db_error + store" where
  "del_role s rid = write_call s (DB Roles Delete)
     (Inr (s\<lparr>roles := filter (\<lambda>r. role_id r \<noteq> rid) (roles s)\<rparr>))"

text \<open>\<open>select('*').order('created_at', { ascending: false })\<close>: rows are
  kept in creation order, so the newest first is the reversed list.\<close>

definition sel_roles_desc :: "store \<Rightarrow> db_error + role_row list" where
  "sel_roles_desc s = read_call s (DB Roles Select) (rev (roles s))"

subsection \<open>permissions and role\_permissions\<close>

fun alloc_perms :: "nat \<Rightarrow> string list \<Rightarrow> perm_row list" where
  "alloc_perms n [] = []"
| "alloc_perms n (x # xs) = \<lparr>perm_id = ''p'' @ show_nat n, perm_name = x\<rparr> # alloc_perms (Suc n) xs"

text \<open>\<open>upsert(rows, { onConflict: ['name'] })\<close>: names not yet present are
  inserted with fresh ids; two rows of one batch with the same key make the
  statement fail (ON CONFLICT DO UPDATE cannot affect a row twice).\<close>

definition ups_perms :: "store \<Rightarrow> string list \<Rightarrow> db_error + store" where
  "ups_perms s ns = write_call s (DB Permissions Upsert)
     (if \<not> distinct ns then Inl (ConflictTwice Permissions)
      else (let fresh = filter (\<lambda>n. n \<notin> set (map perm_name (permissions s))) ns;
                new = alloc_perms (next_id s) fresh in
            if set (map perm_id new) \<inter> set (map perm_id (permissions s)) \<noteq> {}
            then Inl (UniqueViolation Permissions)
            else Inr (s\<lparr>permissions := permissions s @ new, next_id := next_id s + length fresh\<rparr>)))"

definition sel_perm_ids :: "store \<Rightarrow> string list \<Rightarrow> db_error + uuid list" where
  "sel_perm_ids s ns = read_call s (DB Permissions Select)
     (map perm_id (filter (\<lambda>p. perm_name p \<in> set ns) (permissions s)))"

definition sel_perms_in :: "store \<Rightarrow> uuid list \<Rightarrow> db_error + perm_row list" where
  "sel_perms_in s ids = read_call s (DB Permissions Select) (filter (\<lambda>p. perm_id p \<in> set ids) (permissions s))"

definition sel_rp_of_role :: "store \<Rightarrow> uuid \<Rightarrow> db_error + uuid list" where
  "sel_rp_of_role s rid = read_call s (DB RolePermissions Select)
     (map rp_perm (filter (\<lambda>m. rp_role m = rid) (role_permissions s)))"

text \<open>\<open>upsert(mappings, { onConflict: ['role_id', 'permission_id'] })\<close>.\<close>

definition ups_rps :: "store \<Rightarrow> uuid \<Rightarrow> uuid list \<Rightarrow> db_error + store" where
  "ups_rps s rid pids = write_call s (DB RolePermissions Upsert)
     (if \<not> distinct pids then Inl (ConflictTwice RolePermissions)
      else Inr (s\<lparr>role_permissions := role_permissions s @
                  filter (\<lambda>m. m \<notin> set (role_permissions s)) (map (\<lambda>p. \<lparr>rp_role = rid, rp_perm = p\<rparr>) pids)\<rparr>))"

definition del_rps_of_role :: "store \<Rightarrow> uuid \<Rightarrow> db_error + store" where
  "del_rps_of_role s rid = write_call s (DB RolePermissions Delete)
     (Inr (s\<lparr>role_permissions := filter (\<lambda>m. rp_role m \<noteq> rid) (role_permissions s)\<rparr>))"

subsection \<open>user\_roles\<close>

definition sel_ur_by_user :: "store \<Rightarrow> uuid \<Rightarrow> db_error + ur_row list" where
  "sel_ur_by_user s u = read_call s (DB UserRoles Select) (filter (\<lambda>r. ur_user r = u) (user_roles s))"

definition sel_ur_by_role :: "store \<Rightarrow> uuid \<Rightarrow> db_error + ur_row list" where
  "sel_ur_by_role s rid = read_call s (DB UserRoles Select) (filter (\<lambda>r. ur_role r = rid) (user_roles s))"

definition sel_ur_all :: "store \<Rightarrow> db_error + ur_row list" where
  "sel_ur_all s = read_call s (DB UserRoles Select) (user_roles s)"

text \<open>The join table is keyed on the pair: a second insert of a pair is a
  unique violation.\<close>

definition ins_ur :: "store \<Rightarrow> uuid \<Rightarrow> uuid \<Rightarrow> db_error + store" where
  "ins_ur s u rid = write_call s (DB UserRoles Insert)
     (if \<lparr>ur_user = u, ur_role = rid\<rparr> \<in> set (user_roles s) then Inl (UniqueViolation UserRoles)
      else Inr (s\<lparr>user_roles := user_roles s @ [\<lparr>ur_user = u, ur_role = rid\<rparr>]\<rparr>))"

text \<open>\<open>upsert\<close> on the key: insert if absent, otherwise leave the row.\<close>

definition ups_ur :: "store \<Rightarrow> uuid \<Rightarrow> uuid \<Rightarrow> db_error + store" where
  "ups_ur s u rid = write_call s (DB UserRoles Upsert)
     (Inr (if \<lparr>ur_user = u, ur_role = rid\<rparr> \<in> set (user_roles s) then s
           else s\<lparr>user_roles := user_roles s @ [\<lparr>ur_user = u, ur_role = rid\<rparr>]\<rparr>))"

definition del_ur_where :: "store \<Rightarrow> (ur_row \<Rightarrow> bool) \<Rightarrow> db_error + store" where
  "del_ur_where s P = write_call s (DB UserRoles Delete)
     (Inr (s\<lparr>user_roles := filter (\<lambda>r. \<not> P r) (user_roles s)\<rparr>))"

subsection \<open>profiles\<close>

definition sel_profile :: "store \<Rightarrow> uuid \<Rightarrow> db_error + profile_row option" where
  "sel_profile s u =
     (if fails s (DB Profiles Select) then Inl (Failed (DB Profiles Select))
      else maybe_single Profiles (filter (\<lambda>p. prof_id p = u) (profiles s)))"

definition ins_profile :: "store \<Rightarrow> uuid \<Rightarrow> bool \<Rightarrow> db_error + store" where
  "ins_profile s u a = write_call s (DB Profiles Insert)
     (if u \<in> set (map prof_id (profiles s)) then Inl (UniqueViolation Profiles)
      else Inr (s\<lparr>profiles := profiles s @ [\<lparr>prof_id = u, prof_active = a\<rparr>]\<rparr>))"

definition upd_profile :: "store \<Rightarrow> uuid \<Rightarrow> bool \<Rightarrow> db_error + store" where
  "upd_profile s u a = write_call s (DB Profiles Update)
     (Inr (s\<lparr>profiles := map (\<lambda>p. if prof_id p = u then p\<lparr>prof_active := a\<rparr> else p) (profiles s)\<rparr>))"

definition del_profile :: "store \<Rightarrow> uuid \<Rightarrow> db_error + store" where
  "del_profile s u = write_call s (DB Profiles Delete)
     (Inr (s\<lparr>profiles := filter (\<lambda>p. prof_id p \<noteq> u) (profiles s)\<rparr>))"

definition sel_profiles_all :: "store \<Rightarrow> db_error + profile_row list" where
  "sel_profiles_all s = read_call s (DB Profiles Select) (profiles s)"

subsection \<open>Identity provider\<close>

text \<open>\<open>auth.admin.listUsers()\<close> without arguments answers the first page of
  the identity provider's users, 50 of them.\<close>

definition auth_list_users :: "store \<Rightarrow> db_error + auth_user list" where
  "auth_list_users s = read_call s (Auth ListUsers) (take 50 (auth_users s))"

text \<open>\<open>auth.getUser(token)\<close>: the id of the session's user, \<open>None\<close> on an
  empty token or an error (getUserIdFromToken, lines 15--25).\<close>

definition auth_get_user :: "store \<Rightarrow> string \<Rightarrow> uuid option" where
  "auth_get_user s tok =
     (if tok = [] then None
      else if fails s (Auth GetUser) then None
      else map_of (sessions s) tok)"

definition auth_update :: "store \<Rightarrow> uuid \<Rightarrow> (auth_user \<Rightarrow> auth_user) \<Rightarrow> db_error + store" where
  "auth_update s u f = write_call s (Auth UpdateUser)
     (Inr (s\<lparr>auth_users := map (\<lambda>a. if au_id a = u then f a else a) (auth_users s)\<rparr>))"

definition auth_delete :: "store \<Rightarrow> uuid \<Rightarrow> db_error + store" where
  "auth_delete s u = write_call s (Auth DeleteUser)
     (Inr (s\<lparr>auth_users := filter (\<lambda>a. au_id a \<noteq> u) (auth_users s),
             sessions := filter (\<lambda>t. snd t \<noteq> u) (sessions s)\<rparr>))"

definition del_refresh_tokens :: "store \<Rightarrow> uuid \<Rightarrow> db_error + store" where
  "del_refresh_tokens s u = write_call s (DB RefreshTokens Delete)
     (Inr (s\<lparr>refresh_tokens := filter (\<lambda>t. t \<noteq> u) (refresh_tokens s)\<rparr>))"

text \<open>A best-effort call (wrapped in try/catch, or whose \<open>{error}\<close> is
  ignored): on failure the store is left as it was.\<close>

definition best_effort :: "store \<Rightarrow> (db_error + store) \<Rightarrow> store" where
  "best_effort s r = (case r of Inl e \<Rightarrow> s | Inr s' \<Rightarrow> s')"

section \<open>Equations without faults\<close>

text \<open>Stated on the field, so that the simplifier sees that a write keeps
  \<open>faults\<close> unchanged.\<close>

lemma read_call_ok [store_simps]: "faults s = [] \<Longrightarrow> read_call s c x = Inr x"
  by (simp add: read_call_def fails_def)

lemma write_call_ok [store_simps]: "faults s = [] \<Longrightarrow> write_call s c r = r"
  by (simp add: write_call_def fails_def)

lemma fails_no_faults [store_simps]: "faults s = [] \<Longrightarrow> \<not> fails s c"
  by (simp add: fails_def)

lemma maybe_single_filter:
  "length (filter P xs) \<le> 1 \<Longrightarrow> maybe_single t (filter P xs) = Inr (find P xs)"
  by (induction xs) (auto simp: filter_empty_conv find_None_iff)

lemma sel_role_by_name_wf [store_simps]:
  assumes "faults s = []" and "distinct (map role_name (roles s))"
  shows "sel_role_by_name s n = Inr (find (\<lambda>r. role_name r = n) (roles s))"
  using assms maybe_single_filter [OF length_filter_key_le_1 [OF assms(2)]]
  by (simp add: sel_role_by_name_def fails_def)

lemmas store_reads =
  sel_roles_desc_def sel_perm_ids_def sel_perms_in_def sel_rp_of_role_def sel_roles_in_def sel_ur_by_user_def sel_ur_by_role_def sel_ur_all_def
  sel_profiles_all_def auth_list_users_def

lemmas store_writes =
  upd_role_def disable_role_def del_role_def ups_perms_def ups_rps_def del_rps_of_role_def ins_ur_def ups_ur_def del_ur_where_def ins_profile_def upd_profile_def del_profile_def
  auth_update_def auth_delete_def del_refresh_tokens_def best_effort_def

lemmas store_prims =
  ins_role_def upd_role_def disable_role_def del_role_def sel_roles_desc_def ups_perms_def
  sel_perm_ids_def sel_perms_in_def sel_rp_of_role_def ups_rps_def del_rps_of_role_def
  sel_role_by_name_def sel_role_by_id_def sel_roles_in_def sel_ur_by_user_def sel_ur_by_role_def sel_ur_all_def
  ins_ur_def ups_ur_def del_ur_where_def
  sel_profile_def ins_profile_def upd_profile_def del_profile_def
  auth_get_user_def auth_update_def auth_delete_def del_refresh_tokens_def best_effort_def
  sel_profiles_all_def auth_list_users_def

end
