(* ===== verification/Users.thy ===== *)
theory Users
  imports Store
begin

text \<open>
  The user-management endpoints of the manage-roles edge function
  (src/src/supabase/functions/manage-roles/index.ts): \<open>assign-role\<close>
  (lines 96--157), \<open>disable\<close> (lines 160--210) and \<open>delete\<close> (lines
  213--248) under \<open>/manage-users\<close>, and the older \<open>/manage-roles/users\<close>
  endpoints that add and remove a single role row (lines 313--352).  Each
  handler takes the store, the caller's id (the result of
  getUserIdFromToken) and the parsed body, and returns the response and the
  new store.  The guards the code puts before its writes are separate
  definitions (\<open>demote_guard\<close>, \<open>delete_guard\<close>), so that the
  last-administrator invariant can be proved from them.
\<close>

abbreviation admin_role_name :: string where
  "admin_role_name \<equiv> ''administrador''"

section \<open>assign-role\<close>

text \<open>Lines 111--130: when the user currently holds the administrator role
  and the requested role is not \<open>'administrador'\<close>, count the holders and
  refuse to demote the last one.\<close>

definition demote_guard ::
  "store \<Rightarrow> role_row option \<Rightarrow> ur_row list \<Rightarrow> jval option \<Rightarrow> response option" where
  "demote_guard s adm cur_roles rnv =
     (case adm of
        None \<Rightarrow> None
      | Some a \<Rightarrow>
          (if role_id a \<noteq> [] \<and> list_ex (\<lambda>r. ur_role r = role_id a) cur_roles
              \<and> rnv \<noteq> Some (JStr admin_role_name)
           then (case sel_ur_by_role s (role_id a) of
                   Inl e \<Rightarrow> Some (fail500 e)
                 | Inr admins \<Rightarrow>
                     (if length admins \<le> 1
                      then Some (reply 400 (ErrMsg ''Cannot remove role: last administrator''))
                      else None))
           else None))"

text \<open>Lines 132--156: delete every role row of the user, insert the new
  one, then mirror the role name into the identity provider's metadata
  (best effort).\<close>

definition assign_commit :: "store \<Rightarrow> uuid \<Rightarrow> uuid \<Rightarrow> jval option \<Rightarrow> response \<times> store" where
  "assign_commit s u rid rnv =
     (case del_ur_where s (\<lambda>r. ur_user r = u) of
        Inl e \<Rightarrow> (fail500 e, s)
      | Inr s1 \<Rightarrow>
          (case ins_ur s1 u rid of
             Inl e \<Rightarrow> (fail500 e, s1)
           | Inr s2 \<Rightarrow>
               (reply 200 Success,
                best_effort s2 (auth_update s2 u (\<lambda>a. a\<lparr>au_meta_role := rnv\<rparr>)))))"

definition assign_role :: "store \<Rightarrow> uuid option \<Rightarrow> body \<Rightarrow> response \<times> store" where
  "assign_role s cur b =
     (let uidv = jfield b ''user_id''; rnv = jfield b ''role_name'' in
      if \<not> truthy uidv \<or> \<not> truthy rnv
      then (reply 400 (ErrMsg ''Missing user_id or role_name''), s)
      else if cur = None then (reply 401 (ErrMsg ''Unauthorized''), s)
      else
        (let u = js_string (the uidv); rn = js_string (the rnv) in
         case sel_role_by_name s rn of
           Inl e \<Rightarrow> (fail500 e, s)
         | Inr None \<Rightarrow> (reply 404 (ErrMsg ''Role not found''), s)
         | Inr (Some target) \<Rightarrow>
             (case sel_ur_by_user s u of
                Inl e \<Rightarrow> (fail500 e, s)
              | Inr cur_roles \<Rightarrow>
                  (case sel_role_by_name s admin_role_name of
                     Inl e \<Rightarrow> (fail500 e, s)
                   | Inr adm \<Rightarrow>
                       (case demote_guard s adm cur_roles rnv of
                          Some r \<Rightarrow> (r, s)
                        | None \<Rightarrow> assign_commit s u (role_id target) rnv)))))"

section \<open>disable\<close>

text \<open>\<open>currentUserId && currentUserId === user_id\<close>: the strict equality
  holds only when the body's \<open>user_id\<close> is that very string.\<close>

definition is_self :: "uuid option \<Rightarrow> jval option \<Rightarrow> bool" where
  "is_self cur uidv = (case cur of None \<Rightarrow> False | Some c \<Rightarrow> c \<noteq> [] \<and> uidv = Some (JStr c))"

text \<open>Lines 179--207: on deactivation, mark the identity disabled and delete
  its refresh tokens; both are best effort.\<close>

definition revoke_access :: "store \<Rightarrow> uuid \<Rightarrow> store" where
  "revoke_access s u =
     (let s1 = best_effort s (auth_update s u (\<lambda>a. a\<lparr>au_disabled := True\<rparr>))
      in best_effort s1 (del_refresh_tokens s1 u))"

definition set_active :: "store \<Rightarrow> uuid option \<Rightarrow> body \<Rightarrow> response \<times> store" where
  "set_active s cur b =
     (let uidv = jfield b ''user_id''; av = jfield b ''is_active'' in
      if \<not> truthy uidv \<or> \<not> is_jbool av
      then (reply 400 (ErrMsg ''Missing user_id or is_active''), s)
      else if is_self cur uidv
      then (reply 400 (ErrMsg ''Cannot disable current logged user''), s)
      else
        (let u = js_string (the uidv); a = (av = Some (JBool True)) in
         case sel_profile s u of
           Inl e \<Rightarrow> (fail500 e, s)
         | Inr p \<Rightarrow>
             (case (case p of None \<Rightarrow> ins_profile s u a | Some _ \<Rightarrow> upd_profile s u a) of
                Inl e \<Rightarrow> (fail500 e, s)
              | Inr s1 \<Rightarrow> (reply 200 Success, if a then s1 else revoke_access s1 u))))"

section \<open>delete\<close>

text \<open>Lines 220--231.  The error of the administrator-role lookup is not
  checked: \<open>adminRoleRes.data?.id\<close> is then undefined and the check is
  skipped.\<close>

definition delete_guard :: "store \<Rightarrow> role_row option \<Rightarrow> jval option \<Rightarrow> response option" where
  "delete_guard s adm uidv =
     (case adm of
        None \<Rightarrow> None
      | Some a \<Rightarrow>
          (if role_id a = [] then None
           else (case sel_ur_by_role s (role_id a) of
                   Inl e \<Rightarrow> Some (fail500 e)
                 | Inr admins \<Rightarrow>
                     (if list_ex (\<lambda>r. uidv = Some (JStr (ur_user r))) admins \<and> length admins \<le> 1
                      then Some (reply 400 (ErrMsg ''Cannot delete the last administrator''))
                      else None))))"

definition delete_commit :: "store \<Rightarrow> uuid \<Rightarrow> response \<times> store" where
  "delete_commit s u =
     (case del_ur_where s (\<lambda>r. ur_user r = u) of
        Inl e \<Rightarrow> (fail500 e, s)
      | Inr s1 \<Rightarrow>
          (case del_profile s1 u of
             Inl e \<Rightarrow> (fail500 e, s1)
           | Inr s2 \<Rightarrow>
               (case auth_delete s2 u of
                  Inl e \<Rightarrow> (fail500 e, s2)
                | Inr s3 \<Rightarrow> (reply 200 Success, s3))))"

definition delete_user :: "store \<Rightarrow> uuid option \<Rightarrow> body \<Rightarrow> response \<times> store" where
  "delete_user s cur b =
     (let uidv = jfield b ''user_id'' in
      if \<not> truthy uidv then (reply 400 (ErrMsg ''Missing user_id''), s)
      else if is_self cur uidv
      then (reply 400 (ErrMsg ''Cannot delete currently logged user''), s)
      else
        (let u = js_string (the uidv);
             adm = (case sel_role_by_name s admin_role_name of Inl e \<Rightarrow> None | Inr r \<Rightarrow> r) in
         case delete_guard s adm uidv of
           Some r \<Rightarrow> (r, s)
         | None \<Rightarrow> delete_commit s u))"

section \<open>The older /manage-roles/users endpoints\<close>

text \<open>POST (lines 313--342): upsert the pair, then mirror the role's name
  into the metadata when the role can be read (best effort).\<close>

definition legacy_assign :: "store \<Rightarrow> body \<Rightarrow> response \<times> store" where
  "legacy_assign s b =
     (let uidv = jfield b ''user_id''; ridv = jfield b ''role_id'' in
      if \<not> truthy uidv \<or> \<not> truthy ridv
      then (reply 400 (ErrMsg ''Missing user_id or role_id''), s)
      else
        (let u = js_string (the uidv); rid = js_string (the ridv) in
         case ups_ur s u rid of
           Inl e \<Rightarrow> (fail500 e, s)
         | Inr s1 \<Rightarrow>
             (reply 201 Success,
              (case sel_role_by_id s1 rid of
                 Inr (Some r) \<Rightarrow>
                   (if role_name r \<noteq> []
                    then best_effort s1 (auth_update s1 u (\<lambda>a. a\<lparr>au_meta_role := Some (JStr (role_name r))\<rparr>))
                    else s1)
               | _ \<Rightarrow> s1))))"

text \<open>DELETE (lines 345--352): remove one pair, with no guard.\<close>

definition legacy_unassign :: "store \<Rightarrow> body \<Rightarrow> response \<times> store" where
  "legacy_unassign s b =
     (let uidv = jfield b ''user_id''; ridv = jfield b ''role_id'' in
      if \<not> truthy uidv \<or> \<not> truthy ridv
      then (reply 400 (ErrMsg ''Missing user_id or role_id''), s)
      else
        (let u = js_string (the uidv); rid = js_string (the ridv) in
         case del_ur_where s (\<lambda>r. ur_user r = u \<and> ur_role r = rid) of
           Inl e \<Rightarrow> (fail500 e, s)
         | Inr s1 \<Rightarrow> (reply 200 Success, s1)))"

section \<open>The administrator invariant\<close>

text \<open>The ids of the roles named \<open>administrador\<close>, and the role rows that
  hold one of them.\<close>

definition admin_ids :: "store \<Rightarrow> uuid list" where
  "admin_ids s = map role_id (filter (\<lambda>r. role_name r = admin_role_name) (roles s))"

definition admin_rows :: "store \<Rightarrow> ur_row list" where
  "admin_rows s = filter (\<lambda>r. ur_role r \<in> set (admin_ids s)) (user_roles s)"

definition has_admin :: "store \<Rightarrow> bool" where
  "has_admin s \<longleftrightarrow> admin_rows s \<noteq> []"

text \<open>What the store guarantees of its tables: unique role names and ids
  (non-empty), a join table without duplicate pairs.\<close>

definition wf_store :: "store \<Rightarrow> bool" where
  "wf_store s \<longleftrightarrow>
     distinct (map role_name (roles s)) \<and> distinct (map role_id (roles s))
     \<and> list_all (\<lambda>r. role_id r \<noteq> []) (roles s) \<and> distinct (user_roles s)"

section \<open>Sample stores\<close>

text \<open>Two roles, \<open>administrador\<close> (id 1) and \<open>cliente\<close> (id 2); user \<open>a\<close>
  is the only administrator, \<open>b\<close> a client whose session token is \<open>t\<close>.\<close>

definition demo_store :: store where
  "demo_store =
     \<lparr>roles = [\<lparr>role_id = ''1'', role_name = admin_role_name, role_desc = None, role_disabled = False\<rparr>,
               \<lparr>role_id = ''2'', role_name = ''cliente'', role_desc = None, role_disabled = False\<rparr>],
      permissions = [], role_permissions = [],
      user_roles = [\<lparr>ur_user = ''a'', ur_role = ''1''\<rparr>, \<lparr>ur_user = ''b'', ur_role = ''2''\<rparr>],
      profiles = [], refresh_tokens = [''a'', ''b''],
      auth_users = [\<lparr>au_id = ''a'', au_email = ''a@x'', au_meta_role = None, au_disabled = False\<rparr>,
                    \<lparr>au_id = ''b'', au_email = ''b@x'', au_meta_role = None, au_disabled = False\<rparr>],
      sessions = [(''t'', ''b'')], next_id = 3, faults = []\<rparr>"

section \<open>Administrator invariant: proofs\<close>

subsection \<open>The handlers without injected faults\<close>

lemma assign_commit_no_faults:
  assumes "no_faults s"
  shows "fst (assign_commit s u rid rnv) = reply 200 Success"
    and "user_roles (snd (assign_commit s u rid rnv)) =
           filter (\<lambda>r. ur_user r \<noteq> u) (user_roles s) @ [\<lparr>ur_user = u, ur_role = rid\<rparr>]"
    and "roles (snd (assign_commit s u rid rnv)) = roles s"
  using assms by (simp_all add: no_faults_def assign_commit_def store_writes store_simps)

lemma admin_ids_wf:
  assumes "distinct (map role_name (roles s))"
  shows "admin_ids s = (case find (\<lambda>r. role_name r = admin_role_name) (roles s) of
                          None \<Rightarrow> [] | Some a \<Rightarrow> [role_id a])"
  using assms unfolding admin_ids_def by (rule map_filter_key)

lemma has_admin_witness:
  assumes "distinct (map role_name (roles s))" and "has_admin s"
  obtains a r where "find (\<lambda>r. role_name r = admin_role_name) (roles s) = Some a"
    and "admin_ids s = [role_id a]" and "r \<in> set (user_roles s)" and "ur_role r = role_id a"
proof -
  from assms(2) obtain r where r: "r \<in> set (user_roles s)" "ur_role r \<in> set (admin_ids s)"
    by (auto simp: has_admin_def admin_rows_def filter_empty_conv)
  then obtain a where "find (\<lambda>r. role_name r = admin_role_name) (roles s) = Some a"
    using admin_ids_wf [OF assms(1)] by (auto split: option.splits)
  with r show ?thesis using that admin_ids_wf [OF assms(1)] by auto
qed

lemma has_admin_by_row:
  assumes "r \<in> set (user_roles s')" and "ur_role r \<in> set (admin_ids s)" and "roles s' = roles s"
  shows "has_admin s'"
  using assms by (auto simp: has_admin_def admin_rows_def admin_ids_def filter_empty_conv)

lemma assign_role_no_faults:
  assumes "no_faults s" and "wf_store s"
  shows "snd (assign_role s cur b) =
    (let uidv = jfield b ''user_id''; rnv = jfield b ''role_name'' in
     if \<not> truthy uidv \<or> \<not> truthy rnv \<or> cur = None then s
     else (case find (\<lambda>r. role_name r = js_string (the rnv)) (roles s) of
             None \<Rightarrow> s
           | Some target \<Rightarrow>
               (case demote_guard s (find (\<lambda>r. role_name r = admin_role_name) (roles s))
                       (filter (\<lambda>r. ur_user r = js_string (the uidv)) (user_roles s)) rnv of
                  Some r \<Rightarrow> s
                | None \<Rightarrow> snd (assign_commit s (js_string (the uidv)) (role_id target) rnv))))"
  using assms
  by (simp add: no_faults_def wf_store_def assign_role_def Let_def store_reads store_simps
           split: option.split sum.split)

lemma demote_guard_passes:
  assumes "no_faults s" and "demote_guard s (Some a) (filter (\<lambda>r. ur_user r = u) (user_roles s)) rnv = None"
    and "role_id a \<noteq> []" and "distinct (user_roles s)"
    and "r \<in> set (user_roles s)" and "ur_role r = role_id a"
  shows "rnv = Some (JStr admin_role_name) \<or> (\<exists>r'\<in>set (user_roles s). ur_role r' = role_id a \<and> ur_user r' \<noteq> u)"
proof (cases "list_ex (\<lambda>r. ur_role r = role_id a) (filter (\<lambda>r. ur_user r = u) (user_roles s))
              \<and> rnv \<noteq> Some (JStr admin_role_name)")
  case True
  with assms(1-3) have "2 \<le> length (filter (\<lambda>r. ur_role r = role_id a) (user_roles s))"
    by (simp add: no_faults_def demote_guard_def sel_ur_by_role_def store_simps split: if_splits)
  then obtain r' where "r' \<in> set (user_roles s)" "ur_role r' = role_id a"
      "r' \<noteq> \<lparr>ur_user = u, ur_role = role_id a\<rparr>"
    using two_le_length_filter_distinct [OF assms(4)] by blast
  then show ?thesis by auto
next
  case False
  with assms(5,6) show ?thesis by (auto simp: list_ex_iff)
qed

lemma delete_commit_no_faults:
  assumes "no_faults s"
  shows "fst (delete_commit s u) = reply 200 Success"
    and "user_roles (snd (delete_commit s u)) = filter (\<lambda>r. ur_user r \<noteq> u) (user_roles s)"
    and "roles (snd (delete_commit s u)) = roles s"
  using assms by (simp_all add: no_faults_def delete_commit_def store_writes store_simps)

lemma delete_user_no_faults:
  assumes "no_faults s" and "wf_store s"
  shows "snd (delete_user s cur b) =
    (let uidv = jfield b ''user_id'' in
     if \<not> truthy uidv \<or> is_self cur uidv then s
     else (case delete_guard s (find (\<lambda>r. role_name r = admin_role_name) (roles s)) uidv of
             Some r \<Rightarrow> s
           | None \<Rightarrow> snd (delete_commit s (js_string (the uidv)))))"
  using assms
  by (simp add: no_faults_def wf_store_def delete_user_def Let_def store_simps split: option.split)

lemma delete_guard_passes:
  assumes "no_faults s" and "delete_guard s (Some a) (Some (JStr u)) = None"
    and "role_id a \<noteq> []" and "distinct (user_roles s)"
    and "r \<in> set (user_roles s)" and "ur_role r = role_id a"
  shows "\<exists>r'\<in>set (user_roles s). ur_role r' = role_id a \<and> ur_user r' \<noteq> u"
proof (cases "list_ex (\<lambda>r. u = ur_user r) (filter (\<lambda>r. ur_role r = role_id a) (user_roles s))")
  case True
  with assms(1-3) have "2 \<le> length (filter (\<lambda>r. ur_role r = role_id a) (user_roles s))"
    by (auto simp: no_faults_def delete_guard_def sel_ur_by_role_def store_simps split: if_splits)
  then obtain r' where "r' \<in> set (user_roles s)" "ur_role r' = role_id a"
      "r' \<noteq> \<lparr>ur_user = u, ur_role = role_id a\<rparr>"
    using two_le_length_filter_distinct [OF assms(4)] by blast
  then show ?thesis by auto
next
  case False
  with assms(5,6) show ?thesis by (auto simp: list_ex_iff)
qed

lemma maybe_single_Some:
  "maybe_single t (filter P xs) = Inr (Some x) \<Longrightarrow> x \<in> set xs \<and> P x"
proof -
  assume h: "maybe_single t (filter P xs) = Inr (Some x)"
  then have "filter P xs = [x]" by (cases "filter P xs" rule: remdups_adj.cases) auto
  then have "x \<in> set (filter P xs)" by simp
  then show ?thesis by simp
qed

lemma sel_role_by_name_Some:
  "sel_role_by_name s n = Inr (Some r) \<Longrightarrow> r \<in> set (roles s) \<and> role_name r = n"
  by (auto simp: sel_role_by_name_def split: if_splits dest: maybe_single_Some)

lemma demote_guard_status:
  "demote_guard s adm cur_roles rnv = Some r \<Longrightarrow> status r \<in> {400, 500}"
  by (auto simp: demote_guard_def reply_def fail500_def split: option.splits if_splits sum.splits)

lemma assign_commit_200:
  assumes "status (fst (assign_commit s u rid rnv)) = 200"
  shows "user_roles (snd (assign_commit s u rid rnv)) =
           filter (\<lambda>r. ur_user r \<noteq> u) (user_roles s) @ [\<lparr>ur_user = u, ur_role = rid\<rparr>]"
  using assms
  by (auto simp: assign_commit_def store_writes write_call_def reply_def fail500_def
           split: if_splits sum.splits)

lemma admin_rows_unique_admin:
  assumes "distinct (map role_name (roles s))"
    and "find (\<lambda>r. role_name r = admin_role_name) (roles s) = Some a"
  shows "admin_rows s = filter (\<lambda>r. ur_role r = role_id a) (user_roles s)"
  using assms by (simp add: admin_rows_def admin_ids_wf)

lemma demo_store_wf: "no_faults demo_store \<and> wf_store demo_store \<and> has_admin demo_store"
  by (simp add: demo_store_def no_faults_def wf_store_def has_admin_def admin_rows_def admin_ids_def)

lemma delete_commit_ok:
  assumes "\<not> fails s (DB UserRoles Delete)" and "\<not> fails s (DB Profiles Delete)"
    and "\<not> fails s (Auth DeleteUser)"
  shows "delete_commit s u = (reply 200 Success, snd (delete_commit s u))"
    and "user_roles (snd (delete_commit s u)) = filter (\<lambda>r. ur_user r \<noteq> u) (user_roles s)"
    and "roles (snd (delete_commit s u)) = roles s"
  using assms by (simp_all add: delete_commit_def store_writes write_call_def fails_def)

lemma sel_role_by_name_ok:
  assumes "\<not> fails s (DB Roles Select)" and "distinct (map role_name (roles s))"
  shows "sel_role_by_name s n = Inr (find (\<lambda>r. role_name r = n) (roles s))"
  using assms maybe_single_filter [OF length_filter_key_le_1 [OF assms(2)]]
  by (simp add: sel_role_by_name_def)

text \<open>Removing role rows by a filter removes the administrator rows by
  the same filter; when it drops the only one, no administrator is left.\<close>

lemma admin_rows_filter_users:
  assumes "roles s' = roles s" and "user_roles s' = filter P (user_roles s)"
  shows "admin_rows s' = filter P (admin_rows s)"
  using assms by (simp add: admin_rows_def admin_ids_def conj_commute)

lemma no_admin_after_removal:
  assumes "roles s' = roles s" and "user_roles s' = filter P (user_roles s)"
    and "admin_rows s = [r]" and "\<not> P r"
  shows "\<not> has_admin s'"
  using admin_rows_filter_users [OF assms(1,2)] assms(3,4) by (simp add: has_admin_def)

lemmas users_eval = demo_store_def jfield_def Let_def is_self_def store_prims read_call_def
  write_call_def fails_def reply_def fail500_def has_admin_def admin_rows_def admin_ids_def
  assign_role_def demote_guard_def assign_commit_def delete_user_def delete_guard_def
  delete_commit_def set_active_def revoke_access_def legacy_assign_def legacy_unassign_def

subsection \<open>The last administrator is kept\<close>

lemma assign_role_has_admin:
  assumes nf: "no_faults s" and wf: "wf_store s" and ha: "has_admin s"
  shows "has_admin (snd (assign_role s cur b))"
proof -
  have names: "distinct (map role_name (roles s))" and "distinct (user_roles s)"
    and ids: "list_all (\<lambda>r. role_id r \<noteq> []) (roles s)"
    using wf by (simp_all add: wf_store_def)
  obtain a r where a: "find (\<lambda>r. role_name r = admin_role_name) (roles s) = Some a"
    and aids: "admin_ids s = [role_id a]" and r: "r \<in> set (user_roles s)" "ur_role r = role_id a"
    using has_admin_witness [OF names ha] by blast
  have "a \<in> set (roles s)" using a find_key_Some [OF names] by blast
  with ids have aid: "role_id a \<noteq> []" by (simp add: list_all_iff)
  let ?rnv = "jfield b ''role_name''" and ?u = "js_string (the (jfield b ''user_id''))"
  show ?thesis
  proof (cases "\<exists>target. \<not> (\<not> truthy (jfield b ''user_id'') \<or> \<not> truthy ?rnv \<or> cur = None)
                   \<and> find (\<lambda>r. role_name r = js_string (the ?rnv)) (roles s) = Some target
                   \<and> demote_guard s (Some a) (filter (\<lambda>r. ur_user r = ?u) (user_roles s)) ?rnv = None")
    case False
    have "snd (assign_role s cur b) = s"
    proof (cases "find (\<lambda>r. role_name r = js_string (the ?rnv)) (roles s)")
      case None
      then show ?thesis using assign_role_no_faults [OF nf wf, of cur b] by (simp add: Let_def)
    next
      case (Some target)
      then show ?thesis using False assign_role_no_faults [OF nf wf, of cur b] a
        by (auto simp: Let_def split: option.split)
    qed
    with ha show ?thesis by simp
  next
    case True
    then obtain target where ok: "\<not> (\<not> truthy (jfield b ''user_id'') \<or> \<not> truthy ?rnv \<or> cur = None)"
      and tgt: "find (\<lambda>r. role_name r = js_string (the ?rnv)) (roles s) = Some target"
      and g: "demote_guard s (Some a) (filter (\<lambda>r. ur_user r = ?u) (user_roles s)) ?rnv = None"
      by blast
    let ?s' = "snd (assign_commit s ?u (role_id target) ?rnv)"
    from ok have "cur \<noteq> None" "truthy (jfield b ''user_id'')" "truthy ?rnv" by simp_all
    then have eq: "snd (assign_role s cur b) = ?s'"
      by (auto simp add: assign_role_no_faults [OF nf wf] Let_def tgt g a)
    have tabs: "user_roles ?s' = filter (\<lambda>r. ur_user r \<noteq> ?u) (user_roles s) @ [\<lparr>ur_user = ?u, ur_role = role_id target\<rparr>]"
      "roles ?s' = roles s"
      using assign_commit_no_faults [OF nf] by simp_all
    from demote_guard_passes [OF nf g aid \<open>distinct (user_roles s)\<close> r]
    show ?thesis
    proof
      assume "?rnv = Some (JStr admin_role_name)"
      with tgt a have "target = a" by simp
      then have "\<lparr>ur_user = ?u, ur_role = role_id target\<rparr> \<in> set (user_roles ?s')" using tabs by simp
      then show ?thesis using has_admin_by_row [OF _ _ tabs(2)] aids \<open>target = a\<close> eq by simp
    next
      assume "\<exists>r'\<in>set (user_roles s). ur_role r' = role_id a \<and> ur_user r' \<noteq> ?u"
      then obtain r' where "r' \<in> set (user_roles ?s')" "ur_role r' \<in> set (admin_ids s)"
        using tabs aids by auto
      then show ?thesis using has_admin_by_row [OF _ _ tabs(2)] eq by simp
    qed
  qed
qed

text \<open>C1: on a store without injected faults whose tables are well formed, assign-role never leaves the system without an administrator: whatever the body and the caller, if some user holds the administrador role before the request, some user holds it after\<close>

theorem assign_role_keeps_admin:
  assumes "no_faults s" and "wf_store s" and "has_admin s"
  shows "has_admin (snd (assign_role s cur b))"
  using assms by (rule assign_role_has_admin)

theorem assign_role_keeps_admin_witness:
  "has_admin (snd (assign_role demo_store (Some ''b'') [(''user_id'', JStr ''a''), (''role_name'', JStr ''cliente'')]))"
  using assign_role_keeps_admin [of demo_store] demo_store_wf by blast

text \<open>C2: under the same conditions, and when the body names the user as a JSON string, delete never removes the last administrator\<close>

theorem delete_user_keeps_admin:
  assumes nf: "no_faults s" and wf: "wf_store s" and ha: "has_admin s"
    and str: "jfield b ''user_id'' = Some (JStr u)"
  shows "has_admin (snd (delete_user s cur b))"
proof -
  have names: "distinct (map role_name (roles s))" and "distinct (user_roles s)"
    and ids: "list_all (\<lambda>r. role_id r \<noteq> []) (roles s)"
    using wf by (simp_all add: wf_store_def)
  obtain a r where a: "find (\<lambda>r. role_name r = admin_role_name) (roles s) = Some a"
    and aids: "admin_ids s = [role_id a]" and r: "r \<in> set (user_roles s)" "ur_role r = role_id a"
    using has_admin_witness [OF names ha] by blast
  have "a \<in> set (roles s)" using a find_key_Some [OF names] by blast
  with ids have aid: "role_id a \<noteq> []" by (simp add: list_all_iff)
  show ?thesis
  proof (cases "\<not> truthy (jfield b ''user_id'') \<or> is_self cur (jfield b ''user_id'')
                \<or> delete_guard s (Some a) (Some (JStr u)) \<noteq> None")
    case True
    then have "snd (delete_user s cur b) = s"
      using delete_user_no_faults [OF nf wf, of cur b] a str by (auto simp: Let_def)
    with ha show ?thesis by simp
  next
    case False
    then have g: "delete_guard s (Some a) (Some (JStr u)) = None" by simp
    have eq: "snd (delete_user s cur b) = snd (delete_commit s u)"
      using False delete_user_no_faults [OF nf wf, of cur b] a str by (simp add: Let_def)
    from delete_guard_passes [OF nf g aid \<open>distinct (user_roles s)\<close> r]
    obtain r' where "r' \<in> set (user_roles (snd (delete_commit s u)))" "ur_role r' \<in> set (admin_ids s)"
      using delete_commit_no_faults [OF nf] aids by auto
    then show ?thesis using has_admin_by_row [OF _ _ delete_commit_no_faults(3) [OF nf]] eq by simp
  qed
qed

theorem delete_user_keeps_admin_witness:
  "has_admin (snd (delete_user demo_store (Some ''b'') [(''user_id'', JStr ''a'')]))"
  using delete_user_keeps_admin [of demo_store "[(''user_id'', JStr ''a'')]" "''a''" "Some ''b''"] demo_store_wf
  by (simp add: jfield_def)

text \<open>C3: demoting the sole administrator to another existing role is refused with status 400 and the message of the code, and nothing is written\<close>

theorem assign_role_last_admin_rejected:
  assumes nf: "no_faults s" and wf: "wf_store s"
    and sole: "admin_rows s = [\<lparr>ur_user = u, ur_role = aid\<rparr>]"
    and uid: "jfield b ''user_id'' = Some (JStr u)" and "u \<noteq> []"
    and rn: "jfield b ''role_name'' = Some (JStr rn)" and "rn \<noteq> admin_role_name" and "rn \<noteq> []"
    and ex: "rn \<in> role_name ` set (roles s)" and "cur \<noteq> None"
  shows "assign_role s cur b = (reply 400 (ErrMsg ''Cannot remove role: last administrator''), s)"
proof -
  have names: "distinct (map role_name (roles s))" and ids: "list_all (\<lambda>r. role_id r \<noteq> []) (roles s)"
    using wf by (simp_all add: wf_store_def)
  have ha: "has_admin s" using sole by (simp add: has_admin_def)
  obtain a r where a: "find (\<lambda>r. role_name r = admin_role_name) (roles s) = Some a"
    and aids: "admin_ids s = [role_id a]" and "r \<in> set (user_roles s)" "ur_role r = role_id a"
    using has_admin_witness [OF names ha] by blast
  have "a \<in> set (roles s)" using a find_key_Some [OF names] by blast
  with ids have aid: "role_id a \<noteq> []" by (simp add: list_all_iff)
  have rows: "filter (\<lambda>r. ur_role r = role_id a) (user_roles s) = [\<lparr>ur_user = u, ur_role = aid\<rparr>]"
    using sole admin_rows_unique_admin [OF names a] by simp
  then have "aid = role_id a"
    by (metis (mono_tags, lifting) Cons_eq_filterD ur_row.select_convs(2))
  obtain t where t: "find (\<lambda>r. role_name r = rn) (roles s) = Some t"
    using ex find_key_Some [OF names] by (metis image_iff option.exhaust find_None_iff)
  have "\<lparr>ur_user = u, ur_role = aid\<rparr> \<in> set (filter (\<lambda>r. ur_role r = role_id a) (user_roles s))"
    using rows by simp
  then have "\<lparr>ur_user = u, ur_role = role_id a\<rparr> \<in> set (filter (\<lambda>r. ur_user r = u) (user_roles s))"
    using \<open>aid = role_id a\<close> by simp
  then have "list_ex (\<lambda>r. ur_role r = role_id a) (filter (\<lambda>r. ur_user r = u) (user_roles s))"
    unfolding list_ex_iff by (rule bexI [rotated]) simp
  then show ?thesis
    using nf wf a t rows assms(5-10) aid uid
    by (auto simp add: no_faults_def wf_store_def assign_role_def Let_def demote_guard_def
        store_reads store_simps)
qed

theorem assign_role_last_admin_rejected_witness:
  "assign_role demo_store (Some ''b'') [(''user_id'', JStr ''a''), (''role_name'', JStr ''cliente'')]
   = (reply 400 (ErrMsg ''Cannot remove role: last administrator''), demo_store)"
  using demo_store_wf
  by (intro assign_role_last_admin_rejected [where u = "''a''" and aid = "''1''" and rn = "''cliente''"])
     (simp_all add: demo_store_def admin_rows_def admin_ids_def jfield_def)

subsection \<open>One role per user, self-protection\<close>

text \<open>C4: a successful assign-role (status 200) leaves exactly one role row for the user, and that row names an existing role with the requested name\<close>

theorem assign_role_single_role:
  assumes "status (fst (assign_role s cur b)) = 200"
  shows "\<exists>t\<in>set (roles s). role_name t = js_string (the (jfield b ''role_name'')) \<and>
           filter (\<lambda>r. ur_user r = js_string (the (jfield b ''user_id'')))
             (user_roles (snd (assign_role s cur b)))
           = [\<lparr>ur_user = js_string (the (jfield b ''user_id'')), ur_role = role_id t\<rparr>]"
proof -
  let ?u = "js_string (the (jfield b ''user_id''))" and ?rn = "js_string (the (jfield b ''role_name''))"
  from assms obtain t where
      t: "sel_role_by_name s ?rn = Inr (Some t)"
      and eq: "assign_role s cur b = assign_commit s ?u (role_id t) (jfield b ''role_name'')"
    by (auto simp: assign_role_def Let_def reply_def fail500_def
             split: if_splits sum.splits option.splits dest: demote_guard_status)
  from t have "t \<in> set (roles s) \<and> role_name t = ?rn" by (rule sel_role_by_name_Some)
  moreover from assms eq have "user_roles (snd (assign_role s cur b)) =
      filter (\<lambda>r. ur_user r \<noteq> ?u) (user_roles s) @ [\<lparr>ur_user = ?u, ur_role = role_id t\<rparr>]"
    using assign_commit_200 by simp
  ultimately show ?thesis by auto
qed

theorem assign_role_single_role_witness:
  "status (fst (assign_role demo_store (Some ''b'') [(''user_id'', JStr ''b''), (''role_name'', JStr ''administrador'')])) = 200
   \<and> (\<exists>t\<in>set (roles demo_store). role_name t = ''administrador'' \<and>
        filter (\<lambda>r. ur_user r = ''b'') (user_roles (snd (assign_role demo_store (Some ''b'')
           [(''user_id'', JStr ''b''), (''role_name'', JStr ''administrador'')])))
        = [\<lparr>ur_user = ''b'', ur_role = role_id t\<rparr>])"
proof -
  let ?b = "[(''user_id'', JStr ''b''), (''role_name'', JStr ''administrador'')]"
  have h: "status (fst (assign_role demo_store (Some ''b'') ?b)) = 200"
    by (simp add: demo_store_def assign_role_def Let_def jfield_def demote_guard_def assign_commit_def
        store_prims read_call_def write_call_def fails_def reply_def)
  show ?thesis using h assign_role_single_role [OF h] by (simp add: jfield_def)
qed

text \<open>C5: a caller cannot delete or disable the account with their own id when the body names it as a JSON string: the handler answers 400 and writes nothing\<close>

theorem self_protection:
  assumes "cur = Some c" and "c \<noteq> []" and "jfield b ''user_id'' = Some (JStr c)"
  shows "delete_user s cur b = (reply 400 (ErrMsg ''Cannot delete currently logged user''), s)
         \<and> (is_jbool (jfield b ''is_active'') \<longrightarrow>
            set_active s cur b = (reply 400 (ErrMsg ''Cannot disable current logged user''), s))"
  using assms by (simp add: delete_user_def set_active_def is_self_def Let_def)

theorem self_protection_witness:
  "delete_user demo_store (Some ''b'') [(''user_id'', JStr ''b''), (''is_active'', JBool False)]
     = (reply 400 (ErrMsg ''Cannot delete currently logged user''), demo_store)
   \<and> set_active demo_store (Some ''b'') [(''user_id'', JStr ''b''), (''is_active'', JBool False)]
     = (reply 400 (ErrMsg ''Cannot disable current logged user''), demo_store)"
  using self_protection [of "Some ''b''" "''b''" "[(''user_id'', JStr ''b''), (''is_active'', JBool False)]" demo_store]
  by (simp add: jfield_def)

text \<open>C6: on every store without injected faults, a body that names the user as a one-element JSON array passes both strict-equality guards of delete, whoever the caller is (that user included), while the queries, built with String(user_id), still target that user: delete answers 200 and, when that user is the sole administrator, no administrator is left\<close>

theorem delete_user_array_bypass:
  assumes nf: "no_faults s" and uid: "jfield b ''user_id'' = Some (JArr [JStr u])"
    and sole: "admin_rows s = [\<lparr>ur_user = u, ur_role = aid\<rparr>]"
  shows "delete_user s cur b = (reply 200 Success, snd (delete_commit s u))
       \<and> \<not> has_admin (snd (delete_user s cur b))"
proof -
  have ok: "\<not> fails s c" for c using nf by (simp add: no_faults_def store_simps)
  have "delete_user s cur b = delete_commit s u"
    using nf uid
    by (simp add: delete_user_def is_self_def delete_guard_def Let_def no_faults_def sel_ur_by_role_def
        store_simps list_ex_iff split: option.split sum.split)
  moreover note delete_commit_ok [OF ok ok ok, of u]
  ultimately show ?thesis
    using no_admin_after_removal [OF _ _ sole] by simp
qed

theorem delete_user_array_bypass_witness:
  "delete_user demo_store (Some ''a'') [(''user_id'', JArr [JStr ''a''])]
     = (reply 200 Success, snd (delete_commit demo_store ''a''))
   \<and> \<not> has_admin (snd (delete_user demo_store (Some ''a'') [(''user_id'', JArr [JStr ''a''])]))"
  by (rule delete_user_array_bypass [where aid = "''1''"])
     (simp_all add: demo_store_def no_faults_def jfield_def admin_rows_def admin_ids_def)

text \<open>C7: on every store where the lookup of the administrador role fails and the writes of delete succeed, delete ignores the error and skips the last-administrator check: a request of another caller naming the sole administrator answers 200 and leaves no administrator\<close>

theorem delete_user_fault_bypass:
  assumes lk: "fails s (DB Roles Select)"
    and ok: "\<not> fails s (DB UserRoles Delete)" "\<not> fails s (DB Profiles Delete)" "\<not> fails s (Auth DeleteUser)"
    and uid: "jfield b ''user_id'' = Some (JStr u)" and "u \<noteq> []" and "cur \<noteq> Some u"
    and sole: "admin_rows s = [\<lparr>ur_user = u, ur_role = aid\<rparr>]"
  shows "delete_user s cur b = (reply 200 Success, snd (delete_commit s u))
       \<and> \<not> has_admin (snd (delete_user s cur b))"
proof -
  have "\<not> is_self cur (Some (JStr u))" using \<open>cur \<noteq> Some u\<close> by (auto simp: is_self_def split: option.split)
  then have "delete_user s cur b = delete_commit s u"
    using lk uid \<open>u \<noteq> []\<close> by (simp add: delete_user_def delete_guard_def sel_role_by_name_def Let_def)
  then show ?thesis
    using delete_commit_ok [OF ok, of u] no_admin_after_removal [OF _ _ sole] by simp
qed

theorem delete_user_fault_bypass_witness:
  "delete_user (demo_store\<lparr>faults := [DB Roles Select]\<rparr>) (Some ''b'') [(''user_id'', JStr ''a'')]
     = (reply 200 Success, snd (delete_commit (demo_store\<lparr>faults := [DB Roles Select]\<rparr>) ''a''))
   \<and> \<not> has_admin (snd (delete_user (demo_store\<lparr>faults := [DB Roles Select]\<rparr>) (Some ''b'') [(''user_id'', JStr ''a'')]))"
  by (rule delete_user_fault_bypass [where aid = "''1''"])
     (simp_all add: demo_store_def fails_def jfield_def admin_rows_def admin_ids_def)

text \<open>C8: assign-role is not atomic: on every store with unique role names and an administrador role where only the insert of the new role row fails, re-assigning the administrador role to a user deletes the user's role rows, then answers 500; the user is left with no role, and when the user was the sole administrator no administrator is left\<close>

theorem assign_role_partial_write:
  assumes ins: "fails s (DB UserRoles Insert)"
    and ok: "\<not> fails s (DB Roles Select)" "\<not> fails s (DB UserRoles Select)" "\<not> fails s (DB UserRoles Delete)"
    and names: "distinct (map role_name (roles s))" and a: "a \<in> set (roles s)" "role_name a = admin_role_name"
    and uid: "jfield b ''user_id'' = Some (JStr u)" and "u \<noteq> []"
    and rn: "jfield b ''role_name'' = Some (JStr admin_role_name)" and "cur \<noteq> None"
  shows "assign_role s cur b =
           (fail500 (Failed (DB UserRoles Insert)), s\<lparr>user_roles := filter (\<lambda>r. ur_user r \<noteq> u) (user_roles s)\<rparr>)
       \<and> (admin_rows s = [\<lparr>ur_user = u, ur_role = aid\<rparr>] \<longrightarrow> \<not> has_admin (snd (assign_role s cur b)))"
proof -
  have fa: "find (\<lambda>r. role_name r = admin_role_name) (roles s) = Some a"
    using a find_key_Some [OF names] by blast
  obtain c where c: "cur = Some c" using \<open>cur \<noteq> None\<close> by blast
  have eq: "assign_role s cur b =
           (fail500 (Failed (DB UserRoles Insert)), s\<lparr>user_roles := filter (\<lambda>r. ur_user r \<noteq> u) (user_roles s)\<rparr>)"
    using ins ok uid rn \<open>u \<noteq> []\<close> c
    by (simp add: assign_role_def Let_def sel_role_by_name_ok [OF ok(1) names] fa sel_ur_by_user_def
        read_call_def demote_guard_def assign_commit_def del_ur_where_def ins_ur_def write_call_def fails_def)
  show ?thesis
    using eq no_admin_after_removal [where s' = "s\<lparr>user_roles := filter (\<lambda>r. ur_user r \<noteq> u) (user_roles s)\<rparr>"]
    by simp
qed

theorem assign_role_partial_write_witness:
  "assign_role (demo_store\<lparr>faults := [DB UserRoles Insert]\<rparr>) (Some ''b'')
      [(''user_id'', JStr ''a''), (''role_name'', JStr ''administrador'')]
     = (fail500 (Failed (DB UserRoles Insert)),
        demo_store\<lparr>faults := [DB UserRoles Insert], user_roles := [\<lparr>ur_user = ''b'', ur_role = ''2''\<rparr>]\<rparr>)
   \<and> \<not> has_admin (snd (assign_role (demo_store\<lparr>faults := [DB UserRoles Insert]\<rparr>) (Some ''b'')
      [(''user_id'', JStr ''a''), (''role_name'', JStr ''administrador'')]))"
proof -
  let ?s = "demo_store\<lparr>faults := [DB UserRoles Insert]\<rparr>"
  have "assign_role ?s (Some ''b'') [(''user_id'', JStr ''a''), (''role_name'', JStr ''administrador'')] =
          (fail500 (Failed (DB UserRoles Insert)), ?s\<lparr>user_roles := filter (\<lambda>r. ur_user r \<noteq> ''a'') (user_roles ?s)\<rparr>)
        \<and> (admin_rows ?s = [\<lparr>ur_user = ''a'', ur_role = ''1''\<rparr>] \<longrightarrow>
             \<not> has_admin (snd (assign_role ?s (Some ''b'') [(''user_id'', JStr ''a''), (''role_name'', JStr ''administrador'')])))"
    by (rule assign_role_partial_write [where a = "hd (roles demo_store)"])
       (simp_all add: demo_store_def fails_def jfield_def)
  then show ?thesis by (simp add: demo_store_def has_admin_def admin_rows_def admin_ids_def)
qed

text \<open>C9: on every store where the delete succeeds, the older DELETE /manage-roles/users endpoint removes the requested role row with no last-administrator check and answers 200, so it removes the sole administrator's row as readily as any other\<close>

theorem legacy_unassign_removes_last_admin:
  assumes ok: "\<not> fails s (DB UserRoles Delete)"
    and "jfield b ''user_id'' = Some (JStr u)" and "u \<noteq> []"
    and "jfield b ''role_id'' = Some (JStr rid)" and "rid \<noteq> []"
  shows "legacy_unassign s b =
           (reply 200 Success, s\<lparr>user_roles := filter (\<lambda>r. \<not> (ur_user r = u \<and> ur_role r = rid)) (user_roles s)\<rparr>)
       \<and> (admin_rows s = [\<lparr>ur_user = u, ur_role = rid\<rparr>] \<longrightarrow> \<not> has_admin (snd (legacy_unassign s b)))"
proof -
  have eq: "legacy_unassign s b =
           (reply 200 Success, s\<lparr>user_roles := filter (\<lambda>r. \<not> (ur_user r = u \<and> ur_role r = rid)) (user_roles s)\<rparr>)"
    using assms by (simp add: legacy_unassign_def Let_def del_ur_where_def write_call_def)
  show ?thesis
    using eq no_admin_after_removal [where s' = "s\<lparr>user_roles := filter (\<lambda>r. \<not> (ur_user r = u \<and> ur_role r = rid)) (user_roles s)\<rparr>"]
    by simp
qed

theorem legacy_unassign_removes_last_admin_witness:
  "legacy_unassign demo_store [(''user_id'', JStr ''a''), (''role_id'', JStr ''1'')]
     = (reply 200 Success, demo_store\<lparr>user_roles := [\<lparr>ur_user = ''b'', ur_role = ''2''\<rparr>]\<rparr>)
   \<and> \<not> has_admin (snd (legacy_unassign demo_store [(''user_id'', JStr ''a''), (''role_id'', JStr ''1'')]))"
proof -
  have "legacy_unassign demo_store [(''user_id'', JStr ''a''), (''role_id'', JStr ''1'')] =
          (reply 200 Success, demo_store\<lparr>user_roles := filter (\<lambda>r. \<not> (ur_user r = ''a'' \<and> ur_role r = ''1'')) (user_roles demo_store)\<rparr>)
        \<and> (admin_rows demo_store = [\<lparr>ur_user = ''a'', ur_role = ''1''\<rparr>] \<longrightarrow>
             \<not> has_admin (snd (legacy_unassign demo_store [(''user_id'', JStr ''a''), (''role_id'', JStr ''1'')])))"
    by (rule legacy_unassign_removes_last_admin) (simp_all add: demo_store_def fails_def jfield_def)
  then show ?thesis by (simp add: demo_store_def has_admin_def admin_rows_def admin_ids_def)
qed

text \<open>C10: assign-role only checks that the caller is authenticated: on every store without injected faults that has an administrador role, any caller, whatever roles they hold, who names themself and the administrador role gets status 200 and holds exactly that role afterwards\<close>

theorem assign_role_by_client:
  assumes nf: "no_faults s" and names: "distinct (map role_name (roles s))"
    and a: "a \<in> set (roles s)" "role_name a = admin_role_name"
    and "c \<noteq> []" and uid: "jfield b ''user_id'' = Some (JStr c)"
    and rn: "jfield b ''role_name'' = Some (JStr admin_role_name)"
  shows "fst (assign_role s (Some c) b) = reply 200 Success
       \<and> filter (\<lambda>r. ur_user r = c) (user_roles (snd (assign_role s (Some c) b))) = [\<lparr>ur_user = c, ur_role = role_id a\<rparr>]"
proof -
  have fa: "find (\<lambda>r. role_name r = admin_role_name) (roles s) = Some a"
    using a find_key_Some [OF names] by blast
  have "assign_role s (Some c) b = assign_commit s c (role_id a) (Some (JStr admin_role_name))"
    using nf names uid rn \<open>c \<noteq> []\<close>
    by (simp add: assign_role_def Let_def no_faults_def store_simps fa sel_ur_by_user_def demote_guard_def)
  then show ?thesis using assign_commit_no_faults(1,2) [OF nf] by simp
qed

theorem assign_role_by_client_witness:
  "fst (assign_role demo_store (Some ''b'') [(''user_id'', JStr ''b''), (''role_name'', JStr ''administrador'')]) = reply 200 Success
   \<and> filter (\<lambda>r. ur_user r = ''b'')
       (user_roles (snd (assign_role demo_store (Some ''b'') [(''user_id'', JStr ''b''), (''role_name'', JStr ''administrador'')])))
     = [\<lparr>ur_user = ''b'', ur_role = ''1''\<rparr>]"
  using assign_role_by_client [of demo_store "hd (roles demo_store)" "''b''"]
  by (simp add: demo_store_def no_faults_def jfield_def)

text \<open>C11: on every store where the upsert succeeds, the older POST /manage-roles/users endpoint adds a role row for a pair the user does not hold yet, keeping the user's other rows, and answers 201: a user can hold two roles\<close>

theorem legacy_assign_second_role:
  assumes ok: "\<not> fails s (DB UserRoles Upsert)"
    and "jfield b ''user_id'' = Some (JStr u)" and "u \<noteq> []"
    and "jfield b ''role_id'' = Some (JStr rid)" and "rid \<noteq> []"
    and new: "\<lparr>ur_user = u, ur_role = rid\<rparr> \<notin> set (user_roles s)"
  shows "fst (legacy_assign s b) = reply 201 Success
       \<and> filter (\<lambda>r. ur_user r = u) (user_roles (snd (legacy_assign s b)))
         = filter (\<lambda>r. ur_user r = u) (user_roles s) @ [\<lparr>ur_user = u, ur_role = rid\<rparr>]"
  using assms
  by (simp add: legacy_assign_def Let_def ups_ur_def write_call_def auth_update_def best_effort_def
      split: sum.split option.split)

theorem legacy_assign_second_role_witness:
  "filter (\<lambda>r. ur_user r = ''b'') (user_roles (snd (legacy_assign demo_store [(''user_id'', JStr ''b''), (''role_id'', JStr ''1'')])))
   = [\<lparr>ur_user = ''b'', ur_role = ''2''\<rparr>, \<lparr>ur_user = ''b'', ur_role = ''1''\<rparr>]"
  using legacy_assign_second_role [of demo_store "[(''user_id'', JStr ''b''), (''role_id'', JStr ''1'')]" "''b''" "''1''"]
  by (simp add: demo_store_def fails_def jfield_def)

text \<open>Disable compares the body's user_id with the caller by strict equality but writes by String(user_id): a caller who sends their own id as a one-element array deactivates themself and loses their refresh tokens\<close>

theorem set_active_self_array:
  "let r = set_active demo_store (Some ''b'') [(''user_id'', JArr [JStr ''b'']), (''is_active'', JBool False)] in
   fst r = reply 200 Success \<and> profiles (snd r) = [\<lparr>prof_id = ''b'', prof_active = False\<rparr>]
   \<and> refresh_tokens (snd r) = [''a'']"
  by (simp add: users_eval)

end
