(* ===== verification/Roles.thy ===== *)
theory Roles
  imports Users
begin

text \<open>
  The role and permission handlers of the manage-roles edge function: the
  listing (GET, lines 251--272 of src/src/supabase/functions/manage-roles/
  index.ts), creation (POST, lines 355--393), replacement (PUT, lines
  395--432) and soft or hard deletion (DELETE, lines 434--459).  The older
  copy of the function under src/supabase/functions/manage-roles/index.ts
  has the same four handlers (lines 22--149), statement for statement.
  POST and PUT share the permission pipeline \<open>attach_perms\<close>: upsert the
  named permissions, read their ids, add the ids given as objects, upsert
  the role's mappings.  Every step may throw, and what was written before
  stays written.
\<close>

section \<open>The permissions of a body\<close>

text \<open>\<open>const { permissions = [] } = body\<close>: the default applies only to an
  undefined field; \<open>permissions.filter\<close> throws a TypeError when the value
  is not an array.\<close>

fun perm_list :: "jval option \<Rightarrow> jval list option" where
  "perm_list None = Some []"
| "perm_list (Some (JArr xs)) = Some xs"
| "perm_list (Some v) = None"

text \<open>\<open>permissions.filter((p) => typeof p === 'string')\<close>.\<close>

definition perm_names :: "jval list \<Rightarrow> string list" where
  "perm_names xs = [n. JStr n \<leftarrow> xs]"

text \<open>\<open>typeof p === 'object' && p.id\<close>, then \<open>p.id\<close>: arrays are objects
  without an \<open>id\<close>; \<open>null\<close> is an object too, and reading its \<open>id\<close>
  throws, which the whole filter call does then.\<close>

fun perm_obj_id :: "jval \<Rightarrow> jval option" where
  "perm_obj_id (JObj kvs) = (if truthy (jfield kvs ''id'') then jfield kvs ''id'' else None)"
| "perm_obj_id v = None"

definition perm_body_ids :: "jval list \<Rightarrow> jval list option" where
  "perm_body_ids xs = (if JNull \<in> set xs then None else Some (List.map_filter perm_obj_id xs))"

definition type_error500 :: response where
  "type_error500 = reply 500 (ErrMsg ''TypeError'')"

section \<open>The permission pipeline of POST and PUT\<close>

text \<open>Lines 370--390 (POST) and 411--429 (PUT): the error, if a step threw,
  and the store as the steps before it left it.\<close>

definition attach_perms :: "store \<Rightarrow> uuid \<Rightarrow> string list \<Rightarrow> jval list \<Rightarrow> db_error option \<times> store" where
  "attach_perms s rid names bids =
     (case (if names = [] then Inr s else ups_perms s names) of
        Inl e \<Rightarrow> (Some e, s)
      | Inr s1 \<Rightarrow>
          (case (if names = [] then Inr [] else sel_perm_ids s1 names) of
             Inl e \<Rightarrow> (Some e, s1)
           | Inr ids \<Rightarrow>
               (let pids = ids @ map js_string bids in
                if pids = [] then (None, s1)
                else (case ups_rps s1 rid pids of
                        Inl e \<Rightarrow> (Some e, s1)
                      | Inr s2 \<Rightarrow> (None, s2)))))"

section \<open>POST: create a role\<close>

definition create_role :: "store \<Rightarrow> body \<Rightarrow> response \<times> store" where
  "create_role s b =
     (let nv = jfield b ''name''; dv = jfield b ''description''; pv = jfield b ''permissions'' in
      if \<not> truthy nv then (reply 400 (ErrMsg ''Missing role name''), s)
      else
        (case ins_role s (js_string (the nv)) dv of
           Inl e \<Rightarrow> (fail500 e, s)
         | Inr (row, s1) \<Rightarrow>
             (case perm_list pv of
                None \<Rightarrow> (type_error500, s1)
              | Some xs \<Rightarrow>
                  (case perm_body_ids xs of
                     None \<Rightarrow> (type_error500, s1)
                   | Some bids \<Rightarrow>
                       (case attach_perms s1 (role_id row) (perm_names xs) bids of
                          (Some e, s2) \<Rightarrow> (fail500 e, s2)
                        | (None, s2) \<Rightarrow> (reply 201 (RoleCreated row), s2))))))"

section \<open>PUT: replace a role\<close>

definition update_role :: "store \<Rightarrow> body \<Rightarrow> response \<times> store" where
  "update_role s b =
     (let idv = jfield b ''id''; pv = jfield b ''permissions'' in
      if \<not> truthy idv then (reply 400 (ErrMsg ''Missing role id''), s)
      else
        (let rid = js_string (the idv) in
         case upd_role s rid (jfield b ''name'') (jfield b ''description'') of
           Inl e \<Rightarrow> (fail500 e, s)
         | Inr s1 \<Rightarrow>
             (case del_rps_of_role s1 rid of
                Inl e \<Rightarrow> (fail500 e, s1)
              | Inr s2 \<Rightarrow>
                  (case perm_list pv of
                     None \<Rightarrow> (type_error500, s2)
                   | Some xs \<Rightarrow>
                       (case perm_body_ids xs of
                          None \<Rightarrow> (type_error500, s2)
                        | Some bids \<Rightarrow>
                            (case attach_perms s2 rid (perm_names xs) bids of
                               (Some e, s3) \<Rightarrow> (fail500 e, s3)
                             | (None, s3) \<Rightarrow> (reply 200 Success, s3)))))))"

section \<open>DELETE: soft or hard\<close>

text \<open>\<open>select('user_id').eq('role_id', id).limit(1)\<close>, then the refusal
  when a user holds the role and \<open>hard\<close> is truthy.\<close>

definition delete_role :: "store \<Rightarrow> body \<Rightarrow> response \<times> store" where
  "delete_role s b =
     (let idv = jfield b ''id''; hard = truthy (jfield b ''hard'') in
      if \<not> truthy idv then (reply 400 (ErrMsg ''Missing role id''), s)
      else
        (let rid = js_string (the idv) in
         case sel_ur_by_role s rid of
           Inl e \<Rightarrow> (fail500 e, s)
         | Inr users \<Rightarrow>
             (if take 1 users \<noteq> [] \<and> hard
              then (reply 400 (ErrMsg ''Role has associated users; cannot hard-delete''), s)
              else if hard
              then (case del_rps_of_role s rid of
                      Inl e \<Rightarrow> (fail500 e, s)
                    | Inr s1 \<Rightarrow>
                        (case del_role s1 rid of
                           Inl e \<Rightarrow> (fail500 e, s1)
                         | Inr s2 \<Rightarrow> (reply 200 Success, s2)))
              else (case disable_role s rid of
                      Inl e \<Rightarrow> (fail500 e, s)
                    | Inr s1 \<Rightarrow> (reply 200 Success, s1)))))"

section \<open>GET: roles with their permissions\<close>

text \<open>The loop of lines 258--269, one role after the other; a failed read
  ends it.\<close>

fun roles_with_perms :: "store \<Rightarrow> role_row list \<Rightarrow> db_error + (role_row \<times> perm_row list) list" where
  "roles_with_perms s [] = Inr []"
| "roles_with_perms s (r # rs) =
     (case sel_rp_of_role s (role_id r) of
        Inl e \<Rightarrow> Inl e
      | Inr pids \<Rightarrow>
          (case (if pids = [] then Inr [] else sel_perms_in s pids) of
             Inl e \<Rightarrow> Inl e
           | Inr ps \<Rightarrow>
               (case roles_with_perms s rs of
                  Inl e \<Rightarrow> Inl e
                | Inr rest \<Rightarrow> Inr ((r, ps) # rest))))"

definition list_roles :: "store \<Rightarrow> response" where
  "list_roles s =
     (case sel_roles_desc s of
        Inl e \<Rightarrow> fail500 e
      | Inr rs \<Rightarrow>
          (case roles_with_perms s rs of
             Inl e \<Rightarrow> fail500 e
           | Inr res \<Rightarrow> reply 200 (RolesList res)))"

section \<open>Auxiliary definitions of the proofs\<close>

text \<open>The ids the pipeline gives the role: those of the permissions with the
  given names, then the ids given as objects, stringified.\<close>

definition pipeline_ids :: "store \<Rightarrow> string list \<Rightarrow> jval list \<Rightarrow> uuid list" where
  "pipeline_ids s ns bids =
     (if ns = [] then [] else map perm_id (filter (\<lambda>p. perm_name p \<in> set ns) (permissions s))) @ map js_string bids"

text \<open>The store a successful pipeline leaves, in closed form.\<close>

definition attach_result :: "store \<Rightarrow> uuid \<Rightarrow> string list \<Rightarrow> jval list \<Rightarrow> store" where
  "attach_result s rid ns bids =
     (let fresh = (if ns = [] then [] else filter (\<lambda>n. n \<notin> set (map perm_name (permissions s))) ns);
          perms = permissions s @ alloc_perms (next_id s) fresh;
          pids = (if ns = [] then [] else map perm_id (filter (\<lambda>p. perm_name p \<in> set ns) perms))
                 @ map js_string bids
      in s\<lparr>permissions := perms, next_id := next_id s + length fresh,
           role_permissions := role_permissions s @
             filter (\<lambda>m. m \<notin> set (role_permissions s)) (map (\<lambda>p. \<lparr>rp_role = rid, rp_perm = p\<rparr>) pids)\<rparr>)"

text \<open>The sample store of the Users theory with one permission, held by
  the cliente role.\<close>

definition demo_roles :: store where
  "demo_roles = demo_store\<lparr>permissions := [\<lparr>perm_id = ''p1'', perm_name = ''ver''\<rparr>],
     role_permissions := [\<lparr>rp_role = ''2'', rp_perm = ''p1''\<rparr>]\<rparr>"

section \<open>The permission pipeline\<close>

lemma alloc_perms_names [simp]: "map perm_name (alloc_perms n xs) = xs"
  by (induction xs arbitrary: n) auto

lemma ups_perms_Inr:
  assumes "ups_perms s ns = Inr s1"
  shows "permissions s1 = permissions s @ alloc_perms (next_id s) (filter (\<lambda>n. n \<notin> set (map perm_name (permissions s))) ns)"
    and "role_permissions s1 = role_permissions s" and "roles s1 = roles s" and "user_roles s1 = user_roles s"
    and "faults s1 = faults s" and "distinct ns"
  using assms by (auto simp: ups_perms_def write_call_def Let_def split: if_splits)

lemma ups_perms_names:
  "ups_perms s ns = Inr s1 \<Longrightarrow> set ns \<subseteq> perm_name ` set (permissions s1)"
proof -
  assume h: "ups_perms s ns = Inr s1"
  have "set (map perm_name (permissions s1)) =
        set (map perm_name (permissions s)) \<union> set (filter (\<lambda>n. n \<notin> set (map perm_name (permissions s))) ns)"
    using ups_perms_Inr(1) [OF h] by simp
  then show ?thesis by auto
qed

lemma ups_rps_Inr:
  assumes "ups_rps s rid pids = Inr s1"
  shows "set (role_permissions s1) = set (role_permissions s) \<union> (\<lambda>p. \<lparr>rp_role = rid, rp_perm = p\<rparr>) ` set pids"
    and "permissions s1 = permissions s" and "roles s1 = roles s" and "user_roles s1 = user_roles s"
    and "faults s1 = faults s" and "distinct pids"
  using assms by (auto simp: ups_rps_def write_call_def split: if_splits)

lemma ups_perms_fails: "ups_perms s ns = Inr s1 \<Longrightarrow> \<not> fails s (DB Permissions Upsert)"
  by (auto simp: ups_perms_def write_call_def split: if_splits)

lemma ups_rps_fails: "ups_rps s rid pids = Inr s1 \<Longrightarrow> \<not> fails s (DB RolePermissions Upsert)"
  by (auto simp: ups_rps_def write_call_def split: if_splits)

lemma ups_perms_noop:
  assumes "\<not> fails s (DB Permissions Upsert)" and "distinct ns"
    and "set ns \<subseteq> perm_name ` set (permissions s)"
  shows "ups_perms s ns = Inr s"
proof -
  have "filter (\<lambda>n. n \<notin> set (map perm_name (permissions s))) ns = []"
    using assms(3) by (auto simp: filter_empty_conv)
  with assms(1,2) show ?thesis by (simp add: ups_perms_def write_call_def)
qed

lemma ups_rps_noop:
  assumes "\<not> fails s (DB RolePermissions Upsert)" and "distinct pids"
    and "(\<lambda>p. \<lparr>rp_role = rid, rp_perm = p\<rparr>) ` set pids \<subseteq> set (role_permissions s)"
  shows "ups_rps s rid pids = Inr s"
proof -
  have "filter (\<lambda>m. m \<notin> set (role_permissions s)) (map (\<lambda>p. \<lparr>rp_role = rid, rp_perm = p\<rparr>) pids) = []"
    using assms(3) by (auto simp: filter_empty_conv)
  with assms(1,2) show ?thesis by (simp add: ups_rps_def write_call_def)
qed

lemma attach_perms_cases:
  assumes "attach_perms s rid ns bids = (None, s1)"
  obtains s0 where "if ns = [] then s0 = s else ups_perms s ns = Inr s0"
    and "ns \<noteq> [] \<Longrightarrow> \<not> fails s0 (DB Permissions Select)"
    and "(pipeline_ids s0 ns bids = [] \<and> s1 = s0)
         \<or> (pipeline_ids s0 ns bids \<noteq> [] \<and> ups_rps s0 rid (pipeline_ids s0 ns bids) = Inr s1)"
  using assms
  by (cases "ns = []")
     (auto simp: attach_perms_def pipeline_ids_def Let_def sel_perm_ids_def read_call_def
           split: if_splits sum.splits)

lemma attach_perms_None:
  assumes "attach_perms s rid ns bids = (None, s1)"
  shows "set (filter (\<lambda>m. rp_role m = rid) (role_permissions s1)) =
           set (filter (\<lambda>m. rp_role m = rid) (role_permissions s)) \<union>
           (\<lambda>p. \<lparr>rp_role = rid, rp_perm = p\<rparr>) ` set (pipeline_ids s1 ns bids)"
    and "set ns \<subseteq> perm_name ` set (permissions s1)"
    and "roles s1 = roles s" and "user_roles s1 = user_roles s" and "faults s1 = faults s"
proof -
  obtain s0 where s0: "if ns = [] then s0 = s else ups_perms s ns = Inr s0"
    and s1: "(pipeline_ids s0 ns bids = [] \<and> s1 = s0)
         \<or> (pipeline_ids s0 ns bids \<noteq> [] \<and> ups_rps s0 rid (pipeline_ids s0 ns bids) = Inr s1)"
    using attach_perms_cases [OF assms] by blast
  have p0: "role_permissions s0 = role_permissions s" "roles s0 = roles s" "user_roles s0 = user_roles s"
      "faults s0 = faults s" "set ns \<subseteq> perm_name ` set (permissions s0)"
    using s0 ups_perms_Inr [of s ns s0] ups_perms_names [of s ns s0] by (auto split: if_splits)
  have p1: "permissions s1 = permissions s0" "roles s1 = roles s0" "user_roles s1 = user_roles s0"
      "faults s1 = faults s0"
      "set (role_permissions s1) = set (role_permissions s0) \<union> (\<lambda>p. \<lparr>rp_role = rid, rp_perm = p\<rparr>) ` set (pipeline_ids s0 ns bids)"
    using s1 ups_rps_Inr [of s0 rid "pipeline_ids s0 ns bids" s1] by auto
  have ids: "pipeline_ids s1 ns bids = pipeline_ids s0 ns bids"
    using p1(1) by (simp add: pipeline_ids_def)
  show "set (filter (\<lambda>m. rp_role m = rid) (role_permissions s1)) =
           set (filter (\<lambda>m. rp_role m = rid) (role_permissions s)) \<union>
           (\<lambda>p. \<lparr>rp_role = rid, rp_perm = p\<rparr>) ` set (pipeline_ids s1 ns bids)"
    using p0(1) p1(5) ids by auto
  show "set ns \<subseteq> perm_name ` set (permissions s1)" using p0(5) p1(1) by simp
  show "roles s1 = roles s" "user_roles s1 = user_roles s" "faults s1 = faults s"
    using p0 p1 by simp_all
qed

lemma attach_perms_result:
  assumes "attach_perms s rid ns bids = (None, s1)"
  shows "s1 = attach_result s rid ns bids"
  using assms
  by (cases "ns = []")
     (auto simp: attach_perms_def attach_result_def Let_def sel_perm_ids_def read_call_def
                 ups_perms_def ups_rps_def write_call_def split: if_splits sum.splits)

lemma attach_perms_replay:
  assumes first: "attach_perms s rid ns bids = (None, s1)"
    and perms: "permissions t = permissions s1" and flt: "faults t = faults s"
  shows "attach_perms t rid ns bids =
           (None, t\<lparr>role_permissions := role_permissions t @
              filter (\<lambda>m. m \<notin> set (role_permissions t))
                (map (\<lambda>p. \<lparr>rp_role = rid, rp_perm = p\<rparr>) (pipeline_ids s1 ns bids))\<rparr>)"
proof -
  obtain s0 where s0: "if ns = [] then s0 = s else ups_perms s ns = Inr s0"
    and sel: "ns \<noteq> [] \<Longrightarrow> \<not> fails s0 (DB Permissions Select)"
    and s1: "(pipeline_ids s0 ns bids = [] \<and> s1 = s0)
         \<or> (pipeline_ids s0 ns bids \<noteq> [] \<and> ups_rps s0 rid (pipeline_ids s0 ns bids) = Inr s1)"
    using attach_perms_cases [OF first] by blast
  have same: "permissions s1 = permissions s0"
    using s1 ups_rps_Inr [of s0 rid "pipeline_ids s0 ns bids" s1] by auto
  have fs0: "faults s0 = faults s" using s0 ups_perms_Inr(5) [of s ns s0] by (auto split: if_splits)
  have ids: "pipeline_ids t ns bids = pipeline_ids s1 ns bids" "pipeline_ids s0 ns bids = pipeline_ids s1 ns bids"
    using same perms by (simp_all add: pipeline_ids_def)
  have step1: "(if ns = [] then Inr t else ups_perms t ns) = Inr t"
  proof (cases "ns = []")
    case False
    with s0 have u: "ups_perms s ns = Inr s0" by simp
    have "\<not> fails t (DB Permissions Upsert)"
      using ups_perms_fails [OF u] flt by (simp add: fails_def)
    moreover have "set ns \<subseteq> perm_name ` set (permissions t)"
      using ups_perms_names [OF u] same perms by simp
    ultimately show ?thesis using False ups_perms_noop ups_perms_Inr(6) [OF u] by simp
  qed simp
  have step2: "(if ns = [] then Inr [] else sel_perm_ids t ns)
      = Inr (if ns = [] then [] else map perm_id (filter (\<lambda>p. perm_name p \<in> set ns) (permissions t)))"
    using sel fs0 flt by (auto simp: sel_perm_ids_def read_call_def fails_def)
  show ?thesis
  proof (cases "pipeline_ids s1 ns bids = []")
    case True
    then show ?thesis using step1 step2 ids by (auto simp: attach_perms_def pipeline_ids_def Let_def)
  next
    case False
    with s1 ids have u: "ups_rps s0 rid (pipeline_ids s1 ns bids) = Inr s1" by auto
    have "ups_rps t rid (pipeline_ids s1 ns bids) =
          Inr (t\<lparr>role_permissions := role_permissions t @
              filter (\<lambda>m. m \<notin> set (role_permissions t))
                (map (\<lambda>p. \<lparr>rp_role = rid, rp_perm = p\<rparr>) (pipeline_ids s1 ns bids))\<rparr>)"
      using ups_rps_fails [OF u] ups_rps_Inr(5,6) [OF u] fs0 flt
      by (simp add: ups_rps_def write_call_def fails_def)
    then show ?thesis using False step1 step2 ids
      by (auto simp: attach_perms_def pipeline_ids_def Let_def)
  qed
qed

lemma filter_new_rows:
  assumes "\<forall>m\<in>set xs. rp_role m \<noteq> rid"
  shows "filter (\<lambda>m. m \<notin> set xs) (map (\<lambda>p. \<lparr>rp_role = rid, rp_perm = p\<rparr>) ps)
         = map (\<lambda>p. \<lparr>rp_role = rid, rp_perm = p\<rparr>) ps"
  using assms by (induction ps) auto

lemma attach_result_rps:
  assumes "\<forall>m\<in>set (role_permissions s). rp_role m \<noteq> rid"
  shows "role_permissions (attach_result s rid ns bids) =
           role_permissions s @ map (\<lambda>p. \<lparr>rp_role = rid, rp_perm = p\<rparr>) (pipeline_ids (attach_result s rid ns bids) ns bids)"
proof -
  show ?thesis using filter_new_rows [OF assms]
    by (simp add: attach_result_def pipeline_ids_def Let_def)
qed

section \<open>Decomposing a successful request\<close>

lemma update_role_200:
  assumes "update_role s b = (reply 200 Success, s')"
  obtains sa sb xs bids where "truthy (jfield b ''id'')"
    and "upd_role s (js_string (the (jfield b ''id''))) (jfield b ''name'') (jfield b ''description'') = Inr sa"
    and "del_rps_of_role sa (js_string (the (jfield b ''id''))) = Inr sb"
    and "perm_list (jfield b ''permissions'') = Some xs" and "perm_body_ids xs = Some bids"
    and "attach_perms sb (js_string (the (jfield b ''id''))) (perm_names xs) bids = (None, s')"
  using assms
  by (auto simp: update_role_def Let_def reply_def fail500_def type_error500_def
           split: if_splits sum.splits option.splits prod.splits)

lemma create_role_201:
  assumes "create_role s b = (reply 201 (RoleCreated r), s')"
  obtains s1 xs bids where "ins_role s (js_string (the (jfield b ''name''))) (jfield b ''description'') = Inr (r, s1)"
    and "perm_list (jfield b ''permissions'') = Some xs" and "perm_body_ids xs = Some bids"
    and "attach_perms s1 (role_id r) (perm_names xs) bids = (None, s')"
  using assms
  by (auto simp: create_role_def Let_def reply_def fail500_def type_error500_def
           split: if_splits sum.splits option.splits prod.splits)

lemma ins_role_Inr:
  "ins_role s n d = Inr (r, s1) \<Longrightarrow> roles s1 = roles s @ [r] \<and> role_name r = n"
  by (auto simp: ins_role_def Let_def split: if_splits)

lemma del_rps_of_role_Inr:
  "del_rps_of_role s rid = Inr s1 \<Longrightarrow>
   s1 = s\<lparr>role_permissions := filter (\<lambda>m. rp_role m \<noteq> rid) (role_permissions s)\<rparr> \<and>
   \<not> fails s (DB RolePermissions Delete)"
  by (auto simp: del_rps_of_role_def write_call_def split: if_splits)

lemma upd_role_Inr:
  "upd_role s rid nv dv = Inr s1 \<Longrightarrow> faults s1 = faults s \<and> role_permissions s1 = role_permissions s"
  by (auto simp: upd_role_def write_call_def split: if_splits)

lemma filter_map_other_key:
  assumes "\<And>r. role_id (f r) = role_id r" and "\<And>r. role_id r \<noteq> k \<Longrightarrow> f r = r"
  shows "filter (\<lambda>r. role_id r \<noteq> k) (map f xs) = filter (\<lambda>r. role_id r \<noteq> k) xs"
  using assms by (induction xs) auto

text \<open>Writing the same name and description twice is writing them once.\<close>

lemma upd_role_again:
  assumes "upd_role s rid nv dv = Inr sa" and "roles t = roles sa" and "faults t = faults s"
  shows "upd_role t rid nv dv = Inr t"
proof -
  let ?f = "\<lambda>r. if role_id r = rid
                then r\<lparr>role_name := (case nv of None \<Rightarrow> role_name r | Some v \<Rightarrow> js_string v),
                       role_desc := (case dv of None \<Rightarrow> role_desc r | Some d \<Rightarrow> Some d)\<rparr>
                else r"
  have ok: "\<not> fails s (DB Roles Update)" and sa: "roles sa = map ?f (roles s)"
    and nc: "\<not> (rid \<in> set (map role_id (roles s)) \<and>
              (case nv of None \<Rightarrow> False
               | Some v \<Rightarrow> js_string v \<in> set (map role_name (filter (\<lambda>r. role_id r \<noteq> rid) (roles s)))))"
    using assms(1) by (auto simp: upd_role_def write_call_def split: if_splits)
  have others: "filter (\<lambda>r. role_id r \<noteq> rid) (roles sa) = filter (\<lambda>r. role_id r \<noteq> rid) (roles s)"
    unfolding sa by (rule filter_map_other_key) auto
  have ids: "map role_id (roles sa) = map role_id (roles s)" using sa by (simp add: comp_def)
  have "map ?f (roles sa) = roles sa" using sa by (auto split: option.splits)
  then show ?thesis
    unfolding upd_role_def write_call_def assms(2) others ids
    using ok nc assms(3) by (simp add: fails_def assms(2) [symmetric])
qed

lemmas roles_eval = demo_roles_def demo_store_def jfield_def Let_def store_prims read_call_def
  write_call_def fails_def reply_def fail500_def type_error500_def perm_names_def perm_body_ids_def
  create_role_def update_role_def delete_role_def attach_perms_def has_admin_def admin_rows_def
  admin_ids_def

section \<open>Properties of the role handlers\<close>

text \<open>C12: after a successful PUT whose permissions are an array, the role's permission mappings are exactly the named permissions (when some are named) and the ids given as objects: the old mappings are gone.\<close>

theorem update_role_replaces_perms:
  assumes "update_role s b = (reply 200 Success, s')"
    and "jfield b ''permissions'' = Some (JArr xs)" and "perm_body_ids xs = Some bids"
    and "jfield b ''id'' = Some (JStr rid)"
  shows "set (filter (\<lambda>m. rp_role m = rid) (role_permissions s')) =
           (\<lambda>p. \<lparr>rp_role = rid, rp_perm = p\<rparr>) `
             ((if perm_names xs = [] then {}
               else perm_id ` {p \<in> set (permissions s'). perm_name p \<in> set (perm_names xs)})
              \<union> js_string ` set bids)"
proof -
  have rid: "js_string (the (jfield b ''id'')) = rid" using assms(4) by simp
  obtain sa sb xs' bids' where "truthy (jfield b ''id'')" and u: "upd_role s rid (jfield b ''name'') (jfield b ''description'') = Inr sa"
    and d: "del_rps_of_role sa rid = Inr sb"
    and pl: "perm_list (jfield b ''permissions'') = Some xs'" and pb: "perm_body_ids xs' = Some bids'"
    and a: "attach_perms sb rid (perm_names xs') bids' = (None, s')"
    by (rule update_role_200 [OF assms(1), unfolded rid])
  from pl pb assms(2,3) have "xs' = xs" "bids' = bids" by simp_all
  have "filter (\<lambda>m. rp_role m = rid) (role_permissions sb) = []"
    using del_rps_of_role_Inr [OF d] by (simp add: filter_empty_conv)
  moreover have "set (pipeline_ids s' (perm_names xs) bids) =
      (if perm_names xs = [] then {}
       else perm_id ` {p \<in> set (permissions s'). perm_name p \<in> set (perm_names xs)})
      \<union> js_string ` set bids"
    by (simp add: pipeline_ids_def)
  ultimately show ?thesis
    using attach_perms_None(1) [OF a] \<open>xs' = xs\<close> \<open>bids' = bids\<close> by simp
qed

theorem update_role_replaces_perms_witness:
  "set (filter (\<lambda>m. rp_role m = ''2'') (role_permissions (snd (update_role demo_roles
       [(''id'', JStr ''2''), (''permissions'', JArr [JObj [(''id'', JStr ''p9'')]])])))) =
   {\<lparr>rp_role = ''2'', rp_perm = ''p9''\<rparr>}"
proof -
  let ?b = "[(''id'', JStr ''2''), (''permissions'', JArr [JObj [(''id'', JStr ''p9'')]])]"
  have h: "update_role demo_roles ?b = (reply 200 Success, snd (update_role demo_roles ?b))"
    by (simp add: roles_eval)
  show ?thesis
    using update_role_replaces_perms [OF h, of "[JObj [(''id'', JStr ''p9'')]]" "[JStr ''p9'']" "''2''"]
    by (simp add: jfield_def perm_body_ids_def perm_names_def)
qed

text \<open>C13: after a successful POST (status 201) the new role is stored, and every permission named in the body exists and is mapped to it.\<close>

theorem create_role_grants_perms:
  assumes "create_role s b = (reply 201 (RoleCreated r), s')"
    and "jfield b ''permissions'' = Some (JArr xs)"
  shows "r \<in> set (roles s') \<and>
         (\<forall>n\<in>set (perm_names xs). \<exists>p\<in>set (permissions s').
            perm_name p = n \<and> \<lparr>rp_role = role_id r, rp_perm = perm_id p\<rparr> \<in> set (role_permissions s'))"
proof -
  obtain s1 xs' bids where i: "ins_role s (js_string (the (jfield b ''name''))) (jfield b ''description'') = Inr (r, s1)"
    and pl: "perm_list (jfield b ''permissions'') = Some xs'" and pb: "perm_body_ids xs' = Some bids"
    and a: "attach_perms s1 (role_id r) (perm_names xs') bids = (None, s')"
    using create_role_201 [OF assms(1)] by blast
  from pl assms(2) have "xs' = xs" by simp
  have "r \<in> set (roles s')" using attach_perms_None(3) [OF a] ins_role_Inr [OF i] by simp
  moreover have "\<exists>p\<in>set (permissions s'). perm_name p = n \<and>
                   \<lparr>rp_role = role_id r, rp_perm = perm_id p\<rparr> \<in> set (role_permissions s')"
    if n: "n \<in> set (perm_names xs)" for n
  proof -
    from n attach_perms_None(2) [OF a] \<open>xs' = xs\<close> obtain p
      where p: "p \<in> set (permissions s')" "perm_name p = n" by auto
    have "perm_id p \<in> set (pipeline_ids s' (perm_names xs) bids)"
      using n p by (auto simp: pipeline_ids_def)
    then have "\<lparr>rp_role = role_id r, rp_perm = perm_id p\<rparr> \<in> set (filter (\<lambda>m. rp_role m = role_id r) (role_permissions s'))"
      using attach_perms_None(1) [OF a] \<open>xs' = xs\<close> by auto
    with p show ?thesis by auto
  qed
  ultimately show ?thesis by blast
qed

theorem create_role_grants_perms_witness:
  "create_role demo_roles [(''name'', JStr ''vendedor''), (''permissions'', JArr [JStr ''ver'', JStr ''editar''])]
     = (reply 201 (RoleCreated \<lparr>role_id = ''r3'', role_name = ''vendedor'', role_desc = None, role_disabled = False\<rparr>),
        snd (create_role demo_roles [(''name'', JStr ''vendedor''), (''permissions'', JArr [JStr ''ver'', JStr ''editar''])]))
   \<and> (\<exists>p. p \<in> set (permissions (snd (create_role demo_roles
          [(''name'', JStr ''vendedor''), (''permissions'', JArr [JStr ''ver'', JStr ''editar''])]))) \<and>
        perm_name p = ''editar'' \<and> \<lparr>rp_role = ''r3'', rp_perm = perm_id p\<rparr> \<in> set (role_permissions (snd (create_role demo_roles
          [(''name'', JStr ''vendedor''), (''permissions'', JArr [JStr ''ver'', JStr ''editar''])]))))"
proof -
  let ?b = "[(''name'', JStr ''vendedor''), (''permissions'', JArr [JStr ''ver'', JStr ''editar''])]"
  let ?r = "\<lparr>role_id = ''r3'', role_name = ''vendedor'', role_desc = None, role_disabled = False\<rparr>"
  let ?S = "snd (create_role demo_roles ?b)"
  have h: "create_role demo_roles ?b = (reply 201 (RoleCreated ?r), ?S)"
    by (simp add: roles_eval show_nat.simps char_of_def bit_simps)
  have "\<forall>n\<in>set [''ver'', ''editar'']. \<exists>p\<in>set (permissions ?S).
          perm_name p = n \<and> \<lparr>rp_role = ''r3'', rp_perm = perm_id p\<rparr> \<in> set (role_permissions ?S)"
    using create_role_grants_perms [OF h, of "[JStr ''ver'', JStr ''editar'']"]
    by (simp add: jfield_def perm_names_def)
  then show ?thesis using h by auto
qed

text \<open>C14: PUT is idempotent: sending the same body again to the store a successful PUT left answers 200 and changes nothing.\<close>

theorem update_role_idempotent:
  assumes "update_role s b = (reply 200 Success, s1)"
  shows "update_role s1 b = (reply 200 Success, s1)"
proof -
  let ?rid = "js_string (the (jfield b ''id''))" and ?nv = "jfield b ''name''"
    and ?dv = "jfield b ''description''"
  obtain sa sb xs bids where tr: "truthy (jfield b ''id'')"
    and u: "upd_role s ?rid ?nv ?dv = Inr sa" and d: "del_rps_of_role sa ?rid = Inr sb"
    and pl: "perm_list (jfield b ''permissions'') = Some xs" and pb: "perm_body_ids xs = Some bids"
    and a: "attach_perms sb ?rid (perm_names xs) bids = (None, s1)"
    using update_role_200 [OF assms] by blast
  let ?ns = "perm_names xs"
  have sb: "sb = sa\<lparr>role_permissions := filter (\<lambda>m. rp_role m \<noteq> ?rid) (role_permissions sa)\<rparr>"
    and dok: "\<not> fails sa (DB RolePermissions Delete)"
    using del_rps_of_role_Inr [OF d] by simp_all
  have fsa: "faults sa = faults s" using upd_role_Inr [OF u] by simp
  have s1: "s1 = attach_result sb ?rid ?ns bids" by (rule attach_perms_result [OF a])
  have r1: "roles s1 = roles sa" and f1: "faults s1 = faults s"
    using attach_perms_None(3,5) [OF a] sb fsa by simp_all
  have up: "upd_role s1 ?rid ?nv ?dv = Inr s1" by (rule upd_role_again [OF u r1 f1])
  let ?s2 = "s1\<lparr>role_permissions := filter (\<lambda>m. rp_role m \<noteq> ?rid) (role_permissions s1)\<rparr>"
  have del: "del_rps_of_role s1 ?rid = Inr ?s2"
    using dok fsa f1 by (simp add: del_rps_of_role_def write_call_def fails_def)
  have none: "\<forall>m\<in>set (role_permissions sb). rp_role m \<noteq> ?rid" using sb by simp
  have rps1: "role_permissions s1 = role_permissions sb @
                map (\<lambda>p. \<lparr>rp_role = ?rid, rp_perm = p\<rparr>) (pipeline_ids s1 ?ns bids)"
    using attach_result_rps [OF none] s1 by simp
  have rps2: "role_permissions ?s2 = role_permissions sb"
    using rps1 none by (simp add: filter_empty_conv)
  have "attach_perms ?s2 ?rid ?ns bids =
          (None, ?s2\<lparr>role_permissions := role_permissions ?s2 @
              filter (\<lambda>m. m \<notin> set (role_permissions ?s2))
                (map (\<lambda>p. \<lparr>rp_role = ?rid, rp_perm = p\<rparr>) (pipeline_ids s1 ?ns bids))\<rparr>)"
    by (rule attach_perms_replay [OF a]) (simp_all add: attach_perms_None(5) [OF a] f1)
  also have "\<dots> = (None, s1)"
    unfolding rps2 filter_new_rows [OF none] rps1 [symmetric] by simp
  finally have att: "attach_perms ?s2 ?rid ?ns bids = (None, s1)" .
  show ?thesis
    unfolding update_role_def Let_def using tr up del pl pb att by simp
qed

theorem update_role_idempotent_witness:
  "update_role (snd (update_role demo_roles [(''id'', JStr ''2''), (''name'', JStr ''vendedor''),
       (''permissions'', JArr [JStr ''ver'', JStr ''editar''])]))
     [(''id'', JStr ''2''), (''name'', JStr ''vendedor''), (''permissions'', JArr [JStr ''ver'', JStr ''editar''])]
   = (reply 200 Success, snd (update_role demo_roles [(''id'', JStr ''2''), (''name'', JStr ''vendedor''),
       (''permissions'', JArr [JStr ''ver'', JStr ''editar''])]))"
proof -
  let ?b = "[(''id'', JStr ''2''), (''name'', JStr ''vendedor''), (''permissions'', JArr [JStr ''ver'', JStr ''editar''])]"
  have h: "update_role demo_roles ?b = (reply 200 Success, snd (update_role demo_roles ?b))"
    by (simp add: roles_eval show_nat.simps char_of_def bit_simps)
  show ?thesis by (rule update_role_idempotent [OF h])
qed

text \<open>The permission pipeline shared by POST and PUT is idempotent: replaying it on the store it left changes nothing.\<close>

theorem attach_perms_idem:
  assumes first: "attach_perms s rid ns bids = (None, s1)"
  shows "attach_perms s1 rid ns bids = (None, s1)"
proof -
  have "(\<lambda>p. \<lparr>rp_role = rid, rp_perm = p\<rparr>) ` set (pipeline_ids s1 ns bids) \<subseteq> set (role_permissions s1)"
    using attach_perms_None(1) [OF first] by auto
  then have "filter (\<lambda>m. m \<notin> set (role_permissions s1))
               (map (\<lambda>p. \<lparr>rp_role = rid, rp_perm = p\<rparr>) (pipeline_ids s1 ns bids)) = []"
    by (auto simp: filter_empty_conv)
  then show ?thesis
    using attach_perms_replay [OF first refl attach_perms_None(5) [OF first]] by simp
qed

theorem attach_perms_idem_witness:
  "attach_perms (snd (attach_perms demo_roles ''2'' [''ver'', ''editar''] [JStr ''p7''])) ''2'' [''ver'', ''editar''] [JStr ''p7'']
   = (None, snd (attach_perms demo_roles ''2'' [''ver'', ''editar''] [JStr ''p7'']))"
proof -
  have h: "attach_perms demo_roles ''2'' [''ver'', ''editar''] [JStr ''p7'']
           = (None, snd (attach_perms demo_roles ''2'' [''ver'', ''editar''] [JStr ''p7'']))"
    by (simp add: roles_eval show_nat.simps char_of_def bit_simps)
  show ?thesis by (rule attach_perms_idem [OF h])
qed

text \<open>A hard delete of a role that some user holds is refused with status 400 and the message of the code, and nothing is written.\<close>

theorem delete_role_hard_rejected:
  assumes "\<not> fails s (DB UserRoles Select)"
    and "jfield b ''id'' = Some (JStr rid)" and "rid \<noteq> []" and "truthy (jfield b ''hard'')"
    and "\<lparr>ur_user = u, ur_role = rid\<rparr> \<in> set (user_roles s)"
  shows "delete_role s b = (reply 400 (ErrMsg ''Role has associated users; cannot hard-delete''), s)"
proof -
  have "\<exists>x\<in>set (user_roles s). ur_role x = rid"
    by (rule bexI [OF _ assms(5)]) simp
  then have "filter (\<lambda>r. ur_role r = rid) (user_roles s) \<noteq> []"
    by (simp add: filter_empty_conv)
  then have "take 1 (filter (\<lambda>r. ur_role r = rid) (user_roles s)) \<noteq> []" by (simp add: take_eq_Nil)
  then show ?thesis
    using assms(1-4) by (simp add: delete_role_def Let_def sel_ur_by_role_def read_call_def)
qed

theorem delete_role_hard_rejected_witness:
  "delete_role demo_roles [(''id'', JStr ''2''), (''hard'', JBool True)]
     = (reply 400 (ErrMsg ''Role has associated users; cannot hard-delete''), demo_roles)"
  by (rule delete_role_hard_rejected [where rid = "''2''" and u = "''b''"])
     (simp_all add: demo_roles_def demo_store_def fails_def jfield_def)

text \<open>A delete without the hard flag only marks the role disabled, and answers 200.\<close>

theorem delete_role_soft:
  assumes "no_faults s" and "jfield b ''id'' = Some (JStr rid)" and "rid \<noteq> []"
    and "\<not> truthy (jfield b ''hard'')"
  shows "delete_role s b =
           (reply 200 Success,
            s\<lparr>roles := map (\<lambda>r. if role_id r = rid then r\<lparr>role_disabled := True\<rparr> else r) (roles s)\<rparr>)"
  using assms
  by (simp add: no_faults_def delete_role_def Let_def store_reads store_writes store_simps)

theorem delete_role_soft_witness:
  "delete_role demo_roles [(''id'', JStr ''2'')] =
     (reply 200 Success, demo_roles\<lparr>roles := map (\<lambda>r. if role_id r = ''2'' then r\<lparr>role_disabled := True\<rparr> else r) (roles demo_roles)\<rparr>)"
  by (rule delete_role_soft) (simp_all add: demo_roles_def demo_store_def no_faults_def jfield_def)

text \<open>C15: PUT may rename the administrador role: when it is the only role with that name, renaming it answers 200 and leaves no user holding an administrador role, a check assign-role and delete make and PUT does not.\<close>

theorem update_role_renames_admin:
  assumes "no_faults s" and "jfield b ''id'' = Some (JStr rid)" and "rid \<noteq> []"
    and "admin_ids s = [rid]" and "jfield b ''name'' = Some (JStr n)" and "n \<noteq> admin_role_name"
    and "n \<notin> set (map role_name (roles s))" and "jfield b ''permissions'' = None"
  shows "fst (update_role s b) = reply 200 Success \<and> \<not> has_admin (snd (update_role s b))"
proof -
  have "rid \<in> set (admin_ids s)" using assms(4) by simp
  then have rid: "rid \<in> set (map role_id (roles s))" by (auto simp: admin_ids_def)
  have n: "n \<notin> set (map role_name (filter (\<lambda>r. role_id r \<noteq> rid) (roles s)))"
    using assms(7) by auto
  have other: "role_id r = rid" if "r \<in> set (roles s)" and "role_name r = admin_role_name" for r
  proof -
    have "role_id r \<in> set (admin_ids s)" using that by (simp add: admin_ids_def)
    then show ?thesis using assms(4) by simp
  qed
  let ?s1 = "s\<lparr>roles := map (\<lambda>r. if role_id r = rid then r\<lparr>role_name := n, role_desc := (case jfield b ''description'' of None \<Rightarrow> role_desc r | Some d \<Rightarrow> Some d)\<rparr> else r) (roles s)\<rparr>"
  have up: "update_role s b = (reply 200 Success, ?s1\<lparr>role_permissions := filter (\<lambda>m. rp_role m \<noteq> rid) (role_permissions s)\<rparr>)"
    using assms(1-3,5,8) rid n
    by (simp add: no_faults_def update_role_def Let_def upd_role_def del_rps_of_role_def
        write_call_def fails_def perm_body_ids_def perm_names_def attach_perms_def)
  have "admin_ids (?s1\<lparr>role_permissions := filter (\<lambda>m. rp_role m \<noteq> rid) (role_permissions s)\<rparr>) = []"
    using other assms(6) by (auto simp: admin_ids_def filter_empty_conv)
  then show ?thesis using up by (simp add: has_admin_def admin_rows_def)
qed

theorem update_role_renames_admin_witness:
  "fst (update_role demo_roles [(''id'', JStr ''1''), (''name'', JStr ''superadmin'')]) = reply 200 Success
   \<and> \<not> has_admin (snd (update_role demo_roles [(''id'', JStr ''1''), (''name'', JStr ''superadmin'')]))"
  by (rule update_role_renames_admin [where rid = "''1''" and n = "''superadmin''"])
     (simp_all add: demo_roles_def demo_store_def no_faults_def jfield_def admin_ids_def)

text \<open>C16: POST is not atomic: a permissions array holding null makes the filter throw after the role was inserted, so the request answers 500 and the role stays created, without permissions.\<close>

theorem create_role_null_partial:
  assumes "no_faults s" and "jfield b ''name'' = Some (JStr n)" and "n \<noteq> []"
    and "n \<notin> set (map role_name (roles s))" and "''r'' @ show_nat (next_id s) \<notin> set (map role_id (roles s))"
    and "jfield b ''permissions'' = Some (JArr xs)" and "JNull \<in> set xs"
  shows "create_role s b =
           (type_error500,
            s\<lparr>roles := roles s @ [\<lparr>role_id = ''r'' @ show_nat (next_id s), role_name = n,
                                   role_desc = jfield b ''description'', role_disabled = False\<rparr>],
              next_id := Suc (next_id s)\<rparr>)"
  using assms
  by (simp add: no_faults_def create_role_def Let_def ins_role_def fails_def perm_body_ids_def)

theorem create_role_null_partial_witness:
  "create_role demo_roles [(''name'', JStr ''vendedor''), (''permissions'', JArr [JNull])] =
     (type_error500,
      demo_roles\<lparr>roles := roles demo_roles @ [\<lparr>role_id = ''r3'', role_name = ''vendedor'', role_desc = None, role_disabled = False\<rparr>],
                 next_id := 4\<rparr>)"
  using create_role_null_partial [of demo_roles "[(''name'', JStr ''vendedor''), (''permissions'', JArr [JNull])]" "''vendedor''" "[JNull]"]
  by (simp add: demo_roles_def demo_store_def no_faults_def jfield_def show_nat.simps char_of_def bit_simps)

text \<open>C17: PUT with a permissions array holding null deletes the role's mappings before the filter throws: the request answers 500 and the role has lost its permissions.\<close>

theorem update_role_null_drops_perms:
  assumes "no_faults s" and "jfield b ''id'' = Some (JStr rid)" and "rid \<noteq> []"
    and "jfield b ''name'' = None" and "jfield b ''permissions'' = Some (JArr xs)" and "JNull \<in> set xs"
  shows "fst (update_role s b) = type_error500
       \<and> role_permissions (snd (update_role s b)) = filter (\<lambda>m. rp_role m \<noteq> rid) (role_permissions s)
       \<and> roles (snd (update_role s b)) =
           map (\<lambda>r. if role_id r = rid then r\<lparr>role_desc := (case jfield b ''description'' of None \<Rightarrow> role_desc r | Some d \<Rightarrow> Some d)\<rparr> else r) (roles s)"
  using assms
  by (simp add: no_faults_def update_role_def Let_def upd_role_def del_rps_of_role_def
      write_call_def fails_def perm_body_ids_def)

theorem update_role_null_drops_perms_witness:
  "fst (update_role demo_roles [(''id'', JStr ''2''), (''permissions'', JArr [JNull])]) = type_error500
   \<and> role_permissions (snd (update_role demo_roles [(''id'', JStr ''2''), (''permissions'', JArr [JNull])])) = []"
  using update_role_null_drops_perms [of demo_roles "[(''id'', JStr ''2''), (''permissions'', JArr [JNull])]" "''2''" "[JNull]"]
  by (simp add: demo_roles_def demo_store_def no_faults_def jfield_def)

text \<open>PUT with an id that names no role answers 200 and adds permission mappings for the missing role.\<close>

theorem update_role_unknown_id:
  "update_role demo_roles [(''id'', JStr ''9''), (''permissions'', JArr [JObj [(''id'', JStr ''p1'')]])]
     = (reply 200 Success, demo_roles\<lparr>role_permissions := role_permissions demo_roles @ [\<lparr>rp_role = ''9'', rp_perm = ''p1''\<rparr>]\<rparr>)
   \<and> ''9'' \<notin> set (map role_id (roles demo_roles))"
  by (simp add: roles_eval)

text \<open>C18: on every store without injected faults, POST with a fresh role name and a permissions array that names one permission twice inserts the role, then fails in the permission upsert: the request answers 500 and the role stays created\<close>

theorem create_role_duplicate_names:
  assumes "no_faults s" and "jfield b ''name'' = Some (JStr n)" and "n \<noteq> []"
    and "n \<notin> set (map role_name (roles s))" and "''r'' @ show_nat (next_id s) \<notin> set (map role_id (roles s))"
    and "jfield b ''permissions'' = Some (JArr xs)" and "JNull \<notin> set xs" and dup: "\<not> distinct (perm_names xs)"
  shows "create_role s b =
           (fail500 (ConflictTwice Permissions),
            s\<lparr>roles := roles s @ [\<lparr>role_id = ''r'' @ show_nat (next_id s), role_name = n,
                                   role_desc = jfield b ''description'', role_disabled = False\<rparr>],
              next_id := Suc (next_id s)\<rparr>)"
proof -
  have "perm_names xs \<noteq> []" using dup by auto
  then show ?thesis
    using assms
    by (simp add: no_faults_def create_role_def Let_def ins_role_def fails_def perm_body_ids_def
        attach_perms_def ups_perms_def write_call_def)
qed

theorem create_role_duplicate_names_witness:
  "create_role demo_roles [(''name'', JStr ''vendedor''), (''permissions'', JArr [JStr ''ver'', JStr ''ver''])]
     = (fail500 (ConflictTwice Permissions),
        demo_roles\<lparr>roles := roles demo_roles @ [\<lparr>role_id = ''r3'', role_name = ''vendedor'', role_desc = None, role_disabled = False\<rparr>],
                   next_id := 4\<rparr>)"
  using create_role_duplicate_names [of demo_roles "[(''name'', JStr ''vendedor''), (''permissions'', JArr [JStr ''ver'', JStr ''ver''])]"
      "''vendedor''" "[JStr ''ver'', JStr ''ver'']"]
  by (simp add: demo_roles_def demo_store_def no_faults_def jfield_def perm_names_def show_nat.simps char_of_def bit_simps)

text \<open>C19: on every store without injected faults, PUT on a role whose permissions array names an existing permission and also gives that permission's id as an object sends the id twice to the mapping upsert, which fails after the role's old mappings were deleted: the request answers 500 and the role is left with no permission\<close>

theorem update_role_name_and_id_conflict:
  assumes nf: "no_faults s" and "jfield b ''id'' = Some (JStr rid)" and "rid \<noteq> []"
    and "jfield b ''name'' = None" and "jfield b ''permissions'' = Some (JArr xs)" and "JNull \<notin> set xs"
    and known: "set (perm_names xs) \<subseteq> perm_name ` set (permissions s)" and "distinct (perm_names xs)"
    and p: "p \<in> set (permissions s)" "JStr (perm_name p) \<in> set xs" "perm_id p \<noteq> []"
    and obj: "JObj [(''id'', JStr (perm_id p))] \<in> set xs"
  shows "fst (update_role s b) = fail500 (ConflictTwice RolePermissions)
       \<and> filter (\<lambda>m. rp_role m = rid) (role_permissions (snd (update_role s b))) = []"
proof -
  let ?ns = "perm_names xs" and ?bids = "List.map_filter perm_obj_id xs"
  have inn: "perm_name p \<in> set ?ns" using p(2) by (force simp: perm_names_def)
  then have ne: "?ns \<noteq> []" by auto
  have fresh: "filter (\<lambda>n. n \<notin> set (map perm_name (permissions s))) ?ns = []"
    using known by (auto simp: filter_empty_conv)
  have "JStr (perm_id p) \<in> set ?bids"
    using obj p(3) by (force simp: List.map_filter_def jfield_def)
  then have "perm_id p \<in> set (map js_string ?bids)" by force
  moreover have "perm_id p \<in> set (map perm_id (filter (\<lambda>q. perm_name q \<in> set ?ns) (permissions s)))"
    using p(1) inn by auto
  ultimately have dup: "\<not> distinct (map perm_id (filter (\<lambda>q. perm_name q \<in> set ?ns) (permissions s)) @ map js_string ?bids)"
    by auto
  then have "map perm_id (filter (\<lambda>q. perm_name q \<in> set ?ns) (permissions s)) @ map js_string ?bids \<noteq> []"
    by auto
  then show ?thesis
    using assms ne fresh dup
    by (simp add: no_faults_def update_role_def Let_def upd_role_def del_rps_of_role_def
        write_call_def fails_def perm_body_ids_def attach_perms_def ups_perms_def sel_perm_ids_def
        read_call_def ups_rps_def del: distinct_append append_is_Nil_conv)
qed

theorem update_role_name_and_id_conflict_witness:
  "fst (update_role demo_roles [(''id'', JStr ''2''), (''permissions'', JArr [JStr ''ver'', JObj [(''id'', JStr ''p1'')]])])
     = fail500 (ConflictTwice RolePermissions)
   \<and> filter (\<lambda>m. rp_role m = ''2'')
       (role_permissions (snd (update_role demo_roles [(''id'', JStr ''2''), (''permissions'', JArr [JStr ''ver'', JObj [(''id'', JStr ''p1'')]])]))) = []"
  by (rule update_role_name_and_id_conflict [where p = "\<lparr>perm_id = ''p1'', perm_name = ''ver''\<rparr>"
        and xs = "[JStr ''ver'', JObj [(''id'', JStr ''p1'')]]"])
     (simp_all add: demo_roles_def demo_store_def no_faults_def jfield_def perm_names_def)

end
