(* ===== verification/Listing.thy ===== *)
theory Listing
  imports Users
begin

text \<open>
  The two listings of users with their roles: GET /manage-users (lines
  53--93 of src/src/supabase/functions/manage-roles/index.ts), which adds
  each user's \<open>is_active\<close>, and the older GET /manage-roles/users (lines
  277--310).  Both take the users from the identity provider and, when that
  call fails, from the role rows alone.
\<close>

section \<open>Definitions\<close>

text \<open>\<open>[...new Set(xs)]\<close>: the distinct elements in the order of their first
  occurrence.\<close>

fun js_set_list :: "'a list \<Rightarrow> 'a list" where
  "js_set_list [] = []"
| "js_set_list (x # xs) = x # js_set_list (filter (\<lambda>y. y \<noteq> x) xs)"

text \<open>Lines 55--66 and 279--290: the identity provider's users as
  \<open>(id, e-mail, metadata role)\<close>, or the ids of the role rows when listing
  them fails.\<close>

definition users_source :: "store \<Rightarrow> db_error + (uuid \<times> string option \<times> jval option) list" where
  "users_source s =
     (case auth_list_users s of
        Inr us \<Rightarrow> Inr (map (\<lambda>u. (au_id u, Some (au_email u), au_meta_role u)) us)
      | Inl _ \<Rightarrow>
          (case sel_ur_all s of
             Inl e \<Rightarrow> Inl e
           | Inr ur \<Rightarrow> Inr (map (\<lambda>i. (i, None, None)) (js_set_list (map ur_user ur)))))"

text \<open>\<open>roleById\<close>, \<open>profileById\<close>: a later row of the loop overwrites an
  earlier one with the same id.\<close>

definition by_id :: "('a \<Rightarrow> uuid) \<Rightarrow> 'a list \<Rightarrow> uuid \<Rightarrow> 'a option" where
  "by_id f xs = map_of (rev (map (\<lambda>x. (f x, x)) xs))"

text \<open>Lines 84--89: the roles of the user's rows that were found, the first
  one's name as \<open>role\<close>, else \<open>metadata?.role ?? null\<close>.\<close>

definition mk_entry ::
  "(uuid \<Rightarrow> role_row option) \<Rightarrow> ur_row list \<Rightarrow> bool option \<Rightarrow> uuid \<times> string option \<times> jval option \<Rightarrow> user_entry" where
  "mk_entry rb urs act u =
     (case u of (i, em, meta) \<Rightarrow>
        (let assigned = List.map_filter (\<lambda>r. if ur_user r = i then rb (ur_role r) else None) urs in
         \<lparr>ue_id = i, ue_email = em, ue_meta_role = meta, ue_roles = assigned,
          ue_role = (case assigned of r # _ \<Rightarrow> JStr (role_name r)
                     | [] \<Rightarrow> (case meta of None \<Rightarrow> JNull | Some v \<Rightarrow> v)),
          ue_active = act\<rparr>))"

text \<open>\<open>profileById[u.id]?.is_active ?? true\<close>.\<close>

definition active_of :: "(uuid \<Rightarrow> profile_row option) \<Rightarrow> uuid \<Rightarrow> bool" where
  "active_of pb i = (case pb i of None \<Rightarrow> True | Some p \<Rightarrow> prof_active p)"

text \<open>GET /manage-users, lines 53--93.\<close>

definition list_users :: "store \<Rightarrow> response" where
  "list_users s =
     (case users_source s of
        Inl e \<Rightarrow> fail500 e
      | Inr us \<Rightarrow>
          (case sel_ur_all s of
             Inl e \<Rightarrow> fail500 e
           | Inr urs \<Rightarrow>
               (case sel_roles_in s (js_set_list (map ur_role urs)) of
                  Inl e \<Rightarrow> fail500 e
                | Inr rs \<Rightarrow>
                    (case sel_profiles_all s of
                       Inl e \<Rightarrow> fail500 e
                     | Inr ps \<Rightarrow>
                         reply 200 (UsersList (map (\<lambda>u. mk_entry (by_id role_id rs) urs
                            (Some (active_of (by_id prof_id ps) (fst u))) u) us))))))"

text \<open>GET /manage-roles/users, lines 277--310: the same without profiles.\<close>

definition list_users_legacy :: "store \<Rightarrow> response" where
  "list_users_legacy s =
     (case users_source s of
        Inl e \<Rightarrow> fail500 e
      | Inr us \<Rightarrow>
          (case sel_ur_all s of
             Inl e \<Rightarrow> fail500 e
           | Inr urs \<Rightarrow>
               (case sel_roles_in s (js_set_list (map ur_role urs)) of
                  Inl e \<Rightarrow> fail500 e
                | Inr rs \<Rightarrow> reply 200 (UsersList (map (mk_entry (by_id role_id rs) urs None) us)))))"

text \<open>The newer listing's response with \<open>is_active\<close> left out.\<close>

definition drop_active :: "response \<Rightarrow> response" where
  "drop_active r =
     (case resp r of
        UsersList es \<Rightarrow> r\<lparr>resp := UsersList (map (\<lambda>e. e\<lparr>ue_active := None\<rparr>) es)\<rparr>
      | _ \<Rightarrow> r)"

text \<open>A store whose identity provider has 51 users.\<close>

definition many_users :: store where
  "many_users = demo_store\<lparr>auth_users := map (\<lambda>n. \<lparr>au_id = ''u'' @ show_nat n, au_email = ''u@x'',
     au_meta_role = None, au_disabled = False\<rparr>) [0..<51]\<rparr>"

section \<open>Lemmas\<close>

lemma mk_entry_active: "(mk_entry rb urs act u)\<lparr>ue_active := None\<rparr> = mk_entry rb urs None u"
  by (cases u) (simp add: mk_entry_def Let_def)

lemma mk_entry_id [simp]: "ue_id (mk_entry rb urs act u) = fst u"
  by (cases u) (simp add: mk_entry_def Let_def)

section \<open>Properties of the listings\<close>

text \<open>C36: the older listing answers what the newer one answers without the is_active field, whenever reading the profiles does not fail.\<close>

theorem list_users_legacy_equiv:
  assumes "\<not> fails s (DB Profiles Select)"
  shows "list_users_legacy s = drop_active (list_users s)"
  using assms
  by (simp add: list_users_def list_users_legacy_def drop_active_def reply_def fail500_def
      sel_profiles_all_def read_call_def mk_entry_active comp_def split: sum.split)

theorem list_users_legacy_equiv_witness:
  "list_users_legacy demo_store = drop_active (list_users demo_store)"
  by (rule list_users_legacy_equiv) (simp add: demo_store_def fails_def)

text \<open>C37: on a fault-free store the newer listing shows the first 50 users of the identity provider, in its order, and no other: listUsers() answers one page, so the users after the 50th are never listed.\<close>

theorem list_users_first_page:
  assumes "no_faults s"
  shows "\<exists>es. list_users s = reply 200 (UsersList es) \<and> length es = min 50 (length (auth_users s))
              \<and> map ue_id es = map au_id (take 50 (auth_users s))"
  using assms
  by (simp add: no_faults_def list_users_def users_source_def store_reads store_simps comp_def reply_def)

theorem list_users_first_page_witness:
  "length (auth_users many_users) = 51 \<and> (\<exists>es. list_users many_users = reply 200 (UsersList es) \<and> length es = 50)"
proof -
  have "no_faults many_users" by (simp add: many_users_def demo_store_def no_faults_def)
  then obtain es where "list_users many_users = reply 200 (UsersList es)"
    and "length es = min 50 (length (auth_users many_users))"
    using list_users_first_page [of many_users] by blast
  then show ?thesis by (auto simp: many_users_def)
qed

end
