(* ===== verification/Router.thy ===== *)
theory Router
  imports Roles Listing
begin

text \<open>
  Request dispatch of the manage-roles edge function.  The newer version
  (src/src/supabase/functions/manage-roles/index.ts, lines 27--53 and the
  guards of lines 96, 160, 213, 251, 275, 355, 395, 434 and 461) sends a
  path with a \<open>manage-users\<close> segment to the user endpoints, and every
  request those do not take on to the role and legacy user handlers.  The
  older version (src/supabase/functions/manage-roles/index.ts, lines 14--156)
  has only the role handlers, chosen by method.
\<close>

section \<open>Paths\<close>

text \<open>\<open>s.split('/')\<close>.\<close>

fun split_on :: "char \<Rightarrow> string \<Rightarrow> string list" where
  "split_on c [] = [[]]"
| "split_on c (x # xs) =
     (if x = c then [] # split_on c xs
      else (case split_on c xs of [] \<Rightarrow> [[x]] | w # ws \<Rightarrow> (x # w) # ws))"

text \<open>\<open>url.pathname.split('/').filter(Boolean)\<close> (line 35).\<close>

definition path_parts :: "string \<Rightarrow> string list" where
  "path_parts p = filter (\<lambda>w. w \<noteq> []) (split_on CHR ''/'' p)"

text \<open>\<open>parts.lastIndexOf(name)\<close>, \<open>None\<close> for -1.\<close>

definition last_index_of :: "'a list \<Rightarrow> 'a \<Rightarrow> nat option" where
  "last_index_of xs x = (let is = filter (\<lambda>i. xs ! i = x) [0..<length xs] in
                          if is = [] then None else Some (last is))"

text \<open>Lines 37--38 and 42--43: the segments after the last occurrence of
  the function's name, joined by slashes; empty when it does not occur.\<close>

definition sub_after :: "string list \<Rightarrow> string \<Rightarrow> string" where
  "sub_after parts name =
     (case last_index_of parts name of None \<Rightarrow> [] | Some i \<Rightarrow> join_with ''/'' (drop (Suc i) parts))"

definition starts_with :: "string \<Rightarrow> string \<Rightarrow> bool" where
  "starts_with s p \<longleftrightarrow> take (length p) s = p"

section \<open>Requests\<close>

text \<open>Method, path, the authorization header (\<open>''\<close> when absent) and the
  body, \<open>None\<close> when \<open>req.json()\<close> rejects.\<close>

record request =
  rq_method :: string
  rq_path :: string
  rq_auth :: string
  rq_body :: "jval option"

text \<open>\<open>const body = await req.json(); const { ... } = body\<close>: a body that
  does not parse, or is \<open>null\<close>, throws into the \<open>catch\<close> (500); any other
  value that is not an object has none of the fields.\<close>

definition with_body :: "store \<Rightarrow> jval option \<Rightarrow> (body \<Rightarrow> response \<times> store) \<Rightarrow> response \<times> store" where
  "with_body s bv h =
     (case bv of
        None \<Rightarrow> (reply 500 (ErrMsg ''SyntaxError''), s)
      | Some JNull \<Rightarrow> (type_error500, s)
      | Some (JObj kvs) \<Rightarrow> h kvs
      | Some _ \<Rightarrow> h [])"

section \<open>The newer function\<close>

text \<open>Lines 46--249: the user endpoints, \<open>None\<close> when none matches and the
  request goes on.\<close>

definition users_route :: "store \<Rightarrow> request \<Rightarrow> string \<Rightarrow> (response \<times> store) option" where
  "users_route s rq usub =
     (let m = rq_method rq; cur = auth_get_user s (bearer_token (rq_auth rq)) in
      if m = ''GET'' \<and> usub = [] then Some (list_users s, s)
      else if m = ''POST'' \<and> starts_with usub ''assign-role'' then Some (with_body s (rq_body rq) (assign_role s cur))
      else if m = ''PATCH'' \<and> starts_with usub ''disable'' then Some (with_body s (rq_body rq) (set_active s cur))
      else if m = ''DELETE'' \<and> starts_with usub ''delete'' then Some (with_body s (rq_body rq) (delete_user s cur))
      else None)"

text \<open>Lines 251--461: the role handlers and the older user endpoints.\<close>

definition roles_route :: "store \<Rightarrow> request \<Rightarrow> string \<Rightarrow> response \<times> store" where
  "roles_route s rq sub =
     (let m = rq_method rq in
      if m = ''GET'' \<and> sub = [] then (list_roles s, s)
      else if (m = ''GET'' \<or> m = ''POST'' \<or> m = ''DELETE'') \<and> starts_with sub ''users'' then
        (if m = ''GET'' then (list_users_legacy s, s)
         else if m = ''POST'' then with_body s (rq_body rq) (legacy_assign s)
         else with_body s (rq_body rq) (legacy_unassign s))
      else if m = ''POST'' then with_body s (rq_body rq) (create_role s)
      else if m = ''PUT'' then with_body s (rq_body rq) (update_role s)
      else if m = ''DELETE'' then with_body s (rq_body rq) (delete_role s)
      else (reply 405 (ErrMsg ''Method not allowed''), s))"

definition manage_roles :: "store \<Rightarrow> request \<Rightarrow> response \<times> store" where
  "manage_roles s rq =
     (let parts = path_parts (rq_path rq) in
      if rq_method rq = ''OPTIONS'' then (reply 200 OkText, s)
      else if ''manage-users'' \<in> set parts
      then (case users_route s rq (sub_after parts ''manage-users'') of
              Some r \<Rightarrow> r
            | None \<Rightarrow> roles_route s rq (sub_after parts ''manage-roles''))
      else roles_route s rq (sub_after parts ''manage-roles''))"

section \<open>The older function\<close>

definition manage_roles_v1 :: "store \<Rightarrow> request \<Rightarrow> response \<times> store" where
  "manage_roles_v1 s rq =
     (let m = rq_method rq in
      if m = ''OPTIONS'' then (reply 200 OkText, s)
      else if m = ''GET'' then (list_roles s, s)
      else if m = ''POST'' then with_body s (rq_body rq) (create_role s)
      else if m = ''PUT'' then with_body s (rq_body rq) (update_role s)
      else if m = ''DELETE'' then with_body s (rq_body rq) (delete_role s)
      else (reply 405 (ErrMsg ''Method not allowed''), s))"

section \<open>Properties of the dispatch\<close>

text \<open>C32: on a path without a manage-users segment and with nothing after manage-roles, the newer function answers every request exactly as the older one: the role handlers were kept unchanged.\<close>

theorem manage_roles_equiv_v1:
  assumes "''manage-users'' \<notin> set (path_parts (rq_path rq))"
    and "sub_after (path_parts (rq_path rq)) ''manage-roles'' = []"
  shows "manage_roles s rq = manage_roles_v1 s rq"
  using assms
  by (simp add: manage_roles_def roles_route_def manage_roles_v1_def starts_with_def Let_def)

theorem manage_roles_equiv_v1_witness:
  "manage_roles demo_store \<lparr>rq_method = ''PUT'', rq_path = ''/functions/v1/manage-roles'', rq_auth = '''',
       rq_body = Some (JObj [(''id'', JStr ''2''), (''name'', JStr ''vendedor'')])\<rparr>
   = manage_roles_v1 demo_store \<lparr>rq_method = ''PUT'', rq_path = ''/functions/v1/manage-roles'', rq_auth = '''',
       rq_body = Some (JObj [(''id'', JStr ''2''), (''name'', JStr ''vendedor'')])\<rparr>"
  by (rule manage_roles_equiv_v1)
     (simp_all add: path_parts_def sub_after_def last_index_of_def Let_def)

text \<open>C33: a request to /manage-users that matches none of the user endpoints falls through to the role handlers: for every store and every authorization header, a DELETE whose path after manage-users does not start with delete goes to the role delete handler, and a POST whose path after manage-users does not start with assign-role goes to the role creation handler, neither of which checks the caller\<close>

theorem manage_users_fallthrough:
  assumes "''manage-users'' \<in> set (path_parts (rq_path rq))"
    and "\<not> starts_with (sub_after (path_parts (rq_path rq)) ''manage-users'') ''delete''"
    and "\<not> starts_with (sub_after (path_parts (rq_path rq)) ''manage-users'') ''assign-role''"
    and "\<not> starts_with (sub_after (path_parts (rq_path rq)) ''manage-roles'') ''users''"
  shows "(rq_method rq = ''DELETE'' \<longrightarrow> manage_roles s rq = with_body s (rq_body rq) (delete_role s))
       \<and> (rq_method rq = ''POST'' \<longrightarrow> manage_roles s rq = with_body s (rq_body rq) (create_role s))"
  using assms by (simp add: manage_roles_def users_route_def roles_route_def Let_def)

theorem manage_users_fallthrough_witness:
  "manage_roles demo_store \<lparr>rq_method = ''DELETE'', rq_path = ''/functions/v1/manage-users'', rq_auth = '''',
       rq_body = Some (JObj [(''id'', JStr ''1'')])\<rparr>
   = (reply 200 Success,
      demo_store\<lparr>roles := map (\<lambda>r. if role_id r = ''1'' then r\<lparr>role_disabled := True\<rparr> else r) (roles demo_store)\<rparr>)"
proof -
  let ?rq = "\<lparr>rq_method = ''DELETE'', rq_path = ''/functions/v1/manage-users'', rq_auth = '''',
       rq_body = Some (JObj [(''id'', JStr ''1'')])\<rparr>"
  have "manage_roles demo_store ?rq = with_body demo_store (rq_body ?rq) (delete_role demo_store)"
    using manage_users_fallthrough [of ?rq demo_store]
    by (simp add: path_parts_def sub_after_def last_index_of_def starts_with_def Let_def)
  then show ?thesis
    by (simp add: with_body_def delete_role_def Let_def jfield_def store_prims read_call_def
        write_call_def fails_def demo_store_def)
qed

end
