(* ===== verification/Whatsapp.thy ===== *)
theory Whatsapp
  imports Http
begin

text \<open>
  The whatsapp-notify edge function (src/supabase/functions/whatsapp-notify/
  index.ts): a POST carrying \<open>phone\<close> and \<open>message\<close> is checked in a fixed
  order (method, configuration, JSON, fields, phone format, blank message)
  and only then sent to the WhatsApp Cloud API.  The handler returns its
  response together with the list of requests it made to the API, so that
  what reaches the outside world is part of the result.  Strings are the
  UTF-8 bytes of the text.
\<close>

section \<open>Phone numbers and blank messages\<close>

definition is_digit :: "char \<Rightarrow> bool" where
  "is_digit c \<longleftrightarrow> 48 \<le> (of_char c :: nat) \<and> (of_char c :: nat) \<le> 57"

text \<open>\<open>/^\+[1-9]\d{1,14}$/.test(phone)\<close> (lines 47--51).\<close>

fun is_valid_phone :: "string \<Rightarrow> bool" where
  "is_valid_phone (c # d # ds) \<longleftrightarrow>
     c = CHR ''+'' \<and> is_digit d \<and> d \<noteq> CHR ''0'' \<and> ds \<noteq> [] \<and> length ds \<le> 14 \<and> list_all is_digit ds"
| "is_valid_phone _ \<longleftrightarrow> False"

text \<open>The three-byte encodings of the white space and line terminators that
  \<open>String.prototype.trim\<close> removes: U+1680, U+2000--U+200A, U+2028,
  U+2029, U+202F, U+205F, U+3000 and U+FEFF.\<close>

definition ws3 :: "nat list list" where
  "ws3 = [[0xE1, 0x9A, 0x80]] @ map (\<lambda>x. [0xE2, 0x80, x]) ([0x80..<0x8B] @ [0xA8, 0xA9, 0xAF])
         @ [[0xE2, 0x81, 0x9F], [0xE3, 0x80, 0x80], [0xEF, 0xBB, 0xBF]]"

text \<open>The number of bytes of the white space at the start of a string, 0 if
  it does not start with white space; U+00A0 is two bytes.\<close>

fun ws_bytes :: "nat list \<Rightarrow> nat" where
  "ws_bytes [] = 0"
| "ws_bytes (b # bs) =
     (if b \<in> {9, 10, 11, 12, 13, 32} then 1
      else if b = 0xC2 \<and> take 1 bs = [0xA0] then 2
      else if take 3 (b # bs) \<in> set ws3 then 3 else 0)"

definition ws_len :: "string \<Rightarrow> nat" where
  "ws_len s = ws_bytes (map of_char (take 3 s))"

text \<open>\<open>message.trim().length === 0\<close> (line 186): the string is a sequence
  of white space.\<close>

function js_blank :: "string \<Rightarrow> bool" where
  "js_blank s = (if s = [] then True else if ws_len s = 0 then False else js_blank (drop (ws_len s) s))"
  by pat_completeness auto
termination
  by (relation "measure length") auto

declare js_blank.simps [simp del]

section \<open>Requests, responses and the Cloud API\<close>

text \<open>The \<open>error\<close> texts of the function's error responses, by the check
  that produces them; \<open>SendFailed\<close> is the 500 of the outer catch, with
  the message of the caught error as its \<open>details\<close>.\<close>

datatype wa_error = MethodNotAllowed | ConfigIncomplete | InvalidJson | MissingParams
  | InvalidPhone | EmptyMessage | SendFailed string

datatype wa_body = WaOk | WaErr wa_error | WaSent "string option" "string option"

record wa_response =
  wa_status :: nat
  wa_resp :: wa_body

definition wa_reply :: "nat \<Rightarrow> wa_body \<Rightarrow> wa_response" where
  "wa_reply n b = \<lparr>wa_status = n, wa_resp = b\<rparr>"

text \<open>The two environment variables; \<open>Deno.env.get\<close> answers undefined for
  an unset variable.\<close>

record wa_env =
  wa_token :: "string option"
  wa_phone_id :: "string option"

definition env_set :: "string option \<Rightarrow> bool" where
  "env_set v \<longleftrightarrow> (case v of None \<Rightarrow> False | Some x \<Rightarrow> x \<noteq> [])"

text \<open>A request to the Cloud API (lines 67--85): its URL, bearer token,
  recipient \<open>to\<close> (the body's \<open>phone\<close>, serialised as it came) and text.\<close>

record wa_call =
  out_url :: string
  out_token :: string
  out_to :: jval
  out_text :: string

definition mk_call :: "jval \<Rightarrow> string \<Rightarrow> string \<Rightarrow> string \<Rightarrow> wa_call" where
  "mk_call phone msg token pid =
     \<lparr>out_url = ''https://graph.facebook.com/v18.0/'' @ pid @ ''/messages'', out_token = token,
      out_to = phone, out_text = msg\<rparr>"

text \<open>What the API answers: a parsed success with the ids of the messages
  and contacts, a status other than 2xx with its JSON body, or a rejected
  \<open>fetch\<close>.\<close>

datatype api_answer = ApiOk "string list" "string list" | ApiFail nat string | FetchFailed string

text \<open>\<open>sendWhatsAppMessage\<close> (lines 61--95) after the request was made: the
  error it throws, or the result.\<close>

definition send_result :: "api_answer \<Rightarrow> string + string list \<times> string list" where
  "send_result a =
     (case a of
        ApiOk ms cs \<Rightarrow> Inr (ms, cs)
      | ApiFail st d \<Rightarrow> Inl (''WhatsApp API error: '' @ show_nat st @ '' - '' @ d)
      | FetchFailed e \<Rightarrow> Inl e)"

text \<open>A property of the parsed body: \<open>undefined\<close> unless the body is an
  object (\<open>null\<close> is handled by the caller: reading its property throws).\<close>

fun wa_field :: "jval \<Rightarrow> string \<Rightarrow> jval option" where
  "wa_field (JObj kvs) k = jfield kvs k"
| "wa_field v k = None"

definition head_opt :: "'a list \<Rightarrow> 'a option" where
  "head_opt xs = (case xs of [] \<Rightarrow> None | x # _ \<Rightarrow> Some x)"

section \<open>The handler\<close>

text \<open>Lines 199--220: the request to the API, and the response built from
  its result.\<close>

definition wa_send :: "wa_env \<Rightarrow> jval \<Rightarrow> string \<Rightarrow> api_answer \<Rightarrow> wa_response \<times> wa_call list" where
  "wa_send env phone s api =
     (let c = mk_call phone s (the (wa_token env)) (the (wa_phone_id env)) in
      case send_result api of
        Inl e \<Rightarrow> (wa_reply 500 (WaErr (SendFailed e)), [c])
      | Inr (ms, cs) \<Rightarrow> (wa_reply 200 (WaSent (head_opt ms) (head_opt cs)), [c]))"

text \<open>Lines 157--220, on the parsed body.  Reading \<open>phone\<close> of \<open>null\<close>,
  or calling \<open>trim\<close> on a message that is not a string, throws a TypeError
  caught by the outer \<open>catch\<close>.\<close>

definition wa_checks :: "wa_env \<Rightarrow> jval \<Rightarrow> api_answer \<Rightarrow> wa_response \<times> wa_call list" where
  "wa_checks env v api =
     (if v = JNull then (wa_reply 500 (WaErr (SendFailed ''TypeError'')), [])
      else
        (let phone = wa_field v ''phone''; msg = wa_field v ''message'' in
         if \<not> truthy phone \<or> \<not> truthy msg then (wa_reply 400 (WaErr MissingParams), [])
         else if \<not> is_valid_phone (js_string (the phone)) then (wa_reply 400 (WaErr InvalidPhone), [])
         else
           (case the msg of
              JStr s \<Rightarrow>
                (if js_blank s then (wa_reply 400 (WaErr EmptyMessage), [])
                 else wa_send env (the phone) s api)
            | _ \<Rightarrow> (wa_reply 500 (WaErr (SendFailed ''TypeError'')), []))))"

text \<open>Lines 100--236.  The body is \<open>None\<close> when \<open>req.json()\<close> rejects.\<close>

definition whatsapp_notify ::
  "string \<Rightarrow> wa_env \<Rightarrow> jval option \<Rightarrow> api_answer \<Rightarrow> wa_response \<times> wa_call list" where
  "whatsapp_notify m env body api =
     (if m = ''OPTIONS'' then (wa_reply 200 WaOk, [])
      else if m \<noteq> ''POST'' then (wa_reply 405 (WaErr MethodNotAllowed), [])
      else if \<not> env_set (wa_token env) \<or> \<not> env_set (wa_phone_id env)
      then (wa_reply 500 (WaErr ConfigIncomplete), [])
      else
        (case body of
           None \<Rightarrow> (wa_reply 400 (WaErr InvalidJson), [])
         | Some v \<Rightarrow> wa_checks env v api))"

section \<open>Lemmas on the handler\<close>

lemma js_blank_Nil [simp]: "js_blank []"
  by (simp add: js_blank.simps)

lemma is_valid_phone_nonempty: "is_valid_phone p \<Longrightarrow> p \<noteq> []"
  by auto

lemma wa_send_calls: "snd (wa_send env phone s api) = [mk_call phone s (the (wa_token env)) (the (wa_phone_id env))]"
  by (simp add: wa_send_def Let_def split: sum.splits prod.splits)

lemma wa_checks_sends:
  assumes "snd (wa_checks env v api) \<noteq> []"
  obtains s where "v \<noteq> JNull" and "truthy (wa_field v ''phone'')" and "wa_field v ''message'' = Some (JStr s)"
    and "is_valid_phone (js_string (the (wa_field v ''phone'')))" and "\<not> js_blank s"
    and "wa_checks env v api = wa_send env (the (wa_field v ''phone'')) s api"
proof -
  have "v \<noteq> JNull" and p: "truthy (wa_field v ''phone'')" and m: "truthy (wa_field v ''message'')"
    and "is_valid_phone (js_string (the (wa_field v ''phone'')))"
    using assms by (auto simp: wa_checks_def Let_def split: if_splits)
  moreover obtain s where "the (wa_field v ''message'') = JStr s"
    using assms calculation by (auto simp: wa_checks_def Let_def split: jval.splits)
  moreover have "wa_field v ''message'' = Some (JStr s)"
    using m calculation(5) by (cases "wa_field v ''message''") auto
  ultimately show ?thesis using assms that by (auto simp: wa_checks_def Let_def split: if_splits)
qed

lemma whatsapp_notify_sends:
  assumes "snd (whatsapp_notify m env body api) \<noteq> []"
  obtains v where "m = ''POST''" and "env_set (wa_token env)" and "env_set (wa_phone_id env)"
    and "body = Some v" and "whatsapp_notify m env body api = wa_checks env v api"
  using assms by (auto simp: whatsapp_notify_def split: if_splits option.splits)

lemmas wa_eval = whatsapp_notify_def wa_checks_def wa_send_def send_result_def Let_def jfield_def
  is_digit_def env_set_def head_opt_def js_blank.simps ws_len_def ws3_def mk_call_def

text \<open>A POST with a valid phone string and a non-blank message gets past
  every check and is sent.\<close>

lemma whatsapp_notify_valid:
  assumes "env_set (wa_token env)" and "env_set (wa_phone_id env)"
    and "jfield kvs ''phone'' = Some (JStr p)" and "is_valid_phone p"
    and "jfield kvs ''message'' = Some (JStr s)" and "\<not> js_blank s"
  shows "whatsapp_notify ''POST'' env (Some (JObj kvs)) api = wa_send env (JStr p) s api"
proof -
  have "p \<noteq> []" "s \<noteq> []" using assms(4,6) is_valid_phone_nonempty by auto
  then show ?thesis using assms by (simp add: whatsapp_notify_def wa_checks_def Let_def)
qed

section \<open>Properties of the handler\<close>

text \<open>A POST whose phone does not match the international format, such as "123456", is rejected with status 400 before any request is made to the WhatsApp API.\<close>

theorem whatsapp_rejects_invalid_phone:
  assumes "m = ''POST''" and "env_set (wa_token env)" and "env_set (wa_phone_id env)"
    and "jfield kvs ''phone'' = Some p" and "truthy (Some p)" and "truthy (jfield kvs ''message'')"
    and "\<not> is_valid_phone (js_string p)"
  shows "whatsapp_notify m env (Some (JObj kvs)) api = (wa_reply 400 (WaErr InvalidPhone), [])"
  using assms by (simp add: whatsapp_notify_def wa_checks_def Let_def)

theorem whatsapp_rejects_invalid_phone_witness:
  "whatsapp_notify ''POST'' \<lparr>wa_token = Some ''t'', wa_phone_id = Some ''1''\<rparr>
     (Some (JObj [(''phone'', JStr ''123456''), (''message'', JStr ''hola'')])) (ApiOk [''m1''] [''w1''])
   = (wa_reply 400 (WaErr InvalidPhone), [])"
  by (rule whatsapp_rejects_invalid_phone [where p = "JStr ''123456''"]) (simp_all add: env_set_def jfield_def)

text \<open>C20: every request the function makes to the WhatsApp API follows a POST, carries a configured token, a phone that passed the format check (the body's phone value itself) and a message that is not blank.\<close>

theorem whatsapp_calls_validated:
  assumes "c \<in> set (snd (whatsapp_notify m env body api))"
  shows "m = ''POST'' \<and> is_valid_phone (js_string (out_to c)) \<and> \<not> js_blank (out_text c)
         \<and> out_token c \<noteq> [] \<and> (\<exists>v. body = Some v \<and> wa_field v ''phone'' = Some (out_to c))"
proof -
  have ne: "snd (whatsapp_notify m env body api) \<noteq> []" using assms by auto
  obtain v where m: "m = ''POST''" and tok: "env_set (wa_token env)" and b: "body = Some v"
    and eq: "whatsapp_notify m env body api = wa_checks env v api"
    by (rule whatsapp_notify_sends [OF ne])
  obtain s where p: "truthy (wa_field v ''phone'')" and val: "is_valid_phone (js_string (the (wa_field v ''phone'')))"
    and bl: "\<not> js_blank s" and eq2: "wa_checks env v api = wa_send env (the (wa_field v ''phone'')) s api"
    by (rule wa_checks_sends [OF ne [unfolded eq]])
  have c: "c = mk_call (the (wa_field v ''phone'')) s (the (wa_token env)) (the (wa_phone_id env))"
    using assms unfolding eq eq2 wa_send_calls by simp
  have "wa_field v ''phone'' = Some (the (wa_field v ''phone''))" using p by (cases "wa_field v ''phone''") auto
  then show ?thesis using m b val bl tok c by (auto simp: mk_call_def env_set_def split: option.splits)
qed

theorem whatsapp_calls_validated_witness:
  "is_valid_phone (js_string (out_to (mk_call (JStr ''+573001234567'') ''hola'' ''t'' ''1'')))
   \<and> \<not> js_blank (out_text (mk_call (JStr ''+573001234567'') ''hola'' ''t'' ''1''))"
  using whatsapp_calls_validated [of "mk_call (JStr ''+573001234567'') ''hola'' ''t'' ''1''" "''POST''"
      "\<lparr>wa_token = Some ''t'', wa_phone_id = Some ''1''\<rparr>"
      "Some (JObj [(''phone'', JStr ''+573001234567''), (''message'', JStr ''hola'')])" "ApiOk [] []"]
  by (simp add: wa_eval)

text \<open>A request makes at most one call to the WhatsApp API: there is no retry.\<close>

theorem whatsapp_at_most_one_call: "length (snd (whatsapp_notify m env body api)) \<le> 1"
proof (cases "snd (whatsapp_notify m env body api) = []")
  case False
  obtain v where eq: "whatsapp_notify m env body api = wa_checks env v api"
    by (rule whatsapp_notify_sends [OF False])
  obtain s where "wa_checks env v api = wa_send env (the (wa_field v ''phone'')) s api"
    by (rule wa_checks_sends [OF False [unfolded eq]])
  then show ?thesis unfolding eq by (simp add: wa_send_calls)
qed simp

text \<open>A POST with a valid phone string and a non-blank message sends exactly one message to that phone with that text, and reports the ids the API returned with status 200.\<close>

theorem whatsapp_success:
  assumes "env_set (wa_token env)" and "env_set (wa_phone_id env)"
    and "jfield kvs ''phone'' = Some (JStr p)" and "is_valid_phone p"
    and "jfield kvs ''message'' = Some (JStr s)" and "\<not> js_blank s"
  shows "whatsapp_notify ''POST'' env (Some (JObj kvs)) (ApiOk ms cs) =
           (wa_reply 200 (WaSent (head_opt ms) (head_opt cs)),
            [mk_call (JStr p) s (the (wa_token env)) (the (wa_phone_id env))])"
  by (simp add: whatsapp_notify_valid [OF assms] wa_send_def send_result_def Let_def)

theorem whatsapp_success_witness:
  "whatsapp_notify ''POST'' \<lparr>wa_token = Some ''t'', wa_phone_id = Some ''1''\<rparr>
     (Some (JObj [(''phone'', JStr ''+573001234567''), (''message'', JStr ''hola'')])) (ApiOk [''m1''] [''w1''])
   = (wa_reply 200 (WaSent (Some ''m1'') (Some ''w1'')), [mk_call (JStr ''+573001234567'') ''hola'' ''t'' ''1''])"
  using whatsapp_success [of "\<lparr>wa_token = Some ''t'', wa_phone_id = Some ''1''\<rparr>"
      "[(''phone'', JStr ''+573001234567''), (''message'', JStr ''hola'')]" "''+573001234567''" "''hola''"
      "[''m1'']" "[''w1'']"]
  by (simp add: env_set_def jfield_def is_digit_def head_opt_def js_blank.simps ws_len_def ws3_def)

text \<open>The method is checked first: any method other than OPTIONS and POST is answered 405, whatever the configuration and the body.\<close>

theorem whatsapp_method_first:
  assumes "m \<noteq> ''OPTIONS''" and "m \<noteq> ''POST''"
  shows "whatsapp_notify m env body api = (wa_reply 405 (WaErr MethodNotAllowed), [])"
  using assms by (simp add: whatsapp_notify_def)

theorem whatsapp_method_first_witness:
  "whatsapp_notify ''GET'' \<lparr>wa_token = None, wa_phone_id = None\<rparr> None (ApiOk [] [])
   = (wa_reply 405 (WaErr MethodNotAllowed), [])"
  by (rule whatsapp_method_first) simp_all

text \<open>C21: the phone check accepts exactly a plus sign followed by 2 to 15 decimal digits, the first of them not zero.\<close>

theorem is_valid_phone_iff:
  "is_valid_phone s \<longleftrightarrow>
     (\<exists>ds. s = CHR ''+'' # ds \<and> 2 \<le> length ds \<and> length ds \<le> 15 \<and> list_all is_digit ds \<and> hd ds \<noteq> CHR ''0'')"
proof (cases s rule: is_valid_phone.cases)
  case (1 c d ds)
  then show ?thesis by (cases ds) auto
qed auto

text \<open>The phone check accepts "+12", a number with two digits, although its comment requires between 10 and 15.\<close>

theorem whatsapp_two_digit_phone:
  "is_valid_phone ''+12'' \<and> length (filter is_digit ''+12'') = 2"
  by (simp add: is_digit_def)

text \<open>C22: the phone check reads String(phone) while the payload sends the raw value: for every configuration, API answer, valid phone string and non-blank message, a POST whose phone is that string inside a one-element array passes every check and is sent to the API, with the array as recipient\<close>

theorem whatsapp_array_phone:
  assumes "env_set (wa_token env)" and "env_set (wa_phone_id env)"
    and "jfield kvs ''phone'' = Some (JArr [JStr p])" and "is_valid_phone p"
    and "jfield kvs ''message'' = Some (JStr s)" and "\<not> js_blank s"
  shows "whatsapp_notify ''POST'' env (Some (JObj kvs)) api = wa_send env (JArr [JStr p]) s api
       \<and> map out_to (snd (whatsapp_notify ''POST'' env (Some (JObj kvs)) api)) = [JArr [JStr p]]"
proof -
  have "p \<noteq> []" "s \<noteq> []" using assms(4,6) is_valid_phone_nonempty by auto
  then have "whatsapp_notify ''POST'' env (Some (JObj kvs)) api = wa_send env (JArr [JStr p]) s api"
    using assms by (simp add: whatsapp_notify_def wa_checks_def Let_def)
  then show ?thesis by (simp add: wa_send_calls mk_call_def)
qed

theorem whatsapp_array_phone_witness:
  "whatsapp_notify ''POST'' \<lparr>wa_token = Some ''t'', wa_phone_id = Some ''1''\<rparr>
     (Some (JObj [(''phone'', JArr [JStr ''+573001234567'']), (''message'', JStr ''hola'')])) (ApiOk [''m1''] [''w1''])
   = wa_send \<lparr>wa_token = Some ''t'', wa_phone_id = Some ''1''\<rparr> (JArr [JStr ''+573001234567'']) ''hola'' (ApiOk [''m1''] [''w1''])
   \<and> map out_to (snd (whatsapp_notify ''POST'' \<lparr>wa_token = Some ''t'', wa_phone_id = Some ''1''\<rparr>
       (Some (JObj [(''phone'', JArr [JStr ''+573001234567'']), (''message'', JStr ''hola'')])) (ApiOk [''m1''] [''w1''])))
     = [JArr [JStr ''+573001234567'']]"
  by (rule whatsapp_array_phone)
     (simp_all add: env_set_def jfield_def is_digit_def js_blank.simps ws_len_def ws3_def)

text \<open>A body that is the JSON literal null throws a TypeError on reading its
  phone and is answered 500, not 400.\<close>

theorem whatsapp_null_body:
  "whatsapp_notify ''POST'' \<lparr>wa_token = Some ''t'', wa_phone_id = Some ''1''\<rparr> (Some JNull) api
     = (wa_reply 500 (WaErr (SendFailed ''TypeError'')), [])"
  by (simp add: whatsapp_notify_def wa_checks_def env_set_def)

end
