(* ===== verification/Ui.thy ===== *)
theory Ui
  imports Router Whatsapp
begin

text \<open>
  The administration screens (src/src/components): the state of the role
  form of RoleForm.tsx and the requests that RoleForm, RolesView,
  DisableUserButton, DeleteUserButton and UserRoleSelector send to the
  manage-roles function (UsersRolesPanel sends the same three user requests).
  Functions are reached at \<open>FUNCTIONS_URL\<close>, by default
  \<open>https://<project>.supabase.co/functions/v1\<close>, so the request paths are
  \<open>/functions/v1/manage-roles...\<close>.  Rendering, loading flags, alerts and
  the confirmation dialogs are not modelled.
\<close>

section \<open>String.prototype.trim\<close>

text \<open>White space removed from the start, with the white space of theory
  Whatsapp.\<close>

function js_trim_start :: "string \<Rightarrow> string" where
  "js_trim_start s = (if s = [] \<or> ws_len s = 0 then s else js_trim_start (drop (ws_len s) s))"
  by pat_completeness auto
termination
  by (relation "measure length") auto

text \<open>White space removed from the end: the string is kept up to the last
  character after which only white space follows.  White space starts with
  an ASCII byte or a lead byte, never inside a UTF-8 character, so the scan
  may step one byte at a time over the other characters.\<close>

function js_trim_end :: "string \<Rightarrow> string" where
  "js_trim_end s =
     (if js_blank s then []
      else take (max 1 (ws_len s)) s @ js_trim_end (drop (max 1 (ws_len s)) s))"
  by pat_completeness auto
termination
proof (relation "measure length")
  show "wf (measure length)" by simp
next
  fix s :: string
  assume "\<not> js_blank s"
  then have "s \<noteq> []" by auto
  then show "(drop (max 1 (ws_len s)) s, s) \<in> measure length" by simp
qed

declare js_trim_start.simps [simp del] js_trim_end.simps [simp del]

definition js_trim :: "string \<Rightarrow> string" where
  "js_trim s = js_trim_end (js_trim_start s)"

section \<open>The role form\<close>

text \<open>The state of RoleForm (lines 11--14): name, description, the list of
  permission names and the text of the permission input.\<close>

record role_form =
  rf_name :: string
  rf_desc :: string
  rf_perms :: "string list"
  rf_input :: string

text \<open>Lines 11--14 and the effect of lines 20--24: a new role starts empty,
  an edited one with its name, description and the names of its
  permissions.\<close>

definition form_init :: "string \<Rightarrow> string \<Rightarrow> string list \<Rightarrow> role_form" where
  "form_init n d ps = \<lparr>rf_name = n, rf_desc = d, rf_perms = ps, rf_input = []\<rparr>"

text \<open>\<open>handleAddPermission\<close> (lines 26--31): the value given, or else the
  input, trimmed; an empty value changes nothing, the input included; a
  name already in the list is not added again.\<close>

definition add_permission :: "string option \<Rightarrow> role_form \<Rightarrow> role_form" where
  "add_permission value f =
     (let v = js_trim (case value of Some x \<Rightarrow> x | None \<Rightarrow> rf_input f) in
      if v = [] then f
      else f\<lparr>rf_perms := (if v \<in> set (rf_perms f) then rf_perms f else rf_perms f @ [v]),
             rf_input := []\<rparr>)"

text \<open>\<open>handleRemovePermission\<close> (lines 33--35).\<close>

definition remove_permission :: "string \<Rightarrow> role_form \<Rightarrow> role_form" where
  "remove_permission p f = f\<lparr>rf_perms := filter (\<lambda>x. x \<noteq> p) (rf_perms f)\<rparr>"

text \<open>The form's states: from the initial state, by the two handlers and by
  typing into the three inputs.\<close>

inductive form_reach :: "string list \<Rightarrow> role_form \<Rightarrow> bool" for ps where
  init: "form_reach ps (form_init n d ps)"
| add: "form_reach ps f \<Longrightarrow> form_reach ps (add_permission v f)"
| remove: "form_reach ps f \<Longrightarrow> form_reach ps (remove_permission p f)"
| type_name: "form_reach ps f \<Longrightarrow> form_reach ps (f\<lparr>rf_name := n\<rparr>)"
| type_desc: "form_reach ps f \<Longrightarrow> form_reach ps (f\<lparr>rf_desc := d\<rparr>)"
| type_input: "form_reach ps f \<Longrightarrow> form_reach ps (f\<lparr>rf_input := i\<rparr>)"

section \<open>Requests of the screens\<close>

definition functions_path :: string where
  "functions_path = ''/functions/v1''"

text \<open>\<open>if (token) headers.Authorization = `Bearer ${token}`\<close>.\<close>

definition ui_auth :: "string option \<Rightarrow> string" where
  "ui_auth tok = (case tok of Some t \<Rightarrow> (if t \<noteq> [] then ''Bearer '' @ t else []) | None \<Rightarrow> [])"

text \<open>\<open>handleSubmit\<close> (lines 37--50): PUT with \<open>{ id: role.id, ...payload }\<close>
  when the role has an id, POST with \<open>{ name, description, permissions }\<close>
  otherwise.\<close>

definition form_payload :: "role_form \<Rightarrow> body" where
  "form_payload f = [(''name'', JStr (rf_name f)), (''description'', JStr (rf_desc f)),
                     (''permissions'', JArr (map JStr (rf_perms f)))]"

definition form_request :: "role_form \<Rightarrow> string option \<Rightarrow> string option \<Rightarrow> request" where
  "form_request f rid tok =
     (case rid of
        Some i \<Rightarrow> \<lparr>rq_method = ''PUT'', rq_path = functions_path @ ''/manage-roles'', rq_auth = ui_auth tok,
                   rq_body = Some (JObj ((''id'', JStr i) # form_payload f))\<rparr>
      | None \<Rightarrow> \<lparr>rq_method = ''POST'', rq_path = functions_path @ ''/manage-roles'', rq_auth = ui_auth tok,
                 rq_body = Some (JObj (form_payload f))\<rparr>)"

text \<open>RolesView \<open>handleDelete\<close> (lines 40--46): a soft delete.\<close>

definition role_delete_request :: "string \<Rightarrow> string option \<Rightarrow> request" where
  "role_delete_request i tok =
     \<lparr>rq_method = ''DELETE'', rq_path = functions_path @ ''/manage-roles'', rq_auth = ui_auth tok,
      rq_body = Some (JObj [(''id'', JStr i)])\<rparr>"

text \<open>DisableUserButton \<open>toggle\<close> (lines 10--15): \<open>is_active: !user.is_active\<close>
  for the listed user (\<open>!undefined\<close> is true).\<close>

definition disable_request :: "user_entry \<Rightarrow> string option \<Rightarrow> request" where
  "disable_request u tok =
     \<lparr>rq_method = ''PATCH'', rq_path = functions_path @ ''/manage-roles/manage-users/disable'',
      rq_auth = ui_auth tok,
      rq_body = Some (JObj [(''user_id'', JStr (ue_id u)), (''is_active'', JBool (ue_active u \<noteq> Some True))])\<rparr>"

text \<open>DeleteUserButton \<open>remove\<close> (lines 10--16), once confirmed.\<close>

definition delete_request :: "user_entry \<Rightarrow> string option \<Rightarrow> request" where
  "delete_request u tok =
     \<lparr>rq_method = ''DELETE'', rq_path = functions_path @ ''/manage-roles/manage-users/delete'',
      rq_auth = ui_auth tok, rq_body = Some (JObj [(''user_id'', JStr (ue_id u))])\<rparr>"

text \<open>UserRoleSelector \<open>save\<close> (lines 23--28): nothing is sent while no role
  is selected.\<close>

definition assign_request :: "user_entry \<Rightarrow> string option \<Rightarrow> string option \<Rightarrow> request option" where
  "assign_request u sel tok =
     (case sel of
        Some r \<Rightarrow>
          (if r = [] then None
           else Some \<lparr>rq_method = ''POST'', rq_path = functions_path @ ''/manage-roles/manage-users/assign-role'',
                      rq_auth = ui_auth tok,
                      rq_body = Some (JObj [(''user_id'', JStr (ue_id u)), (''role_name'', JStr r)])\<rparr>)
      | None \<Rightarrow> None)"

section \<open>Lemmas\<close>

text \<open>The form keeps its permission names distinct; the permission pipeline
  of the role handlers does not fail on duplicates when it is given distinct
  names; the form's two requests reach the POST and PUT handlers.\<close>

lemma form_reach_distinct:
  assumes "form_reach ps f" and "distinct ps"
  shows "distinct (rf_perms f)"
  using assms
  by (induction rule: form_reach.induct)
     (auto simp: form_init_def add_permission_def remove_permission_def Let_def)

lemma attach_perms_no_perm_conflict:
  assumes "distinct names"
  shows "attach_perms s rid names bids \<noteq> (Some (ConflictTwice Permissions), s')"
  using assms
  by (auto simp: attach_perms_def ups_perms_def write_call_def sel_perm_ids_def read_call_def ups_rps_def Let_def
      split: sum.split if_splits)

lemma perm_names_strs [simp]: "perm_names (map JStr ns) = ns"
  by (induction ns) (simp_all add: perm_names_def)

lemma perm_body_ids_strs [simp]: "perm_body_ids (map JStr ns) = Some []"
proof -
  have "List.map_filter perm_obj_id (map JStr ns) = []" by (induction ns) (simp_all add: map_filter_simps)
  then show ?thesis by (auto simp: perm_body_ids_def)
qed

lemma form_routes:
  "manage_roles s (form_request f None tok) = create_role s (form_payload f)"
  "manage_roles s (form_request f (Some i) tok) = update_role s ((''id'', JStr i) # form_payload f)"
  by (simp_all add: manage_roles_def form_request_def functions_path_def roles_route_def path_parts_def
      sub_after_def last_index_of_def with_body_def starts_with_def Let_def)


section \<open>The screens against the function\<close>

text \<open>C34: a role saved from the role form, opened on a role whose permission names are distinct and edited in any way, never makes the function fail on a permission named twice: the form's list stays duplicate-free, so the failure of a duplicated name in the permission upsert cannot come from the screen.\<close>

theorem role_form_no_duplicate_conflict:
  assumes "form_reach ps f" and "distinct ps"
  shows "fst (manage_roles s (form_request f rid tok)) \<noteq> fail500 (ConflictTwice Permissions)"
proof -
  have d: "distinct (rf_perms f)" using assms by (rule form_reach_distinct)
  note nc = attach_perms_no_perm_conflict [OF d]
  show ?thesis
  proof (cases rid)
    case None
    then show ?thesis
      by (auto simp: nc form_routes create_role_def form_payload_def jfield_def ins_role_def Let_def fail500_def
          type_error500_def reply_def split: prod.split option.split)
  next
    case (Some i)
    then show ?thesis
      by (auto simp: nc form_routes update_role_def form_payload_def jfield_def upd_role_def del_rps_of_role_def
          write_call_def Let_def fail500_def type_error500_def reply_def split: prod.split option.split sum.split)
  qed
qed

theorem role_form_no_duplicate_conflict_witness:
  "fst (manage_roles demo_store
          (form_request (add_permission (Some '' users.read '') (form_init ''auditor'' [] [''users.read'']))
             None (Some ''tok''))) \<noteq> fail500 (ConflictTwice Permissions)"
  by (rule role_form_no_duplicate_conflict [where ps = "[''users.read'']"]) (auto intro: form_reach.intros)

text \<open>Each request of the screens reaches the handler meant for it: the role form's save the POST or PUT role handler, the role delete of RolesView the role DELETE handler, and the disable, delete and assign-role buttons the corresponding user endpoints, with the caller taken from the token.\<close>

theorem ui_requests_routed:
  "manage_roles s (form_request f rid tok) =
     (case rid of None \<Rightarrow> create_role s (form_payload f)
      | Some i \<Rightarrow> update_role s ((''id'', JStr i) # form_payload f)) \<and>
   manage_roles s (role_delete_request j tok) = delete_role s [(''id'', JStr j)] \<and>
   manage_roles s (disable_request u tok) =
     set_active s (auth_get_user s (bearer_token (ui_auth tok)))
       [(''user_id'', JStr (ue_id u)), (''is_active'', JBool (ue_active u \<noteq> Some True))] \<and>
   manage_roles s (delete_request u tok) =
     delete_user s (auth_get_user s (bearer_token (ui_auth tok))) [(''user_id'', JStr (ue_id u))] \<and>
   map_option (manage_roles s) (assign_request u sel tok) =
     (case sel of None \<Rightarrow> None
      | Some r \<Rightarrow> if r = [] then None
                  else Some (assign_role s (auth_get_user s (bearer_token (ui_auth tok)))
                               [(''user_id'', JStr (ue_id u)), (''role_name'', JStr r)]))"
  by (simp add: form_routes split: option.split)
     (simp add: manage_roles_def role_delete_request_def disable_request_def delete_request_def
      assign_request_def functions_path_def roles_route_def users_route_def path_parts_def sub_after_def
      last_index_of_def with_body_def starts_with_def Let_def split: option.split)

end
