(* ===== verification/Screens.thy ===== *)
theory Screens
  imports Ui
begin

text \<open>
  The state of the administration screens (src/src/components) and what
  each of their actions does to it, run against the manage-roles function of
  theory Router over one store: UsersView with its UserRow buttons
  (UserRoleSelector, DisableUserButton, DeleteUserButton), UsersRolesPanel,
  and RolesView with the RoleForm it opens.  An action sends its request,
  and on a 2xx answer refreshes the list it shows; otherwise it raises an
  alert with the status.  The answer of \<open>confirm\<close> is an input.  Rendering
  is modelled only where it selects data: the role options of the selectors.
\<close>

section \<open>Fetching the lists\<close>

datatype ui_alert =
    FetchUsersFailed nat
  | FetchRolesFailed nat
  | AssignFailed nat
  | ToggleFailed nat
  | DeleteUserFailed nat
  | DeleteRoleFailed nat
  | SaveRoleFailed nat

text \<open>\<open>res.ok\<close>.\<close>

definition resp_2xx :: "response \<Rightarrow> bool" where
  "resp_2xx r \<longleftrightarrow> 200 \<le> status r \<and> status r < 300"

text \<open>The GET of the user list (UsersView lines 16--18, UsersRolesPanel
  lines 23--25) and of the role list (RolesView lines 21--23; UserRoleSelector
  line 14 sends no token).\<close>

definition users_request :: "string option \<Rightarrow> request" where
  "users_request tok = \<lparr>rq_method = ''GET'', rq_path = functions_path @ ''/manage-roles/manage-users'',
                        rq_auth = ui_auth tok, rq_body = None\<rparr>"

definition roles_request :: "string option \<Rightarrow> request" where
  "roles_request tok = \<lparr>rq_method = ''GET'', rq_path = functions_path @ ''/manage-roles'',
                        rq_auth = ui_auth tok, rq_body = None\<rparr>"

text \<open>\<open>json.data || []\<close>.\<close>

fun users_data :: "resp_body \<Rightarrow> user_entry list" where
  "users_data (UsersList es) = es"
| "users_data _ = []"

fun roles_data :: "resp_body \<Rightarrow> (role_row \<times> perm_row list) list" where
  "roles_data (RolesList rs) = rs"
| "roles_data _ = []"

text \<open>A fetch: the list, or the status of a response that is not 2xx.\<close>

definition fetch_users :: "store \<Rightarrow> string option \<Rightarrow> nat + user_entry list" where
  "fetch_users s tok =
     (let r = fst (manage_roles s (users_request tok)) in
      if resp_2xx r then Inr (users_data (resp r)) else Inl (status r))"

definition fetch_roles :: "store \<Rightarrow> string option \<Rightarrow> nat + (role_row \<times> perm_row list) list" where
  "fetch_roles s tok =
     (let r = fst (manage_roles s (roles_request tok)) in
      if resp_2xx r then Inr (roles_data (resp r)) else Inl (status r))"

section \<open>UsersView and its rows\<close>

record users_view =
  uv_users :: "user_entry list"
  uv_loading :: bool

text \<open>\<open>fetchUsers\<close> of UsersView (lines 12--31).\<close>

definition users_view_refresh :: "store \<Rightarrow> string option \<Rightarrow> users_view \<Rightarrow> users_view \<times> ui_alert list" where
  "users_view_refresh s tok v =
     (case fetch_users s tok of
        Inr us \<Rightarrow> (v\<lparr>uv_users := us, uv_loading := False\<rparr>, [])
      | Inl n \<Rightarrow> (v\<lparr>uv_loading := False\<rparr>, [FetchUsersFailed n]))"

text \<open>A button of a row: the request, then \<open>onUpdated\<close>, which refreshes the
  view, or the alert.\<close>

definition user_row_action ::
  "store \<Rightarrow> string option \<Rightarrow> request \<Rightarrow> (nat \<Rightarrow> ui_alert) \<Rightarrow> users_view \<Rightarrow> users_view \<times> store \<times> ui_alert list" where
  "user_row_action s tok rq err v =
     (case manage_roles s rq of
        (r, s') \<Rightarrow>
          (if resp_2xx r then (case users_view_refresh s' tok v of (v', al) \<Rightarrow> (v', s', al))
           else (v, s', [err (status r)])))"

text \<open>DisableUserButton (lines 10--20), DeleteUserButton (lines 10--22, with
  the answer of \<open>confirm\<close>) and UserRoleSelector \<open>save\<close> (lines 23--32).\<close>

definition user_row_disable ::
  "store \<Rightarrow> string option \<Rightarrow> user_entry \<Rightarrow> users_view \<Rightarrow> users_view \<times> store \<times> ui_alert list" where
  "user_row_disable s tok u v = user_row_action s tok (disable_request u tok) ToggleFailed v"

definition user_row_delete ::
  "store \<Rightarrow> string option \<Rightarrow> user_entry \<Rightarrow> bool \<Rightarrow> users_view \<Rightarrow> users_view \<times> store \<times> ui_alert list" where
  "user_row_delete s tok u confirmed v =
     (if confirmed then user_row_action s tok (delete_request u tok) DeleteUserFailed v else (v, s, []))"

definition user_row_assign ::
  "store \<Rightarrow> string option \<Rightarrow> user_entry \<Rightarrow> string option \<Rightarrow> users_view \<Rightarrow> users_view \<times> store \<times> ui_alert list" where
  "user_row_assign s tok u sel v =
     (case assign_request u sel tok of
        None \<Rightarrow> (v, s, [])
      | Some rq \<Rightarrow> user_row_action s tok rq AssignFailed v)"

text \<open>The options of UserRoleSelector (lines 11--21 and 36--38): the names of
  the listed roles; none when the list cannot be fetched.\<close>

definition selector_options :: "store \<Rightarrow> string list" where
  "selector_options s = (case fetch_roles s None of Inr rs \<Rightarrow> map (role_name \<circ> fst) rs | Inl _ \<Rightarrow> [])"

section \<open>UsersRolesPanel\<close>

record panel =
  pn_users :: "user_entry list"
  pn_loading :: bool
  pn_saving :: "uuid option"

text \<open>\<open>fetchUsers\<close> (lines 20--35).\<close>

definition panel_refresh :: "store \<Rightarrow> string option \<Rightarrow> panel \<Rightarrow> panel \<times> ui_alert list" where
  "panel_refresh s tok p =
     (case fetch_users s tok of
        Inr us \<Rightarrow> (p\<lparr>pn_users := us, pn_loading := False\<rparr>, [])
      | Inl n \<Rightarrow> (p\<lparr>pn_loading := False\<rparr>, [FetchUsersFailed n]))"

text \<open>The panel's actions: a request, then a refresh or an alert.\<close>

definition panel_action ::
  "store \<Rightarrow> string option \<Rightarrow> request \<Rightarrow> (nat \<Rightarrow> ui_alert) \<Rightarrow> panel \<Rightarrow> panel \<times> store \<times> ui_alert list" where
  "panel_action s tok rq err p =
     (case manage_roles s rq of
        (r, s') \<Rightarrow>
          (if resp_2xx r then (case panel_refresh s' tok p of (p', al) \<Rightarrow> (p', s', al))
           else (p, s', [err (status r)])))"

text \<open>\<open>assignRole\<close> (lines 39--52): nothing for an empty role name; the row
  shows \<open>Guardando...\<close> while the request runs, and not after.\<close>

definition panel_assign ::
  "store \<Rightarrow> string option \<Rightarrow> panel \<Rightarrow> uuid \<Rightarrow> string \<Rightarrow> panel \<times> store \<times> ui_alert list" where
  "panel_assign s tok p uid rn =
     (if rn = [] then (p, s, [])
      else
        (case panel_action s tok
                \<lparr>rq_method = ''POST'', rq_path = functions_path @ ''/manage-roles/manage-users/assign-role'',
                 rq_auth = ui_auth tok,
                 rq_body = Some (JObj [(''user_id'', JStr uid), (''role_name'', JStr rn)])\<rparr>
                AssignFailed (p\<lparr>pn_saving := Some uid\<rparr>) of
           (p', s', al) \<Rightarrow> (p'\<lparr>pn_saving := None\<rparr>, s', al)))"

text \<open>\<open>toggleActive\<close> (lines 54--65) and \<open>deleteUser\<close> (lines 67--79).\<close>

definition panel_toggle :: "store \<Rightarrow> string option \<Rightarrow> panel \<Rightarrow> user_entry \<Rightarrow> panel \<times> store \<times> ui_alert list" where
  "panel_toggle s tok p u = panel_action s tok (disable_request u tok) ToggleFailed p"

definition panel_delete ::
  "store \<Rightarrow> string option \<Rightarrow> panel \<Rightarrow> user_entry \<Rightarrow> bool \<Rightarrow> panel \<times> store \<times> ui_alert list" where
  "panel_delete s tok p u confirmed =
     (if confirmed then panel_action s tok (delete_request u tok) DeleteUserFailed p else (p, s, []))"

text \<open>The fixed role options of the panel (lines 81--84).\<close>

definition panel_role_options :: "string list" where
  "panel_role_options = [''cliente'', admin_role_name]"

section \<open>RolesView and the role form\<close>

record roles_view =
  rv_roles :: "(role_row \<times> perm_row list) list"
  rv_loading :: bool
  rv_editing :: "(role_row \<times> perm_row list) option"
  rv_show_form :: bool

text \<open>\<open>fetchRoles\<close> (lines 17--36).\<close>

definition roles_view_refresh :: "store \<Rightarrow> string option \<Rightarrow> roles_view \<Rightarrow> roles_view \<times> ui_alert list" where
  "roles_view_refresh s tok v =
     (case fetch_roles s tok of
        Inr rs \<Rightarrow> (v\<lparr>rv_roles := rs, rv_loading := False\<rparr>, [])
      | Inl n \<Rightarrow> (v\<lparr>rv_loading := False\<rparr>, [FetchRolesFailed n]))"

text \<open>\<open>Nuevo rol\<close> (line 63) and \<open>Editar\<close> (line 87).\<close>

definition roles_view_new :: "roles_view \<Rightarrow> roles_view" where
  "roles_view_new v = v\<lparr>rv_editing := None, rv_show_form := True\<rparr>"

definition roles_view_edit :: "role_row \<times> perm_row list \<Rightarrow> roles_view \<Rightarrow> roles_view" where
  "roles_view_edit r v = v\<lparr>rv_editing := Some r, rv_show_form := True\<rparr>"

text \<open>\<open>Deshabilitar\<close> (line 88) and \<open>handleDelete\<close> (lines 40--56).\<close>

definition roles_view_delete ::
  "store \<Rightarrow> string option \<Rightarrow> roles_view \<Rightarrow> uuid \<Rightarrow> bool \<Rightarrow> roles_view \<times> store \<times> ui_alert list" where
  "roles_view_delete s tok v i confirmed =
     (if \<not> confirmed then (v, s, [])
      else
        (case manage_roles s (role_delete_request i tok) of
           (r, s') \<Rightarrow>
             (if resp_2xx r then (case roles_view_refresh s' tok v of (v', al) \<Rightarrow> (v', s', al))
              else (v, s', [DeleteRoleFailed (status r)]))))"

text \<open>The form opened for the role being edited (RoleForm lines 11--13):
  \<open>role?.name ?? ''\<close>, \<open>role?.description ?? ''\<close> and the names of the
  role's permissions.\<close>

definition role_form_of :: "(role_row \<times> perm_row list) option \<Rightarrow> role_form" where
  "role_form_of e =
     (case e of
        None \<Rightarrow> form_init [] [] []
      | Some (r, ps) \<Rightarrow>
          form_init (role_name r)
            (case role_desc r of None \<Rightarrow> [] | Some JNull \<Rightarrow> [] | Some d \<Rightarrow> js_string d)
            (map perm_name ps))"

text \<open>\<open>role?.id\<close> of the role being edited, when truthy.\<close>

definition editing_id :: "(role_row \<times> perm_row list) option \<Rightarrow> string option" where
  "editing_id e = (case e of Some (r, _) \<Rightarrow> (if role_id r \<noteq> [] then Some (role_id r) else None) | None \<Rightarrow> None)"

text \<open>\<open>handleSubmit\<close> of RoleForm (lines 37--62) with \<open>onSaved\<close> of RolesView
  (line 101): on success the form closes and the roles are fetched again.\<close>

definition roles_view_save ::
  "store \<Rightarrow> string option \<Rightarrow> roles_view \<Rightarrow> role_form \<Rightarrow> roles_view \<times> store \<times> ui_alert list" where
  "roles_view_save s tok v f =
     (case manage_roles s (form_request f (editing_id (rv_editing v)) tok) of
        (r, s') \<Rightarrow>
          (if resp_2xx r then (case roles_view_refresh s' tok (v\<lparr>rv_show_form := False\<rparr>) of (v', al) \<Rightarrow> (v', s', al))
           else (v, s', [SaveRoleFailed (status r)])))"

section \<open>A scenario\<close>

text \<open>A soft delete writes this store when it succeeds.\<close>

definition disable_in :: "uuid \<Rightarrow> store \<Rightarrow> store" where
  "disable_in i s = s\<lparr>roles := map (\<lambda>r. if role_id r = i then r\<lparr>role_disabled := True\<rparr> else r) (roles s)\<rparr>"

text \<open>The demonstration store with a third role, vendedor.\<close>

definition screens_store :: store where
  "screens_store = demo_store\<lparr>roles := roles demo_store @
     [\<lparr>role_id = ''3'', role_name = ''vendedor'', role_desc = None, role_disabled = False\<rparr>], next_id := 4\<rparr>"

section \<open>Lemmas\<close>

lemmas route_eval = manage_roles_def roles_route_def users_route_def functions_path_def path_parts_def sub_after_def
  last_index_of_def starts_with_def with_body_def Let_def jfield_def

text \<open>The role delete of RolesView leaves the store as it was or disables
  the role; the listing of roles, and so the selector, does not see the
  flag.\<close>

lemma roles_view_delete_store:
  "fst (snd (roles_view_delete s tok v i c)) \<in> {s, disable_in i s}"
  by (simp add: roles_view_delete_def role_delete_request_def route_eval delete_role_def disable_role_def
      write_call_def disable_in_def split: prod.split sum.split)

lemma roles_with_perms_map:
  assumes "\<And>r. role_id (f r) = role_id r" and "role_permissions s' = role_permissions s"
    and "permissions s' = permissions s" and "faults s' = faults s"
  shows "roles_with_perms s' (map f rs) = map_sum id (map (\<lambda>(r, ps). (f r, ps))) (roles_with_perms s rs)"
  using assms
  by (induction rs) (simp_all add: sel_rp_of_role_def sel_perms_in_def read_call_def fails_def split: sum.split)

lemma selector_options_disable_in: "selector_options (disable_in i s) = selector_options s"
proof -
  let ?f = "\<lambda>r. if role_id r = i then r\<lparr>role_disabled := True\<rparr> else r"
  have m: "roles_with_perms (disable_in i s) (map ?f (rev (roles s)))
           = map_sum id (map (\<lambda>(r, ps). (?f r, ps))) (roles_with_perms s (rev (roles s)))"
    by (rule roles_with_perms_map) (simp_all add: disable_in_def)
  show ?thesis
    using m
    by (simp add: selector_options_def fetch_roles_def roles_request_def route_eval list_roles_def
        sel_roles_desc_def read_call_def fails_def resp_2xx_def reply_def fail500_def rev_map disable_in_def case_prod_unfold
        split: sum.split)
qed

text \<open>On the demonstration store: RolesView disables vendedor, the selector
  still offers it, and assigning it to a user succeeds.\<close>

lemma screens_disable_vendedor: "roles_view_delete screens_store (Some ''t'') v ''3'' True =
   (fst (roles_view_refresh (disable_in ''3'' screens_store) (Some ''t'') v),
    disable_in ''3'' screens_store,
    snd (roles_view_refresh (disable_in ''3'' screens_store) (Some ''t'') v))"
  by (simp add: roles_view_delete_def role_delete_request_def route_eval delete_role_def store_prims read_call_def
      write_call_def fails_def disable_in_def screens_store_def demo_store_def resp_2xx_def reply_def split: prod.split)

lemma screens_selector_after_disable: "selector_options (disable_in ''3'' screens_store) = [''vendedor'', ''cliente'', admin_role_name]"
  by (simp add: selector_options_def fetch_roles_def roles_request_def route_eval list_roles_def sel_roles_desc_def
      sel_rp_of_role_def read_call_def fails_def disable_in_def screens_store_def demo_store_def resp_2xx_def reply_def)

lemma screens_assign_disabled: "case user_row_assign (disable_in ''3'' screens_store) (Some ''t'')
      \<lparr>ue_id = ''b'', ue_email = Some ''b@x'', ue_meta_role = None, ue_roles = [], ue_role = JStr ''cliente'', ue_active = Some True\<rparr>
      (Some ''vendedor'') uv of (uv', s2, al) \<Rightarrow> al = [] \<and> filter (\<lambda>r. ur_user r = ''b'') (user_roles s2) = [\<lparr>ur_user = ''b'', ur_role = ''3''\<rparr>]"
  by (simp add: user_row_assign_def assign_request_def user_row_action_def route_eval assign_role_def
      demote_guard_def assign_commit_def bearer_token_def ui_auth_def store_prims read_call_def write_call_def fails_def
      disable_in_def screens_store_def demo_store_def resp_2xx_def reply_def users_view_refresh_def fetch_users_def users_request_def
      list_users_def users_source_def split: prod.split)

section \<open>Properties of the screens\<close>

text \<open>C35: disabling a role from RolesView never changes the role options of UserRoleSelector, whatever the store and the outcome: the list of roles shows disabled roles, so a disabled role stays on offer for assignment.\<close>

theorem role_disable_keeps_selector:
  "selector_options (fst (snd (roles_view_delete s tok v i c))) = selector_options s"
  using roles_view_delete_store [of s tok v i c] selector_options_disable_in [of i s] by auto

end
