(* ===== verification/Helpers.thy ===== *)
theory Helpers
  imports Whatsapp
begin

text \<open>
  The client helpers of the WhatsApp notifications
  (src/supabase/functions/whatsapp-notify/helpers.ts): they build a fixed
  message, POST \<open>{ phone, message }\<close> to the whatsapp-notify function and
  turn its answer into \<open>{ success, messageId?, error? }\<close>.  The HTTP request
  to the function is an input of the model, a transport; instantiated with
  the handler of theory Whatsapp it gives the whole path from a helper call
  to the request made to the WhatsApp Cloud API.
\<close>

section \<open>Fixed texts\<close>

text \<open>Texts are UTF-8 bytes: \<open>u8\<close> writes the bytes of a character outside
  ASCII.\<close>

definition u8 :: "nat list \<Rightarrow> string" where
  "u8 bs = map char_of bs"

definition nl :: string where
  "nl = [CHR 0x0A]"

text \<open>\<open>validStatuses\<close> (line 157).\<close>

definition valid_statuses :: "string list" where
  "valid_statuses = [''PREPARING'', ''SHIPPED'', ''DELIVERED'', ''CANCELED'']"

text \<open>The table of \<open>getStatusMessage\<close> (lines 120--129).\<close>

definition status_messages :: "(string \<times> string) list" where
  "status_messages =
    [(''PREPARING'', u8 [0xF0, 0x9F, 0x93, 0xA6] @ '' Tu pedido est'' @ u8 [0xC3, 0xA1] @ '' siendo preparado.''
        @ nl @ nl @ ''Nuestro equipo est'' @ u8 [0xC3, 0xA1]
        @ '' trabajando para tener tu pedido listo lo antes posible.'' @ nl @ nl
        @ ''Te notificaremos cuando est'' @ u8 [0xC3, 0xA9] @ '' listo para enviar.''),
     (''SHIPPED'', u8 [0xF0, 0x9F, 0x9A, 0x9A] @ '' '' @ u8 [0xC2, 0xA1] @ ''Tu pedido fue enviado!'' @ nl @ nl
        @ ''Ya est'' @ u8 [0xC3, 0xA1] @ '' en camino a tu direcci'' @ u8 [0xC3, 0xB3] @ ''n.'' @ nl @ nl
        @ ''Podr'' @ u8 [0xC3, 0xA1] @ ''s recibirlo pronto. Mantente atento a las actualizaciones de entrega.''),
     (''DELIVERED'', u8 [0xE2, 0x9C, 0x85] @ '' '' @ u8 [0xC2, 0xA1] @ ''Tu pedido fue entregado!'' @ nl @ nl
        @ ''Esperamos que disfrutes tu compra.'' @ nl @ nl @ ''Gracias por confiar en nosotros. ''
        @ u8 [0xF0, 0x9F, 0x98, 0x8A]),
     (''CANCELED'', u8 [0xE2, 0x9D, 0x8C] @ '' Tu pedido fue cancelado.'' @ nl @ nl
        @ ''Si tienes alguna pregunta o necesitas asistencia, no dudes en contactarnos.'' @ nl @ nl
        @ ''Estamos aqu'' @ u8 [0xC3, 0xAD] @ '' para ayudarte.'')]"

definition get_status_message :: "string \<Rightarrow> string option" where
  "get_status_message st = map_of status_messages st"

text \<open>Lines 165--170: the status message, prefixed with the order id when
  one is given and not empty.\<close>

definition order_message :: "string \<Rightarrow> string option \<Rightarrow> string" where
  "order_message st oid =
     (let m = the (get_status_message st) in
      case oid of Some i \<Rightarrow> (if i \<noteq> [] then ''Pedido #'' @ i @ nl @ nl @ m else m) | None \<Rightarrow> m)"

text \<open>Line 88.\<close>

definition payment_message :: "string \<Rightarrow> string" where
  "payment_message oid =
     u8 [0xF0, 0x9F, 0x8E, 0x89] @ '' '' @ u8 [0xC2, 0xA1] @ ''Pago confirmado!'' @ nl @ nl
     @ ''Tu pedido #'' @ oid @ '' fue recibido exitosamente.'' @ nl @ nl
     @ ''Te mantendremos informado sobre el estado de tu pedido.'' @ nl @ nl
     @ u8 [0xC2, 0xA1] @ ''Gracias por tu compra! '' @ u8 [0xF0, 0x9F, 0x9B, 0x8D] @ u8 [0xEF, 0xB8, 0x8F]"

text \<open>The \<open>error\<close> field of the function's error responses (whatsapp-notify
  index.ts, lines 110, 130, 147, 161, 175, 189 and 227).\<close>

fun wa_error_text :: "wa_error \<Rightarrow> string" where
  "wa_error_text MethodNotAllowed = ''M'' @ u8 [0xC3, 0xA9] @ ''todo no permitido''"
| "wa_error_text ConfigIncomplete = ''Configuraci'' @ u8 [0xC3, 0xB3] @ ''n incompleta''"
| "wa_error_text InvalidJson = ''JSON inv'' @ u8 [0xC3, 0xA1] @ ''lido''"
| "wa_error_text MissingParams = ''Par'' @ u8 [0xC3, 0xA1] @ ''metros faltantes''"
| "wa_error_text InvalidPhone = ''Formato de tel'' @ u8 [0xC3, 0xA9] @ ''fono inv'' @ u8 [0xC3, 0xA1] @ ''lido''"
| "wa_error_text EmptyMessage = ''Mensaje vac'' @ u8 [0xC3, 0xAD] @ ''o''"
| "wa_error_text (SendFailed _) = ''Error al enviar mensaje''"

section \<open>Calling the function\<close>

text \<open>The helpers' environment (\<open>SUPABASE_URL\<close>, \<open>SUPABASE_ANON_KEY\<close>) and
  their optional \<open>config\<close> (absent fields are \<open>None\<close>).\<close>

record helper_env =
  h_supabase_url :: "string option"
  h_anon_key :: "string option"

record helper_config =
  cfg_function_url :: "string option"
  cfg_key :: "string option"

text \<open>\<open>a || b\<close> on optional strings.\<close>

definition js_or :: "string option \<Rightarrow> string option \<Rightarrow> string option" where
  "js_or a b = (case a of Some x \<Rightarrow> (if x \<noteq> [] then a else b) | None \<Rightarrow> b)"

text \<open>\<open>getWhatsAppFunctionUrl\<close> (lines 25--31): the URL or the message of the
  error it throws.\<close>

definition get_function_url :: "helper_env \<Rightarrow> string + string" where
  "get_function_url henv =
     (case js_or (h_supabase_url henv) None of
        None \<Rightarrow> Inl (''SUPABASE_URL no est'' @ u8 [0xC3, 0xA1] @ '' configurada'')
      | Some u \<Rightarrow> Inr (u @ ''/functions/v1/whatsapp-notify''))"

text \<open>The request of lines 58--62: URL, key sent as bearer token and
  \<open>apikey\<close> (none when absent), and the JSON body's two fields.\<close>

record fn_request =
  fr_url :: string
  fr_key :: "string option"
  fr_phone :: string
  fr_message :: string

text \<open>A transport: what \<open>fetch\<close> gets for a request, the function's
  response with the calls it made to the Cloud API, or the message of a
  rejected \<open>fetch\<close>.\<close>

type_synonym transport = "fn_request \<Rightarrow> string + wa_response \<times> wa_call list"

record send_outcome =
  so_success :: bool
  so_message_id :: "string option"
  so_error :: "string option"

text \<open>Lines 92--105: \<open>response.ok\<close> is a 2xx status.\<close>

definition outcome_of :: "wa_response \<Rightarrow> send_outcome" where
  "outcome_of r =
     (if 200 \<le> wa_status r \<and> wa_status r < 300
      then \<lparr>so_success = True,
            so_message_id = (case wa_resp r of WaSent m _ \<Rightarrow> m | _ \<Rightarrow> None), so_error = None\<rparr>
      else \<lparr>so_success = False, so_message_id = None,
            so_error = Some (case wa_resp r of WaErr e \<Rightarrow> wa_error_text e | _ \<Rightarrow> ''Error desconocido'')\<rparr>)"

text \<open>\<open>sendWhatsAppMessage\<close> (lines 40--63) and the handling of its result by
  each helper (lines 90--112, 172--194, 220--242): a thrown error becomes
  \<open>{ success: false, error }\<close>.\<close>

definition deliver ::
  "helper_env \<Rightarrow> helper_config \<Rightarrow> transport \<Rightarrow> string \<Rightarrow> string \<Rightarrow> send_outcome \<times> wa_call list" where
  "deliver henv cfg tr phone msg =
     (let url = (case js_or (cfg_function_url cfg) None of Some u \<Rightarrow> Inr u | None \<Rightarrow> get_function_url henv);
          key = js_or (cfg_key cfg) (h_anon_key henv) in
      case url of
        Inl e \<Rightarrow> (\<lparr>so_success = False, so_message_id = None, so_error = Some e\<rparr>, [])
      | Inr u \<Rightarrow>
          (case tr \<lparr>fr_url = u, fr_key = key, fr_phone = phone, fr_message = msg\<rparr> of
             Inl e \<Rightarrow> (\<lparr>so_success = False, so_message_id = None, so_error = Some e\<rparr>, [])
           | Inr (r, calls) \<Rightarrow> (outcome_of r, calls)))"

section \<open>The helpers\<close>

text \<open>\<open>sendOrderStatusUpdate\<close> (lines 145--195).\<close>

definition send_order_status_update ::
  "helper_env \<Rightarrow> helper_config \<Rightarrow> transport \<Rightarrow> string \<Rightarrow> string \<Rightarrow> string option \<Rightarrow> send_outcome \<times> wa_call list" where
  "send_order_status_update henv cfg tr phone st oid =
     (if st \<notin> set valid_statuses
      then (\<lparr>so_success = False, so_message_id = None,
              so_error = Some (''Estado inv'' @ u8 [0xC3, 0xA1] @ ''lido: '' @ st @ ''. Debe ser uno de: ''
                               @ join_with '', '' valid_statuses)\<rparr>, [])
      else deliver henv cfg tr phone (order_message st oid))"

text \<open>\<open>sendPaymentConfirmation\<close> (lines 78--113) and \<open>sendCustomMessage\<close>
  (lines 210--243).\<close>

definition send_payment_confirmation ::
  "helper_env \<Rightarrow> helper_config \<Rightarrow> transport \<Rightarrow> string \<Rightarrow> string \<Rightarrow> send_outcome \<times> wa_call list" where
  "send_payment_confirmation henv cfg tr phone oid = deliver henv cfg tr phone (payment_message oid)"

definition send_custom_message ::
  "helper_env \<Rightarrow> helper_config \<Rightarrow> transport \<Rightarrow> string \<Rightarrow> string \<Rightarrow> send_outcome \<times> wa_call list" where
  "send_custom_message henv cfg tr phone msg = deliver henv cfg tr phone msg"

section \<open>The helpers against the function\<close>

text \<open>The whatsapp-notify handler as the transport: the body is
  \<open>JSON.stringify({ phone, message })\<close>; the platform's gateway in front of
  the function is not modelled.\<close>

definition edge_transport :: "wa_env \<Rightarrow> api_answer \<Rightarrow> transport" where
  "edge_transport env api rq =
     Inr (whatsapp_notify ''POST'' env
            (Some (JObj [(''phone'', JStr (fr_phone rq)), (''message'', JStr (fr_message rq))])) api)"

section \<open>Lemmas on the fixed texts\<close>

text \<open>Every status message starts with a character that is not white space,
  so a status update is never refused as an empty message.\<close>

lemma of_char_char_of_list:
  "list_all (\<lambda>x. x < 256) (xs :: nat list) \<Longrightarrow> map of_char (map char_of xs :: string) = xs"
  by (induction xs) simp_all

lemma ws_len_u8_app:
  assumes "3 \<le> length b" and "list_all (\<lambda>x. x < 256) b"
  shows "ws_len (u8 b @ r) = ws_bytes (take 3 b)"
proof -
  have "take 3 (u8 b @ r) = map char_of (take 3 b)" using assms(1) by (simp add: u8_def take_map)
  moreover have "list_all (\<lambda>x. x < 256) (take 3 b)"
    using assms(2) by (auto simp: list_all_iff dest: in_set_takeD)
  then have "map of_char (map char_of (take 3 b) :: string) = take 3 b"
    by (rule of_char_char_of_list)

  ultimately show ?thesis by (simp add: ws_len_def)
qed

lemma status_message_start:
  assumes "(st, m) \<in> set status_messages"
  shows "\<exists>b r. m = u8 b @ r \<and> 3 \<le> length b \<and> list_all (\<lambda>x. x < 256) b \<and> ws_bytes (take 3 b) = 0"
proof -
  from assms consider
      "m = u8 [0xF0, 0x9F, 0x93, 0xA6] @ '' Tu pedido est'' @ u8 [0xC3, 0xA1] @ '' siendo preparado.''
        @ nl @ nl @ ''Nuestro equipo est'' @ u8 [0xC3, 0xA1]
        @ '' trabajando para tener tu pedido listo lo antes posible.'' @ nl @ nl
        @ ''Te notificaremos cuando est'' @ u8 [0xC3, 0xA9] @ '' listo para enviar.''"
    | "m = u8 [0xF0, 0x9F, 0x9A, 0x9A] @ '' '' @ u8 [0xC2, 0xA1] @ ''Tu pedido fue enviado!'' @ nl @ nl
        @ ''Ya est'' @ u8 [0xC3, 0xA1] @ '' en camino a tu direcci'' @ u8 [0xC3, 0xB3] @ ''n.'' @ nl @ nl
        @ ''Podr'' @ u8 [0xC3, 0xA1] @ ''s recibirlo pronto. Mantente atento a las actualizaciones de entrega.''"
    | "m = u8 [0xE2, 0x9C, 0x85] @ '' '' @ u8 [0xC2, 0xA1] @ ''Tu pedido fue entregado!'' @ nl @ nl
        @ ''Esperamos que disfrutes tu compra.'' @ nl @ nl @ ''Gracias por confiar en nosotros. ''
        @ u8 [0xF0, 0x9F, 0x98, 0x8A]"
    | "m = u8 [0xE2, 0x9D, 0x8C] @ '' Tu pedido fue cancelado.'' @ nl @ nl
        @ ''Si tienes alguna pregunta o necesitas asistencia, no dudes en contactarnos.'' @ nl @ nl
        @ ''Estamos aqu'' @ u8 [0xC3, 0xAD] @ '' para ayudarte.''"
    unfolding status_messages_def by (simp only: list.set insert_iff empty_iff prod.inject) blast
  then show ?thesis
  proof cases
    case 1 show ?thesis unfolding 1 by (intro exI conjI, rule refl) (simp_all add: ws3_def)
  next
    case 2 show ?thesis unfolding 2 by (intro exI conjI, rule refl) (simp_all add: ws3_def)
  next
    case 3 show ?thesis unfolding 3 by (intro exI conjI, rule refl) (simp_all add: ws3_def)
  next
    case 4 show ?thesis unfolding 4 by (intro exI conjI, rule refl) (simp_all add: ws3_def)
  qed
qed

lemma js_blank_first:
  assumes "s \<noteq> []" and "ws_len s = 0"
  shows "\<not> js_blank s"
  using assms by (simp add: js_blank.simps)

lemma status_keys: "map fst status_messages = valid_statuses"
  by (simp only: status_messages_def valid_statuses_def list.map fst_conv)

lemma order_message_not_blank:
  assumes "st \<in> set valid_statuses"
  shows "\<not> js_blank (order_message st oid)"
proof -
  have "st \<in> fst ` set status_messages" using assms status_keys by (metis list.set_map)
  then obtain m where g: "get_status_message st = Some m"
    by (cases "map_of status_messages st") (auto simp: get_status_message_def map_of_eq_None_iff)
  then have "(st, m) \<in> set status_messages" by (simp add: get_status_message_def map_of_SomeD)
  then obtain b r where m: "m = u8 b @ r" and b: "3 \<le> length b" "list_all (\<lambda>x. x < 256) b"
    and ws: "ws_bytes (take 3 b) = 0"
    using status_message_start by blast
  have m0: "\<not> js_blank m"
  proof (rule js_blank_first)
    show "m \<noteq> []" using m b(1) by (auto simp: u8_def)
    show "ws_len m = 0" using ws_len_u8_app [OF b] ws m by simp
  qed
  show ?thesis
  proof (cases "\<exists>i. oid = Some i \<and> i \<noteq> []")
    case True
    then obtain i where "oid = Some i" "i \<noteq> []" by blast
    then have "order_message st oid = ''Pedido #'' @ i @ nl @ nl @ m" by (simp add: order_message_def g)
    moreover have "ws_len (''Pedido #'' @ i @ nl @ nl @ m) = 0" by (simp add: ws_len_def ws3_def)
    ultimately show ?thesis using js_blank_first by simp
  next
    case False
    then have "order_message st oid = m" by (auto simp: order_message_def g split: option.split)
    then show ?thesis using m0 by simp
  qed
qed

section \<open>Properties of the helpers\<close>

text \<open>C23: an order status update for a valid status and a valid phone, sent to the whatsapp-notify function, makes exactly one request to the WhatsApp API, carrying the status message (prefixed with the order id) to that phone, and reports success with the returned message id.\<close>

theorem order_status_update_delivers:
  assumes "env_set (wa_token env)" and "env_set (wa_phone_id env)"
    and "cfg_function_url cfg = None" and "h_supabase_url henv = Some u" and "u \<noteq> []"
    and "is_valid_phone phone" and "st \<in> set valid_statuses"
  shows "send_order_status_update henv cfg (edge_transport env (ApiOk ms cs)) phone st oid =
           (\<lparr>so_success = True, so_message_id = head_opt ms, so_error = None\<rparr>,
            [mk_call (JStr phone) (order_message st oid) (the (wa_token env)) (the (wa_phone_id env))])"
proof -
  have "whatsapp_notify ''POST'' env
          (Some (JObj [(''phone'', JStr phone), (''message'', JStr (order_message st oid))])) (ApiOk ms cs)
        = wa_send env (JStr phone) (order_message st oid) (ApiOk ms cs)"
    by (rule whatsapp_notify_valid)
       (simp_all add: assms(1,2,6) order_message_not_blank [OF assms(7)] jfield_def)
  then show ?thesis
    using assms(3-5,7)
    by (simp add: send_order_status_update_def deliver_def edge_transport_def get_function_url_def js_or_def
        Let_def wa_send_def send_result_def outcome_of_def wa_reply_def)
qed

theorem order_status_update_delivers_witness:
  "send_order_status_update \<lparr>h_supabase_url = Some ''https://x'', h_anon_key = Some ''k''\<rparr> \<lparr>cfg_function_url = None, cfg_key = None\<rparr>
     (edge_transport \<lparr>wa_token = Some ''t'', wa_phone_id = Some ''1''\<rparr> (ApiOk [''wamid.1''] [''573001234567''])) ''+573001234567'' ''SHIPPED'' (Some ''ORD-1'') =
   (\<lparr>so_success = True, so_message_id = Some ''wamid.1'', so_error = None\<rparr>,
    [mk_call (JStr ''+573001234567'') (order_message ''SHIPPED'' (Some ''ORD-1'')) ''t'' ''1''])"
  using order_status_update_delivers [where env = "\<lparr>wa_token = Some ''t'', wa_phone_id = Some ''1''\<rparr>" and cfg = "\<lparr>cfg_function_url = None, cfg_key = None\<rparr>" and henv = "\<lparr>h_supabase_url = Some ''https://x'', h_anon_key = Some ''k''\<rparr>"
      and u = "''https://x''" and phone = "''+573001234567''" and st = "''SHIPPED''"
      and ms = "[''wamid.1'']" and cs = "[''573001234567'']" and oid = "Some ''ORD-1''"]
  by (simp add: env_set_def valid_statuses_def head_opt_def is_digit_def)

text \<open>A status update to a phone the function refuses, such as "123456", reports failure with the function's invalid-phone message and makes no request to the WhatsApp API; the helper itself does not check the phone.\<close>

theorem order_status_update_invalid_phone:
  assumes "env_set (wa_token env)" and "env_set (wa_phone_id env)"
    and "cfg_function_url cfg = None" and "h_supabase_url henv = Some u" and "u \<noteq> []"
    and "phone \<noteq> []" and "\<not> is_valid_phone phone" and "st \<in> set valid_statuses"
  shows "send_order_status_update henv cfg (edge_transport env api) phone st oid =
           (\<lparr>so_success = False, so_message_id = None, so_error = Some (wa_error_text InvalidPhone)\<rparr>, [])"
proof -
  have "order_message st oid \<noteq> []" using order_message_not_blank [OF assms(8), of oid] by (rule contrapos_nn) simp
  then show ?thesis
    using assms
    by (simp add: send_order_status_update_def deliver_def edge_transport_def get_function_url_def js_or_def
        Let_def whatsapp_notify_def wa_checks_def jfield_def outcome_of_def wa_reply_def)
qed

theorem order_status_update_invalid_phone_witness:
  "send_order_status_update \<lparr>h_supabase_url = Some ''https://x'', h_anon_key = Some ''k''\<rparr> \<lparr>cfg_function_url = None, cfg_key = None\<rparr>
     (edge_transport \<lparr>wa_token = Some ''t'', wa_phone_id = Some ''1''\<rparr> (ApiOk [] [])) ''123456'' ''DELIVERED'' None =
   (\<lparr>so_success = False, so_message_id = None, so_error = Some (wa_error_text InvalidPhone)\<rparr>, [])"
  using order_status_update_invalid_phone [where env = "\<lparr>wa_token = Some ''t'', wa_phone_id = Some ''1''\<rparr>" and cfg = "\<lparr>cfg_function_url = None, cfg_key = None\<rparr>" and henv = "\<lparr>h_supabase_url = Some ''https://x'', h_anon_key = Some ''k''\<rparr>"
      and u = "''https://x''" and phone = "''123456''" and st = "''DELIVERED''"
      and api = "ApiOk [] []" and oid = None]
  by (simp add: env_set_def valid_statuses_def)

end
