(* ===== verification/Email.thy ===== *)
theory Email
  imports Helpers
begin

text \<open>
  The send-email edge function (src/src/supabase/functions/send-email/
  index.ts): the body's \<open>type\<close> selects one of three e-mails, built from
  \<open>to\<close> and \<open>data\<close> and sent through Resend; the function answers with
  \<open>result.id\<close>.  The HTML of the templates is modelled by the values it is
  built from: the fixed texts, the interpolated fields (\<open>${v}\<close> prints an
  undefined value as \<open>undefined\<close>) and the timeline of an update.
  \<open>toLocaleString\<close> formatting, the CSS and lookups of keys inherited from
  \<open>Object.prototype\<close> are not modelled.
\<close>

section \<open>Fixed texts and lookups\<close>

text \<open>\<open>`${v}`\<close>.\<close>

definition tmpl :: "jval option \<Rightarrow> string" where
  "tmpl v = (case v of None \<Rightarrow> ''undefined'' | Some x \<Rightarrow> js_string x)"

text \<open>The tables of lines 200--206, 278--284 and 289--295, looked up by
  \<open>String(status)\<close>.\<close>

definition status_texts :: "(string \<times> string) list" where
  "status_texts =
     [(''pendiente'', ''Pendiente de Confirmaci'' @ u8 [0xC3, 0xB3] @ ''n''),
      (''confirmado'', ''Confirmado y en Preparaci'' @ u8 [0xC3, 0xB3] @ ''n''),
      (''enviado'', ''Enviado''), (''entregado'', ''Entregado''), (''cancelado'', ''Cancelado'')]"

definition status_html :: "(string \<times> string) list" where
  "status_html =
     [(''pendiente'', ''<p>Tu pedido est'' @ u8 [0xC3, 0xA1]
         @ '' siendo revisado por nuestro equipo. Te notificaremos una vez sea confirmado.</p>''),
      (''confirmado'', ''<p>'' @ u8 [0xC2, 0xA1] @ ''Excelente! Tu pedido ha sido confirmado y estamos prepar''
         @ u8 [0xC3, 0xA1] @ ''ndolo para su env'' @ u8 [0xC3, 0xAD] @ ''o.</p>''),
      (''enviado'', ''<p>Tu pedido est'' @ u8 [0xC3, 0xA1] @ '' en camino. Recibir'' @ u8 [0xC3, 0xA1]
         @ ''s tu paquete pronto.</p>''),
      (''entregado'', ''<p>'' @ u8 [0xC2, 0xA1]
         @ ''Tu pedido ha sido entregado! Esperamos que disfrutes tus productos. Gracias por confiar en CeluCol.</p>''),
      (''cancelado'', ''<p>Tu pedido ha sido cancelado. Si esto fue un error o tienes preguntas, cont''
         @ u8 [0xC3, 0xA1] @ ''ctanos.</p>'')]"

definition status_emojis :: "(string \<times> string) list" where
  "status_emojis =
     [(''pendiente'', u8 [0xE2, 0x8F, 0xB3]), (''confirmado'', u8 [0xE2, 0x9C, 0x85]),
      (''enviado'', u8 [0xF0, 0x9F, 0x9A, 0x9A]), (''entregado'', u8 [0xF0, 0x9F, 0x93, 0xA6]),
      (''cancelado'', u8 [0xE2, 0x9D, 0x8C])]"

text \<open>\<open>getStatusText\<close> (lines 277--286): \<open>statusTexts[status] || status\<close>.\<close>

definition get_status_text :: "jval option \<Rightarrow> jval option" where
  "get_status_text st = (case map_of status_texts (tmpl st) of Some t \<Rightarrow> Some (JStr t) | None \<Rightarrow> st)"

text \<open>\<open>getStatusMessage\<close> (lines 288--297): \<open>messages[status] || ''\<close>.\<close>

definition get_status_html :: "jval option \<Rightarrow> string" where
  "get_status_html st = (case map_of status_html (tmpl st) of Some t \<Rightarrow> t | None \<Rightarrow> [])"

section \<open>The order timeline\<close>

datatype tl_item = TlCreated | TlConfirmed | TlShipped | TlDelivered

text \<open>Lines 239--263: the stages shown, by strict comparisons of
  \<open>data.status\<close>.\<close>

definition timeline :: "jval option \<Rightarrow> tl_item list" where
  "timeline st =
     [TlCreated]
     @ (if st \<noteq> Some (JStr ''pendiente'') then [TlConfirmed] else [])
     @ (if st = Some (JStr ''enviado'') \<or> st = Some (JStr ''entregado'') then [TlShipped] else [])
     @ (if st = Some (JStr ''entregado'') then [TlDelivered] else [])"

section \<open>E-mails\<close>

text \<open>The content of the three templates: registration (lines 82--117),
  order created (lines 119--189) with one row per item (name, quantity,
  price), total, address and payment label, and order updated (lines
  191--275) with the emoji, order id, status text, status paragraph and
  timeline.\<close>

datatype email_body =
    Registration string string
  | OrderCreated string "(string \<times> string \<times> jval) list" jval string string
  | OrderUpdated string string string string "tl_item list"

record email =
  em_from :: string
  em_to :: "jval option list"
  em_subject :: string
  em_html :: email_body

definition type_error :: string where
  "type_error = ''TypeError''"

text \<open>An item row (lines 120--127): \<open>item.product.name\<close>, \<open>item.quantity\<close>
  and \<open>item.product.price\<close>, whose \<open>toLocaleString\<close> throws when it is null
  or undefined; reading a property of a missing product throws.\<close>

fun item_row :: "jval \<Rightarrow> (string \<times> string \<times> jval) option" where
  "item_row (JObj kvs) =
     (case jfield kvs ''product'' of
        None \<Rightarrow> None
      | Some p \<Rightarrow>
          (if p = JNull then None
           else (case wa_field p ''price'' of
                   None \<Rightarrow> None
                 | Some pr \<Rightarrow>
                     (if pr = JNull then None
                      else Some (tmpl (wa_field p ''name''), tmpl (jfield kvs ''quantity''), pr)))))"
| "item_row v = None"

text \<open>Lines 27--57 with the templates: the e-mail, or the message of the
  error thrown while building it.  \<open>data\<close> is read through its fields, so
  an undefined or null \<open>data\<close> throws.\<close>

definition build_email :: "jval option \<Rightarrow> jval option \<Rightarrow> jval option \<Rightarrow> string + email" where
  "build_email to ty dat =
     (if ty = Some (JStr ''registration'') then
        (case dat of
           Some d \<Rightarrow>
             (if d = JNull then Inl type_error
              else Inr \<lparr>em_from = ''CeluCol <noreply@tudominio.com>'', em_to = [to],
                        em_subject = u8 [0xC2, 0xA1] @ ''Bienvenido a CeluCol!'',
                        em_html = Registration (tmpl (wa_field d ''name'')) (tmpl (wa_field d ''role''))\<rparr>)
         | None \<Rightarrow> Inl type_error)
      else if ty = Some (JStr ''order_created'') then
        (case dat of
           Some d \<Rightarrow>
             (if d = JNull then Inl type_error
              else
                (case wa_field d ''items'' of
                   Some (JArr xs) \<Rightarrow>
                     (if None \<in> set (map item_row xs) then Inl type_error
                      else
                        (case wa_field d ''total'' of
                           Some t \<Rightarrow>
                             (if t = JNull then Inl type_error
                              else Inr \<lparr>em_from = ''CeluCol <pedidos@tudominio.com>'', em_to = [to],
                                   em_subject = ''Pedido #'' @ tmpl (wa_field d ''orderId'') @ '' - Confirmaci''
                                                @ u8 [0xC3, 0xB3] @ ''n'',
                                   em_html = OrderCreated (tmpl (wa_field d ''orderId'')) (map (the \<circ> item_row) xs) t
                                     (tmpl (wa_field d ''shippingAddress''))
                                     (if wa_field d ''paymentMethod'' = Some (JStr ''tarjeta'')
                                      then ''Tarjeta de Cr'' @ u8 [0xC3, 0xA9] @ ''dito''
                                      else ''Transferencia Bancaria'')\<rparr>)
                         | None \<Rightarrow> Inl type_error))
                 | _ \<Rightarrow> Inl type_error))
         | None \<Rightarrow> Inl type_error)
      else if ty = Some (JStr ''order_updated'') then
        (case dat of
           Some d \<Rightarrow>
             (if d = JNull then Inl type_error
              else
                (let st = wa_field d ''status''; oid = tmpl (wa_field d ''orderId'') in
                 Inr \<lparr>em_from = ''CeluCol <pedidos@tudominio.com>'', em_to = [to],
                      em_subject = ''Pedido #'' @ oid @ '' - '' @ tmpl (get_status_text st),
                      em_html = OrderUpdated (tmpl (map_option JStr (map_of status_emojis (tmpl st)))) oid
                                  (tmpl (get_status_text st)) (get_status_html st) (timeline st)\<rparr>))
         | None \<Rightarrow> Inl type_error)
      else Inl (''Tipo de email no v'' @ u8 [0xC3, 0xA1] @ ''lido''))"

section \<open>The handler\<close>

text \<open>What \<open>resend.emails.send\<close> gives: a value, or the message of the
  error it throws.\<close>

datatype resend_answer = SendReturns jval | SendThrows string

datatype email_resp = EmOk | EmSent "jval option" | EmError string

record email_response =
  em_status :: nat
  em_resp :: email_resp

text \<open>Lines 17--78, with the e-mails handed to Resend as the second result.
  The body is \<open>None\<close> when \<open>req.json()\<close> rejects; \<open>result.id\<close> of a null
  result throws.\<close>

definition send_email :: "string \<Rightarrow> jval option \<Rightarrow> resend_answer \<Rightarrow> email_response \<times> email list" where
  "send_email m body ans =
     (if m = ''OPTIONS'' then (\<lparr>em_status = 200, em_resp = EmOk\<rparr>, [])
      else
        (case body of
           None \<Rightarrow> (\<lparr>em_status = 500, em_resp = EmError ''SyntaxError''\<rparr>, [])
         | Some v \<Rightarrow>
             (if v = JNull then (\<lparr>em_status = 500, em_resp = EmError type_error\<rparr>, [])
              else
                (case build_email (wa_field v ''to'') (wa_field v ''type'') (wa_field v ''data'') of
                   Inl e \<Rightarrow> (\<lparr>em_status = 500, em_resp = EmError e\<rparr>, [])
                 | Inr em \<Rightarrow>
                     (case ans of
                        SendThrows e \<Rightarrow> (\<lparr>em_status = 500, em_resp = EmError e\<rparr>, [em])
                      | SendReturns r \<Rightarrow>
                          (if r = JNull then (\<lparr>em_status = 500, em_resp = EmError type_error\<rparr>, [em])
                           else (\<lparr>em_status = 200, em_resp = EmSent (wa_field r ''id'')\<rparr>, [em])))))))"

section \<open>Properties of the e-mails\<close>

text \<open>The timeline of an update is always a prefix of the four stages.\<close>

lemma timeline_prefix: "\<exists>n. 1 \<le> n \<and> n \<le> 4 \<and> timeline st = take n [TlCreated, TlConfirmed, TlShipped, TlDelivered]"
proof -
  consider "st = Some (JStr ''pendiente'')" | "st = Some (JStr ''enviado'')" | "st = Some (JStr ''entregado'')"
    | "st \<noteq> Some (JStr ''pendiente'') \<and> st \<noteq> Some (JStr ''enviado'') \<and> st \<noteq> Some (JStr ''entregado'')"
    by blast
  then show ?thesis
  proof cases
    case 1 then show ?thesis by (intro exI [of _ 1]) (simp add: timeline_def)
  next
    case 2 then show ?thesis by (intro exI [of _ 3]) (simp add: timeline_def)
  next
    case 3 then show ?thesis by (intro exI [of _ 4]) (simp add: timeline_def)
  next
    case 4 then show ?thesis by (intro exI [of _ 2]) (simp add: timeline_def numeral_2_eq_2)
  qed
qed

text \<open>C27: the timeline of an order update shows exactly the stages created and confirmed for every status other than pendiente, enviado and entregado: a cancelled order, or one with an unknown status, is shown as confirmed.\<close>

theorem timeline_two_stages:
  "timeline st = [TlCreated, TlConfirmed] \<longleftrightarrow>
     st \<noteq> Some (JStr ''pendiente'') \<and> st \<noteq> Some (JStr ''enviado'') \<and> st \<noteq> Some (JStr ''entregado'')"
  by (auto simp: timeline_def)

text \<open>C28: when Resend answers \<open>{ data: null, error }\<close> instead of throwing, the function still answers 200 with success and an undefined messageId, for every e-mail it builds.\<close>

theorem send_email_error_reported_sent:
  assumes "m \<noteq> ''OPTIONS''"
    and "build_email (jfield kvs ''to'') (jfield kvs ''type'') (jfield kvs ''data'') = Inr em"
  shows "send_email m (Some (JObj kvs)) (SendReturns (JObj [(''data'', JNull), (''error'', e)])) =
           (\<lparr>em_status = 200, em_resp = EmSent None\<rparr>, [em])"
  using assms by (simp add: send_email_def jfield_def)

theorem send_email_error_reported_sent_witness:
  "send_email ''POST''
     (Some (JObj [(''to'', JStr ''a@b.co''), (''type'', JStr ''registration''),
                  (''data'', JObj [(''name'', JStr ''Ana'')])]))
     (SendReturns (JObj [(''data'', JNull), (''error'', JObj [(''message'', JStr ''quota'')])])) =
   (\<lparr>em_status = 200, em_resp = EmSent None\<rparr>,
    [\<lparr>em_from = ''CeluCol <noreply@tudominio.com>'', em_to = [Some (JStr ''a@b.co'')],
      em_subject = u8 [0xC2, 0xA1] @ ''Bienvenido a CeluCol!'',
      em_html = Registration ''Ana'' ''undefined''\<rparr>])"
  by (rule send_email_error_reported_sent) (simp_all add: build_email_def jfield_def tmpl_def)

text \<open>A type other than the three known ones is answered 500 with no e-mail sent.\<close>

lemma send_email_unknown_type:
  assumes "m \<noteq> ''OPTIONS''"
    and "jfield kvs ''type'' \<notin> Some ` JStr ` {''registration'', ''order_created'', ''order_updated''}"
  shows "send_email m (Some (JObj kvs)) ans =
           (\<lparr>em_status = 500, em_resp = EmError (''Tipo de email no v'' @ u8 [0xC3, 0xA1] @ ''lido'')\<rparr>, [])"
  using assms by (auto simp: send_email_def build_email_def)

end
