(* ===== verification/Examples.thy ===== *)
theory Examples
  imports Email
begin

text \<open>
  The usage examples of the WhatsApp notifications
  (src/supabase/functions/whatsapp-notify/examples.ts).  They are callers of
  the helpers and of the whatsapp-notify function:
  \<^item> wrappers of the helpers;
  \<^item> a payment flow that sends two notifications in sequence;
  \<^item> a direct call of the function from a backend, and a payment webhook
    built on it;
  \<^item> a frontend sender, the React hook around it and a component using
    the hook;
  \<^item> a call through \<open>supabase.functions.invoke\<close> and an order creation
    that notifies;
  \<^item> a test loop over the order statuses.
  A fetch of the function is a raw transport: given the URL, the key and the
  JSON body, it yields the function's response with the WhatsApp API calls
  made, or the message of a rejected fetch.  Console output and
  \<open>setTimeout\<close> are not modelled; \<open>alert\<close> and \<open>console.error\<close> lines
  whose content is the point of a property are modelled as a log entry.
\<close>

section \<open>Direct calls of the function\<close>

type_synonym raw_transport = "string \<Rightarrow> string option \<Rightarrow> jval \<Rightarrow> string + wa_response \<times> wa_call list"

text \<open>The whatsapp-notify handler behind the fetch.\<close>

definition edge_raw :: "wa_env \<Rightarrow> api_answer \<Rightarrow> raw_transport" where
  "edge_raw env api url key body = Inr (whatsapp_notify ''POST'' env (Some body) api)"

text \<open>\<open>`${v}`\<close> of an environment variable.\<close>

definition js_opt :: "string option \<Rightarrow> string" where
  "js_opt v = (case v of None \<Rightarrow> ''undefined'' | Some x \<Rightarrow> x)"

text \<open>\<open>JSON.stringify({ phone, message })\<close>: an undefined phone is left out.\<close>

definition phone_msg_body :: "jval option \<Rightarrow> string \<Rightarrow> jval" where
  "phone_msg_body p m = JObj ((case p of Some v \<Rightarrow> [(''phone'', v)] | None \<Rightarrow> []) @ [(''message'', JStr m)])"

text \<open>\<open>response.ok\<close>.\<close>

definition resp_ok :: "wa_response \<Rightarrow> bool" where
  "resp_ok r \<longleftrightarrow> 200 \<le> wa_status r \<and> wa_status r < 300"

text \<open>\<open>sendWhatsAppDirectFromBackend\<close> (lines 89--119): the function's body,
  or the message of the error thrown; the API calls made either way.  The
  URL and the service key are interpolated, so an unset variable is the
  text \<open>undefined\<close>.\<close>

definition send_direct_backend ::
  "string option \<Rightarrow> string option \<Rightarrow> raw_transport \<Rightarrow> jval option \<Rightarrow> string \<Rightarrow> (string + wa_body) \<times> wa_call list" where
  "send_direct_backend url key tr phone msg =
     (case tr (js_opt url @ ''/functions/v1/whatsapp-notify'') (Some (js_opt key)) (phone_msg_body phone msg) of
        Inl e \<Rightarrow> (Inl e, [])
      | Inr (r, calls) \<Rightarrow>
          (if resp_ok r then (Inr (wa_resp r), calls)
           else (Inl (''Error al enviar WhatsApp: ''
                      @ (case wa_resp r of WaErr e \<Rightarrow> wa_error_text e | _ \<Rightarrow> ''undefined'')), calls)))"

datatype webhook_body = WhSuccess | WhInternalError

text \<open>\<open>paymentWebhookHandler\<close> (lines 122--146): an approved payment is
  notified to \<open>customer_phone\<close>; any error thrown, a failed notification
  included, is answered 500.  The body is \<open>None\<close> when \<open>req.json()\<close>
  rejects; reading \<open>status\<close> of \<open>null\<close> throws.\<close>

definition payment_webhook ::
  "string option \<Rightarrow> string option \<Rightarrow> raw_transport \<Rightarrow> jval option \<Rightarrow> (nat \<times> webhook_body) \<times> wa_call list" where
  "payment_webhook url key tr body =
     (case body of
        None \<Rightarrow> ((500, WhInternalError), [])
      | Some v \<Rightarrow>
          (if v = JNull then ((500, WhInternalError), [])
           else if wa_field v ''status'' = Some (JStr ''approved'') then
             (case send_direct_backend url key tr (wa_field v ''customer_phone'')
                     (u8 [0xC2, 0xA1] @ ''Pago confirmado! Tu pedido #'' @ tmpl (wa_field v ''order_id'')
                      @ '' fue recibido.'') of
                (Inl _, calls) \<Rightarrow> ((500, WhInternalError), calls)
              | (Inr _, calls) \<Rightarrow> ((200, WhSuccess), calls))
           else ((200, WhSuccess), [])))"

section \<open>The frontend sender and its hook\<close>

record notify_result =
  nr_success :: bool
  nr_error :: "string option"

text \<open>\<open>sendWhatsAppNotification\<close> (lines 159--195), with
  \<open>VITE_SUPABASE_URL\<close> and \<open>VITE_SUPABASE_ANON_KEY\<close>.  The phone is
  typed as a string; a caller may still pass \<open>null\<close>.\<close>

definition send_notification ::
  "string option \<Rightarrow> string option \<Rightarrow> raw_transport \<Rightarrow> jval \<Rightarrow> string \<Rightarrow> notify_result \<times> wa_call list" where
  "send_notification url key tr phone msg =
     (case tr (js_opt url @ ''/functions/v1/whatsapp-notify'') (Some (js_opt key))
             (JObj [(''phone'', phone), (''message'', JStr msg)]) of
        Inl e \<Rightarrow> (\<lparr>nr_success = False, nr_error = Some e\<rparr>, [])
      | Inr (r, calls) \<Rightarrow>
          (if resp_ok r then (\<lparr>nr_success = True, nr_error = None\<rparr>, calls)
           else (\<lparr>nr_success = False,
                  nr_error = Some (case wa_resp r of WaErr e \<Rightarrow> wa_error_text e | _ \<Rightarrow> ''Error al enviar mensaje'')\<rparr>,
                 calls)))"

text \<open>The state of \<open>useWhatsAppNotification\<close> (lines 200--202).\<close>

record hook_state =
  hk_loading :: bool
  hk_error :: "string option"

text \<open>\<open>sendNotification\<close> (lines 204--223): the states the hook is set to
  while it runs (loading, error cleared, then the result's error when the
  send failed, then not loading), the value returned and the API calls.\<close>

definition send_notification_hook ::
  "string option \<Rightarrow> string option \<Rightarrow> raw_transport \<Rightarrow> string \<Rightarrow> string \<Rightarrow> hook_state
     \<Rightarrow> (bool \<times> hook_state list) \<times> wa_call list" where
  "send_notification_hook url key tr phone msg st =
     (let st1 = st\<lparr>hk_loading := True, hk_error := None\<rparr>;
          (r, calls) = send_notification url key tr (JStr phone) msg in
      if \<not> nr_success r then
        (let st2 = st1\<lparr>hk_error := Some (case nr_error r of Some e \<Rightarrow> (if e \<noteq> [] then e
                                          else ''Error al enviar notificaci'' @ u8 [0xC3, 0xB3] @ ''n'')
                                        | None \<Rightarrow> ''Error al enviar notificaci'' @ u8 [0xC3, 0xB3] @ ''n'')\<rparr> in
         ((False, [st1, st2, st2\<lparr>hk_loading := False\<rparr>]), calls))
      else ((True, [st1, st1\<lparr>hk_loading := False\<rparr>]), calls))"

datatype log_entry = LogInfo string | LogError string "string option"

text \<open>\<open>handlePaymentSuccess\<close> of \<open>CheckoutComponent\<close> (lines 229--247): the
  handler is a closure of the render in which it was created, so the
  \<open>error\<close> it logs is the hook's error of that render.\<close>

definition handle_payment_success ::
  "string option \<Rightarrow> string option \<Rightarrow> raw_transport \<Rightarrow> hook_state \<Rightarrow> string \<Rightarrow> string
     \<Rightarrow> (log_entry \<times> hook_state list) \<times> wa_call list" where
  "handle_payment_success url key tr rendered oid phone =
     (case send_notification_hook url key tr phone
             (u8 [0xF0, 0x9F, 0x8E, 0x89] @ '' '' @ u8 [0xC2, 0xA1] @ ''Pago confirmado! Tu pedido #'' @ oid
              @ '' fue recibido.'') rendered of
        ((ok, sts), calls) \<Rightarrow>
          ((if ok then LogInfo (''Notificaci'' @ u8 [0xC3, 0xB3] @ ''n enviada exitosamente'')
            else LogError (''Error al enviar notificaci'' @ u8 [0xC3, 0xB3] @ ''n:'') (hk_error rendered), sts), calls))"

section \<open>Wrappers of the helpers\<close>

text \<open>The helpers called without a configuration.\<close>

definition no_config :: helper_config where
  "no_config = \<lparr>cfg_function_url = None, cfg_key = None\<rparr>"

text \<open>The result of \<open>handlePaymentConfirmation\<close> (lines 21--37) and
  \<open>handleOrderStatusChange\<close> (lines 40--59): the helpers never throw, so
  the \<open>catch\<close> is not reached.\<close>

definition example_result :: "send_outcome \<Rightarrow> notify_result" where
  "example_result r =
     (if so_success r then \<lparr>nr_success = True, nr_error = None\<rparr>
      else \<lparr>nr_success = False, nr_error = so_error r\<rparr>)"

definition handle_payment_confirmation ::
  "helper_env \<Rightarrow> transport \<Rightarrow> string \<Rightarrow> string \<Rightarrow> notify_result \<times> wa_call list" where
  "handle_payment_confirmation henv tr oid phone =
     (case send_payment_confirmation henv no_config tr phone oid of (r, calls) \<Rightarrow> (example_result r, calls))"

definition handle_order_status_change ::
  "helper_env \<Rightarrow> transport \<Rightarrow> string \<Rightarrow> string \<Rightarrow> string \<Rightarrow> notify_result \<times> wa_call list" where
  "handle_order_status_change henv tr oid phone st =
     (case send_order_status_update henv no_config tr phone st (Some oid) of (r, calls) \<Rightarrow> (example_result r, calls))"

text \<open>\<open>processPaymentWithNotification\<close> (lines 62--80): the payment
  confirmation, then the PREPARING update, to a fixed phone and order; the
  results of both are ignored and the payment's result is returned.\<close>

definition process_payment :: "helper_env \<Rightarrow> transport \<Rightarrow> (bool \<times> string) \<times> wa_call list" where
  "process_payment henv tr =
     (let (_, c1) = send_payment_confirmation henv no_config tr ''+573001234567'' ''ORD-12345'';
          (_, c2) = send_order_status_update henv no_config tr ''+573001234567'' ''PREPARING'' (Some ''ORD-12345'')
      in ((True, ''ORD-12345''), c1 @ c2))"

section \<open>Other callers of the frontend sender\<close>

text \<open>\<open>handleSendOrderUpdate\<close> (lines 259--270): the text of the alert.\<close>

definition handle_send_order_update :: "string option \<Rightarrow> string option \<Rightarrow> raw_transport \<Rightarrow> string \<times> wa_call list" where
  "handle_send_order_update url key tr =
     (case send_notification url key tr (JStr ''+573001234567'')
             (''Tu pedido est'' @ u8 [0xC3, 0xA1] @ '' siendo preparado.'') of
        (r, calls) \<Rightarrow>
          (if nr_success r then ''Notificaci'' @ u8 [0xC3, 0xB3] @ ''n enviada exitosamente''
           else ''Error: '' @ js_opt (nr_error r), calls))"

text \<open>\<open>handleSubmitOrder\<close> (lines 273--292): \<open>formData.get\<close> is \<open>null\<close> for a
  missing field, which is sent as the phone and printed as \<open>null\<close> in the
  message.\<close>

definition handle_submit_order ::
  "string option \<Rightarrow> string option \<Rightarrow> raw_transport \<Rightarrow> string option \<Rightarrow> string option \<Rightarrow> log_entry list \<times> wa_call list" where
  "handle_submit_order url key tr phone oid =
     (case send_notification url key tr (case phone of Some p \<Rightarrow> JStr p | None \<Rightarrow> JNull)
             (u8 [0xC2, 0xA1] @ ''Pedido #'' @ (case oid of Some i \<Rightarrow> i | None \<Rightarrow> ''null'')
              @ '' creado exitosamente! Te mantendremos informado.'') of
        (r, calls) \<Rightarrow> ((if nr_success r then [LogInfo ''Cliente notificado''] else []), calls))"

section \<open>Calls through supabase-js\<close>

text \<open>\<open>supabase.functions.invoke\<close> of supabase-js: a rejected fetch and a
  response that is not 2xx come back as an \<open>error\<close> with a fixed message;
  otherwise \<open>data\<close> is the parsed body.\<close>

definition functions_invoke ::
  "string option \<Rightarrow> string option \<Rightarrow> raw_transport \<Rightarrow> jval \<Rightarrow> (string + wa_body) \<times> wa_call list" where
  "functions_invoke url key tr body =
     (case tr (js_opt url @ ''/functions/v1/whatsapp-notify'') (Some (js_opt key)) body of
        Inl _ \<Rightarrow> (Inl ''Failed to send a request to the Edge Function'', [])
      | Inr (r, calls) \<Rightarrow>
          (if resp_ok r then (Inr (wa_resp r), calls)
           else (Inl ''Edge Function returned a non-2xx status code'', calls)))"

text \<open>\<open>sendNotificationWithSupabaseClient\<close> (lines 301--323).\<close>

definition send_with_client ::
  "string option \<Rightarrow> string option \<Rightarrow> raw_transport \<Rightarrow> string \<Rightarrow> string \<Rightarrow> (string + wa_body) \<times> wa_call list" where
  "send_with_client url key tr phone msg =
     functions_invoke url key tr (JObj [(''phone'', JStr phone), (''message'', JStr msg)])"

text \<open>\<open>createOrderAndNotify\<close> (lines 326--355): the insert's answer, an
  error message or the order row, is an input; the notification's result is
  not looked at.\<close>

definition create_order_and_notify ::
  "string option \<Rightarrow> string option \<Rightarrow> raw_transport \<Rightarrow> string + jval \<Rightarrow> jval \<Rightarrow> (string + jval) \<times> wa_call list" where
  "create_order_and_notify url key tr ins order_data =
     (case ins of
        Inl e \<Rightarrow> (Inl e, [])
      | Inr order \<Rightarrow>
          (if order_data = JNull then (Inl type_error, [])
           else
             (case functions_invoke url key tr
                     (phone_msg_body (wa_field order_data ''customer_phone'')
                        (u8 [0xC2, 0xA1] @ ''Gracias por tu pedido #'' @ tmpl (wa_field order ''id'')
                         @ ''! Lo estamos procesando.'')) of
                (_, calls) \<Rightarrow> (Inr order, calls))))"

section \<open>The status test\<close>

text \<open>\<open>getStatusMessageForTesting\<close> (lines 403--411).\<close>

definition testing_messages :: "(string \<times> string) list" where
  "testing_messages =
     [(''PREPARING'', ''Tu pedido est'' @ u8 [0xC3, 0xA1] @ '' siendo preparado.''),
      (''SHIPPED'', u8 [0xC2, 0xA1] @ ''Tu pedido fue enviado!''),
      (''DELIVERED'', u8 [0xC2, 0xA1] @ ''Tu pedido fue entregado!''),
      (''CANCELED'', ''Tu pedido fue cancelado.'')]"

definition get_status_message_for_testing :: "string \<Rightarrow> string" where
  "get_status_message_for_testing st =
     (case map_of testing_messages st of Some m \<Rightarrow> m | None \<Rightarrow> ''Estado desconocido'')"

text \<open>\<open>testAllOrderStatuses\<close> (lines 377--401): the statuses tried, one
  notification each, in order; the result is the status with its success.\<close>

definition test_statuses :: "string list" where
  "test_statuses = [''PREPARING'', ''SHIPPED'', ''DELIVERED'']"

definition test_message :: "string \<Rightarrow> string" where
  "test_message st = ''Pedido #TEST-001'' @ nl @ nl @ get_status_message_for_testing st"

definition test_all_order_statuses ::
  "string option \<Rightarrow> string option \<Rightarrow> raw_transport \<Rightarrow> (string \<times> bool) list \<times> wa_call list" where
  "test_all_order_statuses url key tr =
     (let rs = map (\<lambda>st. (st, send_notification url key tr (JStr ''+573001234567'') (test_message st))) test_statuses
      in (map (\<lambda>(st, r). (st, nr_success (fst r))) rs, concat (map (\<lambda>(st, r). snd r) rs)))"

section \<open>Lemmas\<close>

text \<open>The payment message is never blank, and a helper's message to a valid
  phone, delivered to the whatsapp-notify handler, is one API call.\<close>

lemma payment_message_not_blank: "\<not> js_blank (payment_message oid)"
proof (rule js_blank_first)
  show "payment_message oid \<noteq> []" by (simp add: payment_message_def u8_def)
  have "ws_len (u8 [0xF0, 0x9F, 0x8E, 0x89] @ (u8 [0xC2, 0xA1] @ [])) = ws_bytes (take 3 [0xF0, 0x9F, 0x8E, 0x89])"
    by (rule ws_len_u8_app) simp_all
  then show "ws_len (payment_message oid) = 0"
    by (simp add: payment_message_def ws_len_u8_app ws3_def)
qed

lemma deliver_edge_calls:
  assumes "env_set (wa_token env)" and "env_set (wa_phone_id env)"
    and "h_supabase_url henv = Some u" and "u \<noteq> []"
    and "is_valid_phone phone" and "\<not> js_blank msg"
  shows "snd (deliver henv no_config (edge_transport env api) phone msg) =
           [mk_call (JStr phone) msg (the (wa_token env)) (the (wa_phone_id env))]"
proof -
  have "whatsapp_notify ''POST'' env (Some (JObj [(''phone'', JStr phone), (''message'', JStr msg)])) api
        = wa_send env (JStr phone) msg api"
    by (rule whatsapp_notify_valid) (simp_all add: assms jfield_def)
  then show ?thesis
    using assms(3,4) wa_send_calls [of env "JStr phone" msg api]
    by (cases "wa_send env (JStr phone) msg api")
       (simp add: deliver_def edge_transport_def get_function_url_def js_or_def no_config_def Let_def)
qed

lemma test_statuses_skip_canceled:
  "set test_statuses = set valid_statuses - {''CANCELED''}"
  by (auto simp: test_statuses_def valid_statuses_def)

section \<open>Properties of the examples\<close>

text \<open>C24: the payment flow sends, in this order, exactly the payment confirmation and the PREPARING update to the customer's phone, one WhatsApp API call each, and returns success whatever the API answers: the results of the two notifications are ignored.\<close>

theorem process_payment_two_notifications:
  assumes "env_set (wa_token env)" and "env_set (wa_phone_id env)"
    and "h_supabase_url henv = Some u" and "u \<noteq> []"
  shows "process_payment henv (edge_transport env api) =
           ((True, ''ORD-12345''),
            [mk_call (JStr ''+573001234567'') (payment_message ''ORD-12345'') (the (wa_token env)) (the (wa_phone_id env)),
             mk_call (JStr ''+573001234567'') (order_message ''PREPARING'' (Some ''ORD-12345''))
               (the (wa_token env)) (the (wa_phone_id env))])"
proof -
  have ph: "is_valid_phone ''+573001234567''" by (simp add: is_digit_def)
  have st: "''PREPARING'' \<in> set valid_statuses" by (simp add: valid_statuses_def)
  note d = deliver_edge_calls [OF assms ph, of _ api]
  show ?thesis
    using d [OF payment_message_not_blank] d [OF order_message_not_blank [OF st]] st
    by (simp add: process_payment_def send_payment_confirmation_def send_order_status_update_def
        Let_def case_prod_unfold)
qed

theorem process_payment_two_notifications_witness:
  "process_payment \<lparr>h_supabase_url = Some ''https://x'', h_anon_key = None\<rparr>
     (edge_transport \<lparr>wa_token = Some ''t'', wa_phone_id = Some ''1''\<rparr> (ApiFail 401 ''bad token'')) =
   ((True, ''ORD-12345''),
    [mk_call (JStr ''+573001234567'') (payment_message ''ORD-12345'') ''t'' ''1'',
     mk_call (JStr ''+573001234567'') (order_message ''PREPARING'' (Some ''ORD-12345'')) ''t'' ''1''])"
  using process_payment_two_notifications [where env = "\<lparr>wa_token = Some ''t'', wa_phone_id = Some ''1''\<rparr>"
      and henv = "\<lparr>h_supabase_url = Some ''https://x'', h_anon_key = None\<rparr>" and u = "''https://x''"
      and api = "ApiFail 401 ''bad token''"]
  by (simp add: env_set_def)

text \<open>C25: the payment webhook answers 500 for an approved payment whose customer phone the function refuses, and no message is sent: a failed notification fails the webhook of a payment that went through.\<close>

theorem webhook_fails_on_refused_phone:
  assumes "jfield kvs ''status'' = Some (JStr ''approved'')"
    and "jfield kvs ''customer_phone'' = Some (JStr p)" and "p \<noteq> []" and "\<not> is_valid_phone p"
  shows "payment_webhook url key (edge_raw env api) (Some (JObj kvs)) = ((500, WhInternalError), [])"
  using assms
  by (simp add: payment_webhook_def send_direct_backend_def edge_raw_def phone_msg_body_def whatsapp_notify_def
      wa_checks_def jfield_def resp_ok_def wa_reply_def)

theorem webhook_fails_on_refused_phone_witness:
  "payment_webhook (Some ''https://x'') (Some ''k'') (edge_raw \<lparr>wa_token = Some ''t'', wa_phone_id = Some ''1''\<rparr> (ApiOk [] []))
     (Some (JObj [(''status'', JStr ''approved''), (''customer_phone'', JStr ''3001234567''), (''order_id'', JNum 7)]))
   = ((500, WhInternalError), [])"
  by (rule webhook_fails_on_refused_phone [where p = "''3001234567''"]) (simp_all add: jfield_def)

text \<open>C26: when the notification of the checkout component fails, the component logs the hook's error of the render it was created in (none on the first attempt), while the hook itself ends holding the function's error.\<close>

theorem checkout_logs_stale_error:
  assumes "env_set (wa_token env)" and "env_set (wa_phone_id env)"
    and "phone \<noteq> []" and "\<not> is_valid_phone phone"
  shows "fst (fst (handle_payment_success url key (edge_raw env api) \<lparr>hk_loading = False, hk_error = None\<rparr> oid phone))
           = LogError (''Error al enviar notificaci'' @ u8 [0xC3, 0xB3] @ ''n:'') None \<and>
         last (snd (fst (handle_payment_success url key (edge_raw env api) \<lparr>hk_loading = False, hk_error = None\<rparr> oid phone)))
           = \<lparr>hk_loading = False, hk_error = Some (wa_error_text InvalidPhone)\<rparr>"
  using assms
  by (simp add: handle_payment_success_def send_notification_hook_def send_notification_def edge_raw_def
      whatsapp_notify_def wa_checks_def jfield_def resp_ok_def wa_reply_def Let_def)

theorem checkout_logs_stale_error_witness:
  "fst (fst (handle_payment_success None None (edge_raw \<lparr>wa_token = Some ''t'', wa_phone_id = Some ''1''\<rparr> (ApiOk [] []))
             \<lparr>hk_loading = False, hk_error = None\<rparr> ''ORD-1'' ''3001234567''))
     = LogError (''Error al enviar notificaci'' @ u8 [0xC3, 0xB3] @ ''n:'') None \<and>
   last (snd (fst (handle_payment_success None None (edge_raw \<lparr>wa_token = Some ''t'', wa_phone_id = Some ''1''\<rparr> (ApiOk [] []))
             \<lparr>hk_loading = False, hk_error = None\<rparr> ''ORD-1'' ''3001234567'')))
     = \<lparr>hk_loading = False, hk_error = Some (wa_error_text InvalidPhone)\<rparr>"
  by (rule checkout_logs_stale_error) (simp_all add: env_set_def)

end
