(* ===== verification/Concurrency.thy ===== *)
theory Concurrency
  imports Users
begin

text \<open>
  Requests run independently, but each is a chain of awaited store calls,
  and the calls of other requests may run between two of them.  This theory
  splits assign-role into its reads and checks (lines 96--130 of
  src/src/supabase/functions/manage-roles/index.ts) and its writes (lines
  132--156), and runs several requests as threads over one store: a step
  either runs a pending request's checks against the current store or
  commits a checked request's writes.  The last-administrator check reads
  the count and the writes come later, so two demotions can both pass it.
\<close>

section \<open>The two phases of assign-role\<close>

text \<open>Lines 96--130: the reads and the guards, ending in a response or in
  the writes to make: the user, the id of the new role, the role name.\<close>

definition assign_check :: "store \<Rightarrow> uuid option \<Rightarrow> body \<Rightarrow> response + (uuid \<times> uuid \<times> jval option)" where
  "assign_check s cur b =
     (let uidv = jfield b ''user_id''; rnv = jfield b ''role_name'' in
      if \<not> truthy uidv \<or> \<not> truthy rnv
      then Inl (reply 400 (ErrMsg ''Missing user_id or role_name''))
      else if cur = None then Inl (reply 401 (ErrMsg ''Unauthorized''))
      else
        (let u = js_string (the uidv); rn = js_string (the rnv) in
         case sel_role_by_name s rn of
           Inl e \<Rightarrow> Inl (fail500 e)
         | Inr None \<Rightarrow> Inl (reply 404 (ErrMsg ''Role not found''))
         | Inr (Some target) \<Rightarrow>
             (case sel_ur_by_user s u of
                Inl e \<Rightarrow> Inl (fail500 e)
              | Inr cur_roles \<Rightarrow>
                  (case sel_role_by_name s admin_role_name of
                     Inl e \<Rightarrow> Inl (fail500 e)
                   | Inr adm \<Rightarrow>
                       (case demote_guard s adm cur_roles rnv of
                          Some r \<Rightarrow> Inl r
                        | None \<Rightarrow> Inr (u, role_id target, rnv))))))"

section \<open>Threads\<close>

text \<open>A request of the model: waiting to run its checks, checked with the
  writes it will make, or answered.\<close>

datatype thread =
    Pending "uuid option" body
  | Checked "uuid option" body uuid uuid "jval option"
  | Finished response

type_synonym config = "store \<times> thread list"

text \<open>One step of one thread, the others waiting: the checks of a pending
  request read the store as it is now; the writes of a checked request
  are those its checks decided.\<close>

inductive step :: "config \<Rightarrow> config \<Rightarrow> bool" where
  check_reject: "\<lbrakk>i < length ts; ts ! i = Pending cur b; assign_check s cur b = Inl r\<rbrakk>
    \<Longrightarrow> step (s, ts) (s, ts[i := Finished r])"
| check_pass: "\<lbrakk>i < length ts; ts ! i = Pending cur b; assign_check s cur b = Inr (u, rid, rnv)\<rbrakk>
    \<Longrightarrow> step (s, ts) (s, ts[i := Checked cur b u rid rnv])"
| commit: "\<lbrakk>i < length ts; ts ! i = Checked cur b u rid rnv; assign_commit s u rid rnv = (r, s')\<rbrakk>
    \<Longrightarrow> step (s, ts) (s', ts[i := Finished r])"

text \<open>Two administrators, a and c, and a cliente role.\<close>

definition race_store :: store where
  "race_store = demo_store\<lparr>user_roles := [\<lparr>ur_user = ''a'', ur_role = ''1''\<rparr>, \<lparr>ur_user = ''c'', ur_role = ''1''\<rparr>],
     auth_users := [\<lparr>au_id = ''a'', au_email = ''a@x'', au_meta_role = None, au_disabled = False\<rparr>,
                    \<lparr>au_id = ''c'', au_email = ''c@x'', au_meta_role = None, au_disabled = False\<rparr>]\<rparr>"

definition demote_body :: "uuid \<Rightarrow> body" where
  "demote_body u = [(''user_id'', JStr u), (''role_name'', JStr ''cliente'')]"

section \<open>Lemmas\<close>

lemma assign_role_phases:
  "assign_role s cur b =
     (case assign_check s cur b of Inl r \<Rightarrow> (r, s) | Inr (u, rid, rnv) \<Rightarrow> assign_commit s u rid rnv)"
  unfolding assign_role_def assign_check_def Let_def
  by (simp split: sum.split option.split)

lemma commit_result:
  "fst (assign_commit s u rid rnv) = r \<Longrightarrow> assign_commit s u rid rnv = (r, snd (assign_commit s u rid rnv))"
  by (cases "assign_commit s u rid rnv") simp

lemma race_store_ok: "no_faults race_store \<and> wf_store race_store \<and> has_admin race_store"
  by (simp add: race_store_def demo_store_def no_faults_def wf_store_def has_admin_def admin_rows_def admin_ids_def)

lemmas race_eval = race_store_def demote_body_def demo_store_def assign_check_def assign_commit_def
  Let_def jfield_def store_prims read_call_def write_call_def fails_def demote_guard_def reply_def



lemma admin_role_of_ids:
  assumes "wf_store s" and "admin_ids s = [aid]"
  obtains a where "find (\<lambda>r. role_name r = admin_role_name) (roles s) = Some a" and "role_id a = aid"
    and "a \<in> set (roles s)" and "aid \<noteq> []"
proof -
  have names: "distinct (map role_name (roles s))" and ids: "list_all (\<lambda>r. role_id r \<noteq> []) (roles s)"
    using assms(1) by (simp_all add: wf_store_def)
  obtain a where a: "find (\<lambda>r. role_name r = admin_role_name) (roles s) = Some a" and "role_id a = aid"
    using assms(2) admin_ids_wf [OF names] by (auto split: option.splits)
  moreover have "a \<in> set (roles s)" using a find_key_Some [OF names] by blast
  moreover have "aid \<noteq> []" using calculation ids by (auto simp: list_all_iff)
  ultimately show ?thesis using that by blast
qed

lemma target_not_admin:
  assumes wf: "wf_store s" and adm: "admin_ids s = [aid]"
    and tgt: "find (\<lambda>r. role_name r = rn) (roles s) = Some t" and "rn \<noteq> admin_role_name"
  shows "role_id t \<noteq> aid"
proof
  assume tid: "role_id t = aid"
  have names: "distinct (map role_name (roles s))" and dids: "distinct (map role_id (roles s))"
    using wf by (simp_all add: wf_store_def)
  obtain a where a: "find (\<lambda>r. role_name r = admin_role_name) (roles s) = Some a" and aid: "role_id a = aid"
    and ain: "a \<in> set (roles s)"
    by (rule admin_role_of_ids [OF wf adm])
  have tin: "t \<in> set (roles s)" and tn: "role_name t = rn" using tgt find_key_Some [OF names] by blast+
  have "t = a" using dids tin ain aid tid by (metis inj_on_eq_iff distinct_map)
  then show False using tn a find_key_Some [OF names] \<open>rn \<noteq> admin_role_name\<close> by auto
qed

text \<open>With two holders of the administrator role, the checks of a request
  moving a user to another existing role pass.\<close>

lemma demote_check_passes:
  assumes nf: "no_faults s" and wf: "wf_store s" and adm: "admin_ids s = [aid]"
    and two: "2 \<le> length (filter (\<lambda>r. ur_role r = aid) (user_roles s))"
    and "cur \<noteq> None" and uid: "jfield b ''user_id'' = Some (JStr u)" and "u \<noteq> []"
    and rn: "jfield b ''role_name'' = Some (JStr rn)" and "rn \<noteq> []"
    and tgt: "find (\<lambda>r. role_name r = rn) (roles s) = Some t"
  shows "assign_check s cur b = Inr (u, role_id t, Some (JStr rn))"
proof -
  have names: "distinct (map role_name (roles s))" using wf by (simp add: wf_store_def)
  obtain a where a: "find (\<lambda>r. role_name r = admin_role_name) (roles s) = Some a" and aid: "role_id a = aid"
    by (rule admin_role_of_ids [OF wf adm])
  have guard: "demote_guard s (Some a) (filter (\<lambda>r. ur_user r = u) (user_roles s)) (Some (JStr rn)) = None"
    using nf aid two by (simp add: no_faults_def demote_guard_def sel_ur_by_role_def store_simps)
  show ?thesis
    using nf names guard uid rn tgt a \<open>cur \<noteq> None\<close> \<open>u \<noteq> []\<close> \<open>rn \<noteq> []\<close>
    by (auto simp: no_faults_def assign_check_def Let_def sel_ur_by_user_def store_simps)
qed

text \<open>The writes of assign-role moving a user to a role other than the
  administrator role remove that user's administrator rows and keep the
  others; the store stays fault free.\<close>

lemma admin_rows_after_commit:
  assumes nf: "no_faults s" and adm: "admin_ids s = [aid]" and "rid \<noteq> aid"
  shows "admin_rows (snd (assign_commit s u rid rnv)) = filter (\<lambda>r. ur_user r \<noteq> u) (admin_rows s)"
    and "admin_ids (snd (assign_commit s u rid rnv)) = [aid]"
    and "no_faults (snd (assign_commit s u rid rnv))"
proof -
  have ur: "user_roles (snd (assign_commit s u rid rnv)) =
              filter (\<lambda>r. ur_user r \<noteq> u) (user_roles s) @ [\<lparr>ur_user = u, ur_role = rid\<rparr>]"
    and rl: "roles (snd (assign_commit s u rid rnv)) = roles s"
    using assign_commit_no_faults(2,3) [OF nf] by simp_all
  show ids: "admin_ids (snd (assign_commit s u rid rnv)) = [aid]" using rl adm by (simp add: admin_ids_def)
  show "admin_rows (snd (assign_commit s u rid rnv)) = filter (\<lambda>r. ur_user r \<noteq> u) (admin_rows s)"
    using \<open>rid \<noteq> aid\<close> unfolding admin_rows_def ids adm ur by (simp add: conj_commute)
  show "no_faults (snd (assign_commit s u rid rnv))"
    using nf by (simp add: no_faults_def assign_commit_def store_writes store_simps)
qed

section \<open>Properties of concurrent requests\<close>


text \<open>C30: the race holds on every store: whenever a fault-free, well-formed store has exactly two holders ua and ub of the administrator role, two authenticated requests moving ua and ub to the same existing non-administrator role can both pass the last-administrator check before either writes; both then answer 200 and no administrator is left\<close>

theorem assign_role_race_general:
  assumes nf: "no_faults s" and wf: "wf_store s" and adm: "admin_ids s = [aid]"
    and rows: "filter (\<lambda>r. ur_role r = aid) (user_roles s) = [\<lparr>ur_user = ua, ur_role = aid\<rparr>, \<lparr>ur_user = ub, ur_role = aid\<rparr>]"
    and "ua \<noteq> ub" and "ua \<noteq> []" and "ub \<noteq> []" and "ca \<noteq> None" and "cb \<noteq> None"
    and "rn \<noteq> []" and "rn \<noteq> admin_role_name" and tgt: "find (\<lambda>r. role_name r = rn) (roles s) = Some t"
  shows "\<exists>s'. step\<^sup>*\<^sup>* (s, [Pending ca [(''user_id'', JStr ua), (''role_name'', JStr rn)],
                            Pending cb [(''user_id'', JStr ub), (''role_name'', JStr rn)]])
                       (s', [Finished (reply 200 Success), Finished (reply 200 Success)])
             \<and> \<not> has_admin s'"
proof -
  let ?rnv = "Some (JStr rn)" and ?tid = "role_id t"
  let ?ba = "[(''user_id'', JStr ua), (''role_name'', JStr rn)]" and ?bb = "[(''user_id'', JStr ub), (''role_name'', JStr rn)]"
  let ?ca = "Checked ca ?ba ua ?tid ?rnv" and ?cb = "Checked cb ?bb ub ?tid ?rnv"
  have two: "2 \<le> length (filter (\<lambda>r. ur_role r = aid) (user_roles s))" using rows by simp
  have tid: "?tid \<noteq> aid" by (rule target_not_admin [OF wf adm tgt \<open>rn \<noteq> admin_role_name\<close>])
  have cka: "assign_check s ca ?ba = Inr (ua, ?tid, ?rnv)"
    by (rule demote_check_passes [OF nf wf adm two \<open>ca \<noteq> None\<close> _ \<open>ua \<noteq> []\<close> _ \<open>rn \<noteq> []\<close> tgt])
       (simp_all add: jfield_def)
  have ckb: "assign_check s cb ?bb = Inr (ub, ?tid, ?rnv)"
    by (rule demote_check_passes [OF nf wf adm two \<open>cb \<noteq> None\<close> _ \<open>ub \<noteq> []\<close> _ \<open>rn \<noteq> []\<close> tgt])
       (simp_all add: jfield_def)
  define s1 where "s1 = snd (assign_commit s ua ?tid ?rnv)"
  define s2 where "s2 = snd (assign_commit s1 ub ?tid ?rnv)"
  have nf1: "no_faults s1" and adm1: "admin_ids s1 = [aid]"
    and ar1: "admin_rows s1 = filter (\<lambda>r. ur_user r \<noteq> ua) (admin_rows s)"
    unfolding s1_def using admin_rows_after_commit [OF nf adm tid] by simp_all
  have ar2: "admin_rows s2 = filter (\<lambda>r. ur_user r \<noteq> ub) (admin_rows s1)"
    unfolding s2_def using admin_rows_after_commit [OF nf1 adm1 tid] by simp
  have "admin_rows s = [\<lparr>ur_user = ua, ur_role = aid\<rparr>, \<lparr>ur_user = ub, ur_role = aid\<rparr>]"
    using rows adm by (simp add: admin_rows_def)
  then have "\<not> has_admin s2" using ar1 ar2 \<open>ua \<noteq> ub\<close> by (simp add: has_admin_def)
  have c1: "fst (assign_commit s ua ?tid ?rnv) = reply 200 Success" using assign_commit_no_faults(1) [OF nf] .
  have c2: "fst (assign_commit s1 ub ?tid ?rnv) = reply 200 Success" using assign_commit_no_faults(1) [OF nf1] .
  have st1: "step (s, [Pending ca ?ba, Pending cb ?bb]) (s, [Pending ca ?ba, Pending cb ?bb][0 := ?ca])"
    by (rule step.check_pass [OF _ _ cka]) simp_all
  have st2: "step (s, [?ca, Pending cb ?bb]) (s, [?ca, Pending cb ?bb][1 := ?cb])"
    by (rule step.check_pass [OF _ _ ckb]) simp_all
  have st3: "step (s, [?ca, ?cb]) (s1, [?ca, ?cb][0 := Finished (reply 200 Success)])"
    unfolding s1_def by (rule step.commit [OF _ _ commit_result [OF c1]]) simp_all
  have st4: "step (s1, [Finished (reply 200 Success), ?cb])
               (s2, [Finished (reply 200 Success), ?cb][1 := Finished (reply 200 Success)])"
    unfolding s2_def by (rule step.commit [OF _ _ commit_result [OF c2]]) simp_all
  have "step\<^sup>*\<^sup>* (s, [Pending ca ?ba, Pending cb ?bb]) (s2, [Finished (reply 200 Success), Finished (reply 200 Success)])"
    using st1 st2 st3 st4 by simp
  with \<open>\<not> has_admin s2\<close> show ?thesis by blast
qed

theorem assign_role_race_general_witness:
  "\<exists>s'. step\<^sup>*\<^sup>* (race_store, [Pending (Some ''a'') [(''user_id'', JStr ''a''), (''role_name'', JStr ''cliente'')],
                                 Pending (Some ''c'') [(''user_id'', JStr ''c''), (''role_name'', JStr ''cliente'')]])
                  (s', [Finished (reply 200 Success), Finished (reply 200 Success)])
        \<and> \<not> has_admin s'"
proof -
  have ok: "no_faults race_store" "wf_store race_store" using race_store_ok by simp_all
  show ?thesis
    by (rule assign_role_race_general [OF ok, where aid = "''1''"
          and t = "\<lparr>role_id = ''2'', role_name = ''cliente'', role_desc = None, role_disabled = False\<rparr>"])
       (simp_all add: race_eval admin_ids_def)
qed

text \<open>C31: on every fault-free, well-formed store with exactly two administrators, demoting one of them to another existing role succeeds with status 200 and leaves the other as the only administrator.\<close>

theorem assign_role_demote_one_of_two:
  assumes nf: "no_faults s" and wf: "wf_store s" and adm: "admin_ids s = [aid]"
    and rows: "filter (\<lambda>r. ur_role r = aid) (user_roles s) = [\<lparr>ur_user = ua, ur_role = aid\<rparr>, \<lparr>ur_user = ub, ur_role = aid\<rparr>]"
    and "ua \<noteq> ub" and "cur \<noteq> None"
    and uid: "jfield b ''user_id'' = Some (JStr ua)" and "ua \<noteq> []"
    and rn: "jfield b ''role_name'' = Some (JStr rn)" and "rn \<noteq> []" and "rn \<noteq> admin_role_name"
    and tgt: "find (\<lambda>r. role_name r = rn) (roles s) = Some t"
  shows "fst (assign_role s cur b) = reply 200 Success
       \<and> admin_rows (snd (assign_role s cur b)) = [\<lparr>ur_user = ub, ur_role = aid\<rparr>]"
proof -
  have "assign_check s cur b = Inr (ua, role_id t, Some (JStr rn))"
    using rows by (intro demote_check_passes [OF nf wf adm _ \<open>cur \<noteq> None\<close> uid \<open>ua \<noteq> []\<close> rn \<open>rn \<noteq> []\<close> tgt]) simp
  then have ar: "assign_role s cur b = assign_commit s ua (role_id t) (Some (JStr rn))"
    by (simp add: assign_role_phases)
  have "admin_rows s = [\<lparr>ur_user = ua, ur_role = aid\<rparr>, \<lparr>ur_user = ub, ur_role = aid\<rparr>]"
    using rows adm by (simp add: admin_rows_def)
  then show ?thesis
    using ar assign_commit_no_faults(1) [OF nf] \<open>ua \<noteq> ub\<close>
      admin_rows_after_commit(1) [OF nf adm target_not_admin [OF wf adm tgt \<open>rn \<noteq> admin_role_name\<close>]]
    by simp
qed

theorem assign_role_demote_one_of_two_witness:
  "fst (assign_role race_store (Some ''x'') (demote_body ''a'')) = reply 200 Success
   \<and> admin_rows (snd (assign_role race_store (Some ''x'') (demote_body ''a''))) = [\<lparr>ur_user = ''c'', ur_role = ''1''\<rparr>]"
proof -
  have ok: "no_faults race_store" "wf_store race_store" using race_store_ok by simp_all
  show ?thesis
    by (rule assign_role_demote_one_of_two [OF ok, where aid = "''1''" and ua = "''a''" and rn = "''cliente''"
          and t = "\<lparr>role_id = ''2'', role_name = ''cliente'', role_desc = None, role_disabled = False\<rparr>"])
       (simp_all add: race_eval admin_ids_def)
qed

end
