(* ===== verification/Spec2Isabelle.thy ===== *)
theory Spec2Isabelle
  imports Screens Examples Concurrency
begin

text \<open>
  Verification development of CeluCol's administrative back end and its
  notification functions.

  \<^bold>\<open>The program.\<close>  CeluCol's administration runs on Supabase.  The
  manage-roles edge function (src/src/supabase/functions/manage-roles/
  index.ts; an older copy with only the role handlers under
  src/supabase/functions/manage-roles/index.ts) serves two groups of
  endpoints.  The user endpoints under /manage-users list users, assign a
  role, disable a user and delete one.  The role endpoints under
  /manage-roles create, list, replace and delete roles with their
  permissions.  The older endpoints under /manage-roles/users list and
  change role rows directly.  The admin screens (src/src/components) call
  these endpoints.  Two further functions send notifications:
  whatsapp-notify (src/supabase/functions/whatsapp-notify/index.ts) sends a
  WhatsApp message through the Cloud API, and its client helpers
  (helpers.ts) build order messages and call it; send-email
  (src/src/supabase/functions/send-email/index.ts) builds one of three
  e-mails and hands it to Resend.

  \<^bold>\<open>Modelling.\<close>  Each handler is a HOL function from the store and the
  request body to the response and the new store, written from the source
  statement by statement.  Every \<open>if (error) throw error\<close> is a branch, and
  calls made before an error keep their effect, as no handler runs in a
  transaction.  JSON bodies are the datatype \<open>jval\<close>.  Where a handler reads
  a field with JavaScript semantics, that semantics is modelled: truthiness,
  \<open>String(v)\<close>, strict equality on the raw value, \<open>typeof\<close>, and
  \<open>String.prototype.trim\<close> on UTF-8 bytes.  Calls to external services (the
  WhatsApp Cloud API, Resend, the function behind a helper) are outputs of
  the model: the list of requests made.  Their answers are inputs: an
  \<open>api_answer\<close>, a \<open>resend_answer\<close> or a transport.

  \<^bold>\<open>Theories.\<close>
  \<^item> Prelude: the proof collections \<open>handler_simps\<close> and \<open>store_simps\<close> and
    generic lemmas on lists and association lists.
  \<^item> Http: \<open>jval\<close>, \<open>jfield\<close> (the last binding of a key, as
    \<open>JSON.parse\<close> keeps it), \<open>truthy\<close>, \<open>js_string\<close> and \<open>bearer_token\<close>.
  \<^item> Store: the hosted tables and identity provider as a record \<open>store\<close>.
    There is one primitive per supabase-js call of the handlers
    (\<open>sel_role_by_name\<close>, \<open>ins_ur\<close>, \<open>ups_perms\<close>, \<open>auth_delete\<close>, ...).
    These are modelled from the spec's data model: unique names, join
    tables keyed on pairs, and \<open>maybeSingle\<close>.  The fault model is a list
    \<open>faults\<close> of the calls that answer with an error (\<open>fails\<close>), so every
    error branch is reachable.  \<open>no_faults\<close> selects the runs where nothing
    fails.
  \<^item> Users: assign-role (\<open>assign_role\<close> = \<open>demote_guard\<close> then
    \<open>assign_commit\<close>), disable (\<open>set_active\<close>, \<open>revoke_access\<close>), delete
    (\<open>delete_user\<close> = \<open>delete_guard\<close> then \<open>delete_commit\<close>), and the older
    \<open>legacy_assign\<close> and \<open>legacy_unassign\<close>.  \<open>has_admin\<close> and \<open>wf_store\<close>
    state the last-administrator invariant.
  \<^item> Roles: \<open>list_roles\<close>, \<open>create_role\<close>, \<open>update_role\<close> and
    \<open>delete_role\<close>.  POST and PUT share the permission pipeline
    \<open>attach_perms\<close>.
  \<^item> Listing: \<open>list_users\<close> (GET /manage-users) and \<open>list_users_legacy\<close>.
  \<^item> Router: \<open>manage_roles\<close> splits the path and dispatches through
    \<open>users_route\<close> and \<open>roles_route\<close>.  \<open>manage_roles_v1\<close> is the older
    function's dispatch.
  \<^item> Concurrency: the inductive step relation \<open>step\<close>.  Threads run
    assign-role's checks (\<open>assign_check\<close>) and its writes
    (\<open>assign_commit\<close>) as separate steps over one store, as the awaited
    calls of concurrent requests may interleave.  Each step is one phase,
    which is coarser than the code's awaits but contains the interleaving
    that matters: another request's writes between the check and the
    writes.
  \<^item> Whatsapp: \<open>whatsapp_notify\<close> with its checks in source order
    (\<open>wa_checks\<close>, \<open>is_valid_phone\<close>, \<open>js_blank\<close>) and the API call
    (\<open>wa_send\<close>).
  \<^item> Helpers: \<open>send_order_status_update\<close>, \<open>send_payment_confirmation\<close>
    and \<open>send_custom_message\<close> over \<open>deliver\<close>.  \<open>edge_transport\<close>
    plugs in \<open>whatsapp_notify\<close> as the function the helpers call.
  \<^item> Email: \<open>send_email\<close>, \<open>build_email\<close>, the status tables and the
    \<open>timeline\<close> of the update e-mail.
  \<^item> Ui: RoleForm's state \<open>role_form\<close>, its handlers \<open>add_permission\<close> and
    \<open>remove_permission\<close>, and its reachable states \<open>form_reach\<close>.  It also
    holds the requests the screens send: \<open>form_request\<close>,
    \<open>role_delete_request\<close>, \<open>disable_request\<close>, \<open>delete_request\<close> and
    \<open>assign_request\<close>.
  \<^item> Screens: the state of UsersView, UsersRolesPanel and RolesView
    (records \<open>users_view\<close>, \<open>panel\<close>, \<open>roles_view\<close>) and each action
    on it (\<open>user_row_assign\<close>, \<open>panel_toggle\<close>, \<open>roles_view_delete\<close>,
    \<open>roles_view_save\<close>, ...).  Each action is run against
    \<open>manage_roles\<close> over one store: the request, then the refresh of the
    list on a 2xx answer, or an alert with the status.
  \<^item> Examples: the callers in examples.ts.  These are the helper wrappers,
    \<open>process_payment\<close>, the direct call \<open>send_direct_backend\<close> and the
    webhook \<open>payment_webhook\<close>, the frontend sender
    \<open>send_notification\<close> with its hook and the checkout component, the
    supabase-js calls and the status test.  A fetch of the function is a
    raw transport; \<open>edge_raw\<close> plugs in the whatsapp-notify handler.

  \<^bold>\<open>What is proved.\<close>
  \<^item> Users: on a fault-free, well-formed store, assign-role and delete keep
    an administrator.  Each guard's refusal is an exact response with no
    write.  The ways the invariant is lost are theorems over every store
    that satisfies their conditions: an array user_id passes both
    strict-equality guards of delete, whoever the caller is; a failed
    lookup of the administrator role skips the delete guard; a failed
    insert after the delete leaves the user with no role; the older
    endpoints remove and add rows with no guard, so a user may hold two
    roles; any authenticated caller may make themself administrator.
  \<^item> Roles: after a successful PUT the role's mappings are exactly those
    requested; after a successful POST the new role holds every requested
    permission.  PUT replayed, and the permission pipeline replayed, are
    idempotent.  The error paths are proved over every store: partial
    writes on null elements, and failures after earlier writes on a
    permission named twice or named and given by id.
  \<^item> Concurrency: on every fault-free, well-formed store with exactly two
    administrators, two requests demoting one each can both pass the
    check before either writes; both answer 200 and no administrator is
    left.  A single demotion of one of two administrators succeeds and
    keeps the other.
  \<^item> Router: on role requests the newer function equals the older one.
    For every store and authorization header, a DELETE or POST to
    /manage-users that no user endpoint takes falls through to the role
    handlers, which do not check the caller.
  \<^item> Listing: the older listing refines the newer one; it is the newer
    one without \<open>is_active\<close>.  Only the first page of 50 identity users
    is shown.
  \<^item> Whatsapp, Helpers: every API request made passed the phone and
    message checks.  A valid phone wrapped in a one-element array passes
    the check on String(phone) and is sent to the API as the array.  A status update through the helper reaches the API
    exactly once, with the helper's message.  An invalid phone is refused
    with no request.
  \<^item> Email: the timeline of a cancelled order shows it as confirmed.  A
    refusal that Resend reports in its answer is reported as success.
  \<^item> Ui: the role form's permission list stays duplicate-free, so its saves
    never hit the duplicate-name failure of the permission upsert.  Every
    request of the screens reaches the handler meant for it.
  \<^item> Screens: disabling a role from RolesView never changes the options of
    UserRoleSelector.  On the demonstration store, a disabled role is
    offered and assigned.
  \<^item> Examples: the payment flow makes exactly two API calls, in order,
    whatever they answer.  The webhook fails an approved payment whose
    phone is refused.  The checkout component logs a stale error.

  \<^bold>\<open>Bounds.\<close>  No model uses fuel.  Every recursion is structural, or is
  a \<open>function\<close> with a length measure (\<open>js_blank\<close>, \<open>js_trim_start\<close>,
  \<open>js_trim_end\<close>), so every definition is total and executable.  The
  identity listing returns at most 50 users, the size of the first page
  of \<open>auth.admin.listUsers()\<close>.

  \<^bold>\<open>Not modelled.\<close>
  \<^item> CORS headers, console logging, the HTML and CSS of the e-mails beyond
    the values they interpolate, and \<open>toLocaleString\<close> formatting.
  \<^item> Lookups of keys inherited from \<open>Object.prototype\<close>.
  \<^item> The platform gateway in front of the functions.
  \<^item> In the screens and examples: markup, the text of alerts and toasts,
    \<open>setTimeout\<close> and the React scheduling of state updates.  Each
    action's updates are applied in the order the code makes them.
  \<^item> The database itself beyond the row semantics the calls rely on.
    There are no foreign keys, so a PUT or an older POST naming an unknown
    id writes mappings for it.

  \<^bold>\<open>Approximations.\<close>  \<open>revoke_access\<close> models the disable flag and
  the refresh-token delete as effective writes; on the hosted platform
  \<open>updateUserById\<close> with \<open>disabled\<close> and a delete on
  \<open>auth.refresh_tokens\<close> through the REST schema likely change nothing.
  \<open>upd_role\<close> writes a name given as \<open>null\<close> as the string \<open>null\<close>.
  Neither affects a theorem about the administrator invariant.
\<close>

end
